theory Spec2Isabelle
  imports Complex_Main
begin

section \<open>Numbers and typed arrays\<close>

text \<open>
  The engine computes with JavaScript numbers.  Control values (rates, tempi, phases,
  millisecond durations) are modelled as exact reals, frame counts and array indices as
  integers (they may be negative in the source, which checks for it), and audio samples as
  a real or \<open>NaN\<close>: reading a typed array outside its bounds yields \<open>undefined\<close>, which
  turns into \<open>NaN\<close> in arithmetic and is stored as \<open>NaN\<close> in a \<open>Float32Array\<close>.
  Rounding to binary floating point is not represented.  Overflow to \<open>Infinity\<close> is
  represented where a frame count is computed from the caller's arguments, in
  \<open>calculateOverlapLength\<close>.
\<close>

text \<open>
  The outcomes that end a run in the embedding.  \<open>RangeError\<close> and \<open>TypeError\<close> are the
  exceptions of the language.  \<open>NotANumber\<close> is not an exception: it marks a call that
  returns after it has stored \<open>NaN\<close> in a frame count of the object.  The state records hold
  integers there, and every frame count the object computes afterwards is \<open>NaN\<close> as well.
\<close>

datatype error = RangeError | TypeError | NotANumber

datatype sample = Val real | NaN

instantiation sample :: "{plus,times}"
begin

definition plus_sample :: "sample \<Rightarrow> sample \<Rightarrow> sample" where
  "plus_sample a b =
     (case a of NaN \<Rightarrow> NaN | Val x \<Rightarrow> (case b of NaN \<Rightarrow> NaN | Val y \<Rightarrow> Val (x + y)))"

definition times_sample :: "sample \<Rightarrow> sample \<Rightarrow> sample" where
  "times_sample a b =
     (case a of NaN \<Rightarrow> NaN | Val x \<Rightarrow> (case b of NaN \<Rightarrow> NaN | Val y \<Rightarrow> Val (x * y)))"

instance ..

end

text \<open>\<open>a > b\<close> on numbers: false as soon as one side is \<open>NaN\<close>.\<close>

definition gt_sample :: "sample \<Rightarrow> sample \<Rightarrow> bool" where
  "gt_sample a b =
     (case a of NaN \<Rightarrow> False | Val x \<Rightarrow> (case b of NaN \<Rightarrow> False | Val y \<Rightarrow> x > y))"

text \<open>The remainder operator \<open>%\<close> on integers: the sign follows the dividend.\<close>

definition js_rem :: "int \<Rightarrow> int \<Rightarrow> int" where
  "js_rem a b = sgn a * (\<bar>a\<bar> mod \<bar>b\<bar>)"

text \<open>\<open>new Float32Array(n)\<close>: \<open>n\<close> zeros.\<close>

definition new_Float32Array :: "int \<Rightarrow> sample list" where
  "new_Float32Array n = replicate (nat n) (Val 0)"

text \<open>\<open>a[i]\<close> as an rvalue and \<open>a[i] = v\<close>: an index outside the array reads
  \<open>undefined\<close> and writes nothing.\<close>

definition rd :: "sample list \<Rightarrow> int \<Rightarrow> sample" where
  "rd a i = (if 0 \<le> i \<and> i < int (length a) then a ! nat i else NaN)"

definition wr :: "sample list \<Rightarrow> int \<Rightarrow> sample \<Rightarrow> sample list" where
  "wr a i v = (if 0 \<le> i \<and> i < int (length a) then a[nat i := v] else a)"

text \<open>\<open>a.subarray(begin, end)\<close>: both bounds are clamped to the array, a negative bound
  counts from the end.\<close>

definition rel_index :: "int \<Rightarrow> int \<Rightarrow> int" where
  "rel_index len i = (if i < 0 then max (len + i) 0 else min i len)"

definition subarray :: "sample list \<Rightarrow> int \<Rightarrow> int \<Rightarrow> sample list" where
  "subarray a b e =
     (let len = int (length a); b' = rel_index len b; e' = rel_index len e
      in take (nat (max (e' - b') 0)) (drop (nat b') a))"

text \<open>\<open>dst.set(src, offset)\<close>: raises \<open>RangeError\<close> when the source does not fit.\<close>

definition set_arr :: "sample list \<Rightarrow> sample list \<Rightarrow> int \<Rightarrow> error + sample list" where
  "set_arr dst src off =
     (if off < 0 \<or> off + int (length src) > int (length dst) then Inl RangeError
      else Inr (take (nat off) dst @ src @ drop (nat off + length src) dst))"

text \<open>Sequencing of steps that may raise.\<close>

definition thenE :: "error + 'a \<Rightarrow> ('a \<Rightarrow> error + 'b) \<Rightarrow> error + 'b" where
  "thenE r f = (case r of Inl e \<Rightarrow> Inl e | Inr x \<Rightarrow> f x)"

text \<open>
  \<open>new Float32Array(length)\<close> where the length comes from the caller's arguments: a length
  below zero or above the limit of the engine raises \<open>RangeError\<close>.  The limit is not part
  of the repository; ECMAScript requires the error above \<open>2^53 - 1\<close> and leaves smaller
  limits to the engine, and the value here is \<open>2^32 - 1\<close>.  A product of two numbers whose
  exact value is \<open>2^1024 - 2^970\<close> or more is \<open>Infinity\<close> in binary64.
\<close>

definition Float32Array_MAX_LENGTH :: int where
  "Float32Array_MAX_LENGTH = 2 ^ 32 - 1"

definition Float32Array_of_length :: "int \<Rightarrow> error + sample list" where
  "Float32Array_of_length n =
     (if n < 0 \<or> n > Float32Array_MAX_LENGTH then Inl RangeError
      else Inr (new_Float32Array n))"

definition product_is_Infinity :: "real \<Rightarrow> real \<Rightarrow> bool" where
  "product_is_Infinity a b = (a * b \<ge> 2 ^ 1024 - 2 ^ 970)"

section \<open>FifoSampleBuffer\<close>

text \<open>
  The library class \<open>FifoSampleBuffer\<close> and the worklet's inlined \<open>FifoBuffer\<close> have the
  same fields and, method by method, the same bodies; one embedding serves both.
\<close>

record FifoSampleBuffer =
  vector :: "sample list"
  position :: int
  frameCount :: int

definition Fifo_new :: "int \<Rightarrow> FifoSampleBuffer" where
  "Fifo_new initialCapacity =
     \<lparr>vector = new_Float32Array (initialCapacity * 2), position = 0, frameCount = 0\<rparr>"

definition startIndex :: "FifoSampleBuffer \<Rightarrow> int" where
  "startIndex f = position f * 2"

definition endIndex :: "FifoSampleBuffer \<Rightarrow> int" where
  "endIndex f = (position f + frameCount f) * 2"

definition put :: "FifoSampleBuffer \<Rightarrow> int \<Rightarrow> FifoSampleBuffer" where
  "put f numFrames = f\<lparr>frameCount := frameCount f + numFrames\<rparr>"

definition receive :: "FifoSampleBuffer \<Rightarrow> int \<Rightarrow> FifoSampleBuffer" where
  "receive f numFrames =
     (let n = (if numFrames < 0 \<or> numFrames > frameCount f then frameCount f else numFrames)
      in f\<lparr>frameCount := frameCount f - n, position := position f + n\<rparr>)"

definition rewind :: "FifoSampleBuffer \<Rightarrow> error + FifoSampleBuffer" where
  "rewind f =
     (if position f > 0
      then thenE (set_arr (vector f) (subarray (vector f) (startIndex f) (endIndex f)) 0)
             (\<lambda>v. Inr (f\<lparr>vector := v, position := 0\<rparr>))
      else Inr f)"

definition clear :: "FifoSampleBuffer \<Rightarrow> error + FifoSampleBuffer" where
  "clear f = rewind (receive f (frameCount f))"

definition ensureCapacity :: "FifoSampleBuffer \<Rightarrow> int \<Rightarrow> error + FifoSampleBuffer" where
  "ensureCapacity f numFrames =
     (let requiredSize = numFrames * 2
      in if int (length (vector f)) < requiredSize
         then thenE (set_arr (new_Float32Array requiredSize)
                       (subarray (vector f) (startIndex f) (endIndex f)) 0)
                (\<lambda>newVector. Inr (f\<lparr>vector := newVector, position := 0\<rparr>))
         else rewind f)"

text \<open>\<open>putSamples(samples, offset, numFrames)\<close> with all three arguments given, as every
  call in the engine and the worklet does.\<close>

definition putSamples ::
  "FifoSampleBuffer \<Rightarrow> sample list \<Rightarrow> int \<Rightarrow> int \<Rightarrow> error + FifoSampleBuffer" where
  "putSamples f samples offset numFrames =
     (let sourceStart = offset * 2
      in thenE (ensureCapacity f (frameCount f + numFrames))
           (\<lambda>f1. let destStart = endIndex f1; count = numFrames * 2
                 in thenE (set_arr (vector f1)
                             (subarray samples sourceStart (sourceStart + count)) destStart)
                      (\<lambda>v. Inr (f1\<lparr>vector := v, frameCount := frameCount f1 + numFrames\<rparr>))))"

definition putBuffer ::
  "FifoSampleBuffer \<Rightarrow> FifoSampleBuffer \<Rightarrow> int \<Rightarrow> int \<Rightarrow> error + FifoSampleBuffer" where
  "putBuffer f buffer offset numFrames =
     putSamples f (vector buffer) (position buffer + offset) numFrames"

text \<open>\<open>receiveSamples(output, numFrames)\<close> returns the written output array and the
  buffer.\<close>

definition receiveSamples ::
  "FifoSampleBuffer \<Rightarrow> sample list \<Rightarrow> int \<Rightarrow> error + (sample list \<times> FifoSampleBuffer)" where
  "receiveSamples f output numFrames =
     (let count = numFrames * 2; start = startIndex f
      in thenE (set_arr output (subarray (vector f) start (start + count)) 0)
           (\<lambda>out. Inr (out, receive f numFrames)))"

definition extract_peek ::
  "FifoSampleBuffer \<Rightarrow> sample list \<Rightarrow> int \<Rightarrow> int \<Rightarrow> error + sample list" where
  "extract_peek f output offset numFrames =
     (let start = startIndex f + offset * 2; count = numFrames * 2
      in set_arr output (subarray (vector f) start (start + count)) 0)"

section \<open>RateTransposer\<close>

text \<open>
  The fields of the class; the two buffers it refers to are objects shared with the engine
  and are passed to each method beside the record (\<open>inp\<close> for \<open>inputBuffer\<close>, \<open>out\<close> for
  \<open>outputBuffer\<close>, two distinct objects).  The worklet's inlined \<open>RateTransposer\<close> has the
  same fields.
\<close>

record RateTransposer =
  rt_rate :: real
  rt_slopeCount :: real
  rt_prevSampleL :: sample
  rt_prevSampleR :: sample

definition RateTransposer_new :: RateTransposer where
  "RateTransposer_new =
     \<lparr>rt_rate = 1, rt_slopeCount = 0, rt_prevSampleL = Val 0, rt_prevSampleR = Val 0\<rparr>"

definition RateTransposer_set_rate :: "RateTransposer \<Rightarrow> real \<Rightarrow> RateTransposer" where
  "RateTransposer_set_rate t v = t\<lparr>rt_rate := v\<rparr>"

definition RateTransposer_reset ::
  "RateTransposer \<Rightarrow> FifoSampleBuffer \<Rightarrow> FifoSampleBuffer
     \<Rightarrow> error + RateTransposer \<times> FifoSampleBuffer \<times> FifoSampleBuffer" where
  "RateTransposer_reset t inp out =
     thenE (clear inp) (\<lambda>inp'. thenE (clear out) (\<lambda>out'.
       Inr (t\<lparr>rt_slopeCount := 0, rt_prevSampleL := Val 0, rt_prevSampleR := Val 0\<rparr>,
            inp', out')))"

text \<open>The first loop of \<open>transpose\<close>: frames interpolated between the frame kept from the
  previous call and the first input frame.  It runs for ever when the rate is not positive;
  \<open>None\<close> stands for that.\<close>

partial_function (option) transpose_prev ::
  "real \<Rightarrow> sample \<Rightarrow> sample \<Rightarrow> sample list \<Rightarrow> int \<Rightarrow> int
     \<Rightarrow> real \<Rightarrow> int \<Rightarrow> sample list \<Rightarrow> (real \<times> int \<times> sample list) option" where
  "transpose_prev rate prevSampleL prevSampleR input inputStart outputStart
       slopeCount outputCount output =
     (if slopeCount < 1
      then (let weight = slopeCount;
                output1 = wr output (outputStart + outputCount * 2)
                            (Val (1 - weight) * prevSampleL + Val weight * rd input inputStart);
                output2 = wr output1 (outputStart + outputCount * 2 + 1)
                            (Val (1 - weight) * prevSampleR
                               + Val weight * rd input (inputStart + 1))
            in transpose_prev rate prevSampleL prevSampleR input inputStart outputStart
                 (slopeCount + rate) (outputCount + 1) output2)
      else Some (slopeCount, outputCount, output))"

text \<open>The inner loop \<open>while (slopeCount >= 1.0)\<close> with its \<open>break\<close>.\<close>

function advance_input :: "int \<Rightarrow> real \<Rightarrow> int \<Rightarrow> real \<times> int" where
  "advance_input numFrames slopeCount inputIndex =
     (if slopeCount \<ge> 1
      then (if inputIndex + 1 \<ge> numFrames - 1 then (slopeCount - 1, inputIndex + 1)
            else advance_input numFrames (slopeCount - 1) (inputIndex + 1))
      else (slopeCount, inputIndex))"
  by pat_completeness auto
termination
  by (relation "measure (\<lambda>(numFrames, slopeCount, inputIndex). nat (numFrames - inputIndex))")
    auto

declare advance_input.simps [simp del]

text \<open>The loop \<open>while (true)\<close> over the remaining input frames.\<close>

partial_function (option) transpose_rest ::
  "real \<Rightarrow> sample list \<Rightarrow> int \<Rightarrow> int \<Rightarrow> int
     \<Rightarrow> real \<Rightarrow> int \<Rightarrow> int \<Rightarrow> sample list \<Rightarrow> (real \<times> int \<times> sample list) option" where
  "transpose_rest rate input inputStart outputStart numFrames
       slopeCount inputIndex outputCount output =
     (case advance_input numFrames slopeCount inputIndex of
        (slopeCount1, inputIndex1) \<Rightarrow>
          if inputIndex1 \<ge> numFrames - 1 then Some (slopeCount1, outputCount, output)
          else (let idx = inputStart + inputIndex1 * 2;
                    weight = slopeCount1;
                    output1 = wr output (outputStart + outputCount * 2)
                                (Val (1 - weight) * rd input idx
                                   + Val weight * rd input (idx + 2));
                    output2 = wr output1 (outputStart + outputCount * 2 + 1)
                                (Val (1 - weight) * rd input (idx + 1)
                                   + Val weight * rd input (idx + 3))
                in transpose_rest rate input inputStart outputStart numFrames
                     (slopeCount1 + rate) inputIndex1 (outputCount + 1) output2))"

text \<open>\<open>transpose(numFrames)\<close> returns the transposer, the output buffer with the frames
  written behind its live frames, and the number of frames written.\<close>

definition transpose ::
  "RateTransposer \<Rightarrow> FifoSampleBuffer \<Rightarrow> FifoSampleBuffer \<Rightarrow> int
     \<Rightarrow> (RateTransposer \<times> FifoSampleBuffer \<times> int) option" where
  "transpose t inp out numFrames =
     (if numFrames = 0 then Some (t, out, 0)
      else
        (let input = vector inp; inputStart = startIndex inp;
             output = vector out; outputStart = endIndex out
         in case transpose_prev (rt_rate t) (rt_prevSampleL t) (rt_prevSampleR t)
                   input inputStart outputStart (rt_slopeCount t) 0 output of
              None \<Rightarrow> None
            | Some (slopeCount1, outputCount1, output1) \<Rightarrow>
                (case (if numFrames > 1
                       then transpose_rest (rt_rate t) input inputStart outputStart numFrames
                              (slopeCount1 - 1) 0 outputCount1 output1
                       else Some (slopeCount1 - 1, outputCount1, output1)) of
                   None \<Rightarrow> None
                 | Some (slopeCount2, outputCount2, output2) \<Rightarrow>
                     Some (t\<lparr>rt_slopeCount := slopeCount2,
                             rt_prevSampleL := rd input (inputStart + (numFrames - 1) * 2),
                             rt_prevSampleR := rd input (inputStart + (numFrames - 1) * 2 + 1)\<rparr>,
                           out\<lparr>vector := output2\<rparr>, outputCount2))))"

text \<open>\<open>process()\<close>.  With rate 0 the requested capacity is infinite and allocating it
  raises \<open>RangeError\<close>.\<close>

definition RateTransposer_process ::
  "RateTransposer \<Rightarrow> FifoSampleBuffer \<Rightarrow> FifoSampleBuffer
     \<Rightarrow> (error + RateTransposer \<times> FifoSampleBuffer \<times> FifoSampleBuffer) option" where
  "RateTransposer_process t inp out =
     (let numFrames = frameCount inp
      in if numFrames = 0 then Some (Inr (t, inp, out))
         else if rt_rate t = 0 then Some (Inl RangeError)
         else
           (case ensureCapacity out
                   (frameCount out + \<lceil>real_of_int numFrames / rt_rate t\<rceil> + 1) of
              Inl e \<Rightarrow> Some (Inl e)
            | Inr out1 \<Rightarrow>
                (case transpose t inp out1 numFrames of
                   None \<Rightarrow> None
                 | Some (t', out2, outputCount) \<Rightarrow>
                     Some (Inr (t', receive inp numFrames, put out2 outputCount)))))"

section \<open>TimeStretch\<close>

text \<open>The library class.  A \<open>null\<close> array is \<open>None\<close>; the two buffers are passed beside
  the record, as for the transposer.\<close>

record TimeStretch =
  ts_sampleRate :: real
  ts_tempo :: real
  ts_sequenceMs :: real
  ts_seekWindowMs :: real
  ts_overlapMs :: real
  ts_sequenceLength :: int
  ts_seekLength :: int
  ts_overlapLength :: int
  ts_nominalSkip :: real
  ts_skipFract :: real
  ts_midBuffer :: "sample list option"
  ts_refMidBuffer :: "sample list option"
  ts_sampleReq :: int

definition TimeStretch_new :: TimeStretch where
  "TimeStretch_new =
     \<lparr>ts_sampleRate = 44100, ts_tempo = 1, ts_sequenceMs = 0, ts_seekWindowMs = 0,
      ts_overlapMs = 16, ts_sequenceLength = 0, ts_seekLength = 0, ts_overlapLength = 0,
      ts_nominalSkip = 0, ts_skipFract = 0, ts_midBuffer = None, ts_refMidBuffer = None,
      ts_sampleReq = 0\<rparr>"

definition SCAN_OFFSETS :: "int list list" where
  "SCAN_OFFSETS =
     [[124, 186, 248, 310, 372, 434, 496, 558, 620, 682, 744, 806, 868, 930, 992, 1054,
       1116, 1178, 1240, 1302, 1364, 1426, 1488, 0],
      [-100, -75, -50, -25, 25, 50, 75, 100, 0, 0, 0, 0, 0, 0, 0, 0, 0, 0, 0, 0, 0, 0, 0, 0],
      [-20, -15, -10, -5, 5, 10, 15, 20, 0, 0, 0, 0, 0, 0, 0, 0, 0, 0, 0, 0, 0, 0, 0, 0],
      [-4, -3, -2, -1, 1, 2, 3, 4, 0, 0, 0, 0, 0, 0, 0, 0, 0, 0, 0, 0, 0, 0, 0, 0]]"

text \<open>\<open>Number.MIN_VALUE\<close>, the smallest positive double.\<close>

definition Number_MIN_VALUE :: real where
  "Number_MIN_VALUE = 1 / 2 ^ 1074"

definition seekWindowLength :: "TimeStretch \<Rightarrow> int" where
  "seekWindowLength s = ts_sequenceLength s"

definition calculateEffectiveParams :: "TimeStretch \<Rightarrow> TimeStretch" where
  "calculateEffectiveParams s =
     s\<lparr>ts_sequenceLength :=
         (if ts_sequenceMs s = 0
          then (let seqMs = 125 - (125 - 50) / (2 - 0.5) * (ts_tempo s - 0.5)
                in \<lfloor>ts_sampleRate s * max 50 (min 125 seqMs) / 1000\<rfloor>)
          else \<lfloor>ts_sampleRate s * ts_sequenceMs s / 1000\<rfloor>),
       ts_seekLength :=
         (if ts_seekWindowMs s = 0
          then (let seekMs = 25 - (25 - 15) / (2 - 0.5) * (ts_tempo s - 0.5)
                in \<lfloor>ts_sampleRate s * max 15 (min 25 seekMs) / 1000\<rfloor>)
          else \<lfloor>ts_sampleRate s * ts_seekWindowMs s / 1000\<rfloor>)\<rparr>"

text \<open>
  \<open>calculateOverlapLength()\<close>.  When \<open>sampleRate * overlapMs\<close> is \<open>Infinity\<close>, so is its
  floor, \<open>overlap % 8\<close> is \<open>NaN\<close>, and the method stores \<open>NaN\<close> in \<open>overlapLength\<close> and
  allocates two empty arrays.  Otherwise the overlap is a whole number and the two allocations
  raise \<open>RangeError\<close> when it is too large; the first of them comes after the assignment to
  \<open>overlapLength\<close>, which the returned error does not show.
\<close>

definition calculateOverlapLength :: "TimeStretch \<Rightarrow> error + TimeStretch" where
  "calculateOverlapLength s =
     (if product_is_Infinity (ts_sampleRate s) (ts_overlapMs s) then Inl NotANumber
      else
        (let overlap0 = \<lfloor>ts_sampleRate s * ts_overlapMs s / 1000\<rfloor>;
             overlap1 = (if overlap0 < 16 then 16 else overlap0);
             overlap = overlap1 - js_rem overlap1 8
         in thenE (Float32Array_of_length (overlap * 2)) (\<lambda>refMidBuffer.
              thenE (Float32Array_of_length (overlap * 2)) (\<lambda>midBuffer.
                Inr (s\<lparr>ts_overlapLength := overlap,
                       ts_refMidBuffer := Some refMidBuffer,
                       ts_midBuffer := Some midBuffer\<rparr>)))))"

definition TimeStretch_set_tempo :: "TimeStretch \<Rightarrow> real \<Rightarrow> TimeStretch" where
  "TimeStretch_set_tempo s0 v =
     (let s = calculateEffectiveParams (s0\<lparr>ts_tempo := v\<rparr>);
          nominalSkip = ts_tempo s * real_of_int (seekWindowLength s - ts_overlapLength s);
          skip = \<lfloor>nominalSkip + 0.5\<rfloor>
      in s\<lparr>ts_nominalSkip := nominalSkip, ts_skipFract := 0,
            ts_sampleReq :=
              max (skip + ts_overlapLength s) (seekWindowLength s) + ts_seekLength s\<rparr>)"

text \<open>\<open>setParameters(sampleRate, sequenceMs = 0, seekWindowMs = 0, overlapMs = 16)\<close>; a
  caller leaving an argument out passes the default shown.\<close>

definition TimeStretch_setParameters ::
  "TimeStretch \<Rightarrow> real \<Rightarrow> real \<Rightarrow> real \<Rightarrow> real \<Rightarrow> error + TimeStretch" where
  "TimeStretch_setParameters s sampleRate sequenceMs seekWindowMs overlapMs =
     (let s1 = s\<lparr>ts_sampleRate := (if sampleRate > 0 then sampleRate else ts_sampleRate s),
                 ts_overlapMs := (if overlapMs > 0 then overlapMs else ts_overlapMs s),
                 ts_sequenceMs := sequenceMs, ts_seekWindowMs := seekWindowMs\<rparr>
      in thenE (calculateOverlapLength (calculateEffectiveParams s1)) (\<lambda>s2.
           Inr (TimeStretch_set_tempo s2 (ts_tempo s2))))"

definition TimeStretch_reset ::
  "TimeStretch \<Rightarrow> FifoSampleBuffer \<Rightarrow> FifoSampleBuffer
     \<Rightarrow> error + TimeStretch \<times> FifoSampleBuffer \<times> FifoSampleBuffer" where
  "TimeStretch_reset s inp out =
     thenE (clear inp) (\<lambda>inp'. thenE (clear out) (\<lambda>out'.
       Inr (s\<lparr>ts_midBuffer := None, ts_skipFract := 0\<rparr>, inp', out')))"

text \<open>\<open>precalcCorrReference\<close>, on the two arrays.  The source asserts both non-null and
  touches them only inside the loop.\<close>

definition precalc_frame :: "int \<Rightarrow> sample list \<Rightarrow> int \<Rightarrow> sample list \<Rightarrow> sample list" where
  "precalc_frame overlapLength midBuffer i refMidBuffer =
     (let weight = i * (overlapLength - i); idx = i * 2;
          ref1 = wr refMidBuffer idx (rd midBuffer idx * Val (real_of_int weight))
      in wr ref1 (idx + 1) (rd midBuffer (idx + 1) * Val (real_of_int weight)))"

definition precalcCorrReference :: "TimeStretch \<Rightarrow> error + TimeStretch" where
  "precalcCorrReference s =
     (if ts_overlapLength s \<le> 0 then Inr s
      else case ts_refMidBuffer s of
             None \<Rightarrow> Inl TypeError
           | Some refMidBuffer \<Rightarrow>
               (case ts_midBuffer s of
                  None \<Rightarrow> Inl TypeError
                | Some midBuffer \<Rightarrow>
                    Inr (s\<lparr>ts_refMidBuffer :=
                             Some (fold (precalc_frame (ts_overlapLength s) midBuffer)
                                     (map int [0..<nat (ts_overlapLength s)])
                                     refMidBuffer)\<rparr>)))"

text \<open>\<open>calculateCrossCorr(offset)\<close>: the loop starts at sample index 2.\<close>

definition crossCorr_sum :: "int \<Rightarrow> sample list \<Rightarrow> int \<Rightarrow> sample list \<Rightarrow> sample" where
  "crossCorr_sum overlapLength input inputStart refMidBuffer =
     fold (\<lambda>k corr. let i = k * 2
                     in corr + (rd input (inputStart + i) * rd refMidBuffer i
                                + rd input (inputStart + i + 1) * rd refMidBuffer (i + 1)))
       (map int [1..<nat overlapLength]) (Val 0)"

definition calculateCrossCorr :: "TimeStretch \<Rightarrow> FifoSampleBuffer \<Rightarrow> int \<Rightarrow> error + sample" where
  "calculateCrossCorr s inp offset =
     (if ts_overlapLength s \<le> 1 then Inr (Val 0)
      else case ts_refMidBuffer s of
             None \<Rightarrow> Inl TypeError
           | Some refMidBuffer \<Rightarrow>
               Inr (crossCorr_sum (ts_overlapLength s) (vector inp) (startIndex inp + offset)
                      refMidBuffer))"

text \<open>\<open>seekBestOverlapPositionQuick\<close>: one scan level walks its row of offsets up to the
  first zero entry.\<close>

definition scan_entry ::
  "TimeStretch \<Rightarrow> FifoSampleBuffer \<Rightarrow> int \<Rightarrow> int
     \<Rightarrow> error + int \<times> sample \<Rightarrow> error + int \<times> sample" where
  "scan_entry s inp corrOffset entry acc =
     thenE acc (\<lambda>(bestOffset, bestCorr).
       let testOffset = corrOffset + entry
       in if testOffset \<ge> 0 \<and> testOffset < ts_seekLength s
          then thenE (calculateCrossCorr s inp (testOffset * 2))
                 (\<lambda>corr. if gt_sample corr bestCorr then Inr (testOffset, corr)
                          else Inr (bestOffset, bestCorr))
          else Inr (bestOffset, bestCorr))"

definition scan_level ::
  "TimeStretch \<Rightarrow> FifoSampleBuffer \<Rightarrow> int list
     \<Rightarrow> error + int \<times> sample \<times> int \<Rightarrow> error + int \<times> sample \<times> int" where
  "scan_level s inp row acc =
     thenE acc (\<lambda>(bestOffset, bestCorr, corrOffset).
       thenE (fold (scan_entry s inp corrOffset) (takeWhile (\<lambda>x. x \<noteq> 0) row)
                (Inr (bestOffset, bestCorr)))
         (\<lambda>(bestOffset', bestCorr'). Inr (bestOffset', bestCorr', bestOffset')))"

definition seekBestOverlapPositionQuick :: "TimeStretch \<Rightarrow> FifoSampleBuffer \<Rightarrow> error + int" where
  "seekBestOverlapPositionQuick s inp =
     thenE (fold (scan_level s inp) SCAN_OFFSETS (Inr (0, Val Number_MIN_VALUE, 0)))
       (\<lambda>(bestOffset, bestCorr, corrOffset). Inr bestOffset)"

definition seekBestOverlapPosition ::
  "TimeStretch \<Rightarrow> FifoSampleBuffer \<Rightarrow> error + TimeStretch \<times> int" where
  "seekBestOverlapPosition s inp =
     thenE (precalcCorrReference s) (\<lambda>s1.
       thenE (seekBestOverlapPositionQuick s1 inp) (\<lambda>offset. Inr (s1, offset)))"

text \<open>\<open>overlap(offset)\<close> writes the cross-faded frames behind the live frames of the
  output buffer.\<close>

definition overlap_frame ::
  "int \<Rightarrow> sample list \<Rightarrow> sample list \<Rightarrow> int \<Rightarrow> int \<Rightarrow> int \<Rightarrow> sample list \<Rightarrow> sample list" where
  "overlap_frame overlapLength midBuffer input inputStart outputStart i output =
     (let invOverlap = 1 / real_of_int overlapLength;
          fadeOut = real_of_int (overlapLength - i) * invOverlap;
          fadeIn = real_of_int i * invOverlap;
          idx = i * 2; inIdx = inputStart + idx; outIdx = outputStart + idx;
          output1 = wr output outIdx (rd input inIdx * Val fadeIn + rd midBuffer idx * Val fadeOut)
      in wr output1 (outIdx + 1)
           (rd input (inIdx + 1) * Val fadeIn + rd midBuffer (idx + 1) * Val fadeOut))"

definition overlap ::
  "TimeStretch \<Rightarrow> FifoSampleBuffer \<Rightarrow> FifoSampleBuffer \<Rightarrow> int \<Rightarrow> error + FifoSampleBuffer" where
  "overlap s inp out offset =
     (if ts_overlapLength s \<le> 0 then Inr out
      else case ts_midBuffer s of
             None \<Rightarrow> Inl TypeError
           | Some midBuffer \<Rightarrow>
               Inr (out\<lparr>vector :=
                      fold (overlap_frame (ts_overlapLength s) midBuffer (vector inp)
                              (startIndex inp + offset * 2) (endIndex out))
                        (map int [0..<nat (ts_overlapLength s)]) (vector out)\<rparr>))"

text \<open>The body of the loop of \<open>process()\<close>.\<close>

definition TimeStretch_process_step ::
  "TimeStretch \<Rightarrow> FifoSampleBuffer \<Rightarrow> FifoSampleBuffer
     \<Rightarrow> error + TimeStretch \<times> FifoSampleBuffer \<times> FifoSampleBuffer" where
  "TimeStretch_process_step s inp out =
     thenE (seekBestOverlapPosition s inp) (\<lambda>(s1, offset).
     thenE (ensureCapacity out (frameCount out + ts_overlapLength s1)) (\<lambda>out1.
     thenE (overlap s1 inp out1 offset) (\<lambda>out2.
       let out3 = put out2 (ts_overlapLength s1);
           middleLength = seekWindowLength s1 - 2 * ts_overlapLength s1
       in thenE (if middleLength > 0
                 then putBuffer out3 inp (offset + ts_overlapLength s1) middleLength
                 else Inr out3) (\<lambda>out4.
            let midStart = startIndex inp
                             + (offset + seekWindowLength s1 - ts_overlapLength s1) * 2
            in case ts_midBuffer s1 of
                 None \<Rightarrow> Inl TypeError
               | Some midBuffer \<Rightarrow>
                   thenE (set_arr midBuffer
                            (subarray (vector inp) midStart
                               (midStart + ts_overlapLength s1 * 2)) 0) (\<lambda>midBuffer'.
                     let skipFract1 = ts_skipFract s1 + ts_nominalSkip s1;
                         skip = \<lfloor>skipFract1\<rfloor>
                     in Inr (s1\<lparr>ts_midBuffer := Some midBuffer',
                                ts_skipFract := skipFract1 - real_of_int skip\<rparr>,
                             receive inp skip, out4))))))"

text \<open>The loop of \<open>process()\<close>.  It runs for ever when an iteration removes no input
  frame while the input still holds \<open>sampleReq\<close> frames; \<open>None\<close> stands for that.\<close>

partial_function (option) TimeStretch_process_loop ::
  "TimeStretch \<Rightarrow> FifoSampleBuffer \<Rightarrow> FifoSampleBuffer
     \<Rightarrow> (error + TimeStretch \<times> FifoSampleBuffer \<times> FifoSampleBuffer) option" where
  "TimeStretch_process_loop s inp out =
     (if frameCount inp \<ge> ts_sampleReq s
      then (case TimeStretch_process_step s inp out of
              Inl e \<Rightarrow> Some (Inl e)
            | Inr (s', inp', out') \<Rightarrow> TimeStretch_process_loop s' inp' out')
      else Some (Inr (s, inp, out)))"

definition TimeStretch_process ::
  "TimeStretch \<Rightarrow> FifoSampleBuffer \<Rightarrow> FifoSampleBuffer
     \<Rightarrow> (error + TimeStretch \<times> FifoSampleBuffer \<times> FifoSampleBuffer) option" where
  "TimeStretch_process s inp out =
     (if (case ts_midBuffer s of None \<Rightarrow> True | Some midBuffer \<Rightarrow> length midBuffer = 0)
      then (if frameCount inp < ts_overlapLength s then Some (Inr (s, inp, out))
            else case receiveSamples inp (new_Float32Array (ts_overlapLength s * 2))
                        (ts_overlapLength s) of
                   Inl e \<Rightarrow> Some (Inl e)
                 | Inr (midBuffer, inp') \<Rightarrow>
                     TimeStretch_process_loop (s\<lparr>ts_midBuffer := Some midBuffer\<rparr>) inp' out)
      else TimeStretch_process_loop s inp out)"

section \<open>The worklet's inlined RateTransposer and TimeStretch\<close>

text \<open>
  The AudioWorklet file carries its own copies of the two classes.  They are translated here
  from that file, function by function, under names prefixed with \<open>w_\<close> (\<open>W\<close> for the
  methods); the transposer uses the record of the library class, whose fields it shares.
\<close>

definition WRateTransposer_set_rate :: "RateTransposer \<Rightarrow> real \<Rightarrow> RateTransposer" where
  "WRateTransposer_set_rate t v = t\<lparr>rt_rate := v\<rparr>"

definition WRateTransposer_reset ::
  "RateTransposer \<Rightarrow> FifoSampleBuffer \<Rightarrow> FifoSampleBuffer
     \<Rightarrow> error + RateTransposer \<times> FifoSampleBuffer \<times> FifoSampleBuffer" where
  "WRateTransposer_reset t inp out =
     thenE (clear inp) (\<lambda>inp'. thenE (clear out) (\<lambda>out'.
       Inr (t\<lparr>rt_slopeCount := 0, rt_prevSampleL := Val 0, rt_prevSampleR := Val 0\<rparr>,
            inp', out')))"

partial_function (option) w_transpose_prev ::
  "real \<Rightarrow> sample \<Rightarrow> sample \<Rightarrow> sample list \<Rightarrow> int \<Rightarrow> int
     \<Rightarrow> real \<Rightarrow> int \<Rightarrow> sample list \<Rightarrow> (real \<times> int \<times> sample list) option" where
  "w_transpose_prev rate prevSampleL prevSampleR input inputStart outputStart
       slopeCount outputCount output =
     (if slopeCount < 1
      then (let weight = slopeCount;
                output1 = wr output (outputStart + outputCount * 2)
                            (Val (1 - weight) * prevSampleL + Val weight * rd input inputStart);
                output2 = wr output1 (outputStart + outputCount * 2 + 1)
                            (Val (1 - weight) * prevSampleR
                               + Val weight * rd input (inputStart + 1))
            in w_transpose_prev rate prevSampleL prevSampleR input inputStart outputStart
                 (slopeCount + rate) (outputCount + 1) output2)
      else Some (slopeCount, outputCount, output))"

function w_advance_input :: "int \<Rightarrow> real \<Rightarrow> int \<Rightarrow> real \<times> int" where
  "w_advance_input numFrames slopeCount inputIndex =
     (if slopeCount \<ge> 1
      then (if inputIndex + 1 \<ge> numFrames - 1 then (slopeCount - 1, inputIndex + 1)
            else w_advance_input numFrames (slopeCount - 1) (inputIndex + 1))
      else (slopeCount, inputIndex))"
  by pat_completeness auto
termination
  by (relation "measure (\<lambda>(numFrames, slopeCount, inputIndex). nat (numFrames - inputIndex))")
    auto

declare w_advance_input.simps [simp del]

partial_function (option) w_transpose_rest ::
  "real \<Rightarrow> sample list \<Rightarrow> int \<Rightarrow> int \<Rightarrow> int
     \<Rightarrow> real \<Rightarrow> int \<Rightarrow> int \<Rightarrow> sample list \<Rightarrow> (real \<times> int \<times> sample list) option" where
  "w_transpose_rest rate input inputStart outputStart numFrames
       slopeCount inputIndex outputCount output =
     (case w_advance_input numFrames slopeCount inputIndex of
        (slopeCount1, inputIndex1) \<Rightarrow>
          if inputIndex1 \<ge> numFrames - 1 then Some (slopeCount1, outputCount, output)
          else (let idx = inputStart + inputIndex1 * 2;
                    weight = slopeCount1;
                    output1 = wr output (outputStart + outputCount * 2)
                                (Val (1 - weight) * rd input idx
                                   + Val weight * rd input (idx + 2));
                    output2 = wr output1 (outputStart + outputCount * 2 + 1)
                                (Val (1 - weight) * rd input (idx + 1)
                                   + Val weight * rd input (idx + 3))
                in w_transpose_rest rate input inputStart outputStart numFrames
                     (slopeCount1 + rate) inputIndex1 (outputCount + 1) output2))"

definition w_transpose ::
  "RateTransposer \<Rightarrow> FifoSampleBuffer \<Rightarrow> FifoSampleBuffer \<Rightarrow> int
     \<Rightarrow> (RateTransposer \<times> FifoSampleBuffer \<times> int) option" where
  "w_transpose t inp out numFrames =
     (if numFrames = 0 then Some (t, out, 0)
      else
        (let input = vector inp; inputStart = startIndex inp;
             output = vector out; outputStart = endIndex out
         in case w_transpose_prev (rt_rate t) (rt_prevSampleL t) (rt_prevSampleR t)
                   input inputStart outputStart (rt_slopeCount t) 0 output of
              None \<Rightarrow> None
            | Some (slopeCount1, outputCount1, output1) \<Rightarrow>
                (case (if numFrames > 1
                       then w_transpose_rest (rt_rate t) input inputStart outputStart numFrames
                              (slopeCount1 - 1) 0 outputCount1 output1
                       else Some (slopeCount1 - 1, outputCount1, output1)) of
                   None \<Rightarrow> None
                 | Some (slopeCount2, outputCount2, output2) \<Rightarrow>
                     Some (t\<lparr>rt_slopeCount := slopeCount2,
                             rt_prevSampleL := rd input (inputStart + (numFrames - 1) * 2),
                             rt_prevSampleR := rd input (inputStart + (numFrames - 1) * 2 + 1)\<rparr>,
                           out\<lparr>vector := output2\<rparr>, outputCount2))))"

definition WRateTransposer_process ::
  "RateTransposer \<Rightarrow> FifoSampleBuffer \<Rightarrow> FifoSampleBuffer
     \<Rightarrow> (error + RateTransposer \<times> FifoSampleBuffer \<times> FifoSampleBuffer) option" where
  "WRateTransposer_process t inp out =
     (let numFrames = frameCount inp
      in if numFrames = 0 then Some (Inr (t, inp, out))
         else if rt_rate t = 0 then Some (Inl RangeError)
         else
           (case ensureCapacity out
                   (frameCount out + \<lceil>real_of_int numFrames / rt_rate t\<rceil> + 1) of
              Inl e \<Rightarrow> Some (Inl e)
            | Inr out1 \<Rightarrow>
                (case w_transpose t inp out1 numFrames of
                   None \<Rightarrow> None
                 | Some (t', out2, outputCount) \<Rightarrow>
                     Some (Inr (t', receive inp numFrames, put out2 outputCount)))))"

text \<open>The worklet's \<open>TimeStretch\<close> has no millisecond fields: sequence and seek window
  are always automatic and the overlap duration is an argument of
  \<open>calculateOverlapLength\<close>.\<close>

record WTimeStretch =
  wts_sampleRate :: real
  wts_tempo :: real
  wts_sequenceLength :: int
  wts_seekLength :: int
  wts_overlapLength :: int
  wts_nominalSkip :: real
  wts_skipFract :: real
  wts_midBuffer :: "sample list option"
  wts_refMidBuffer :: "sample list option"
  wts_sampleReq :: int

definition WTimeStretch_new :: WTimeStretch where
  "WTimeStretch_new =
     \<lparr>wts_sampleRate = 44100, wts_tempo = 1, wts_sequenceLength = 0, wts_seekLength = 0,
      wts_overlapLength = 0, wts_nominalSkip = 0, wts_skipFract = 0, wts_midBuffer = None,
      wts_refMidBuffer = None, wts_sampleReq = 0\<rparr>"

definition w_SCAN_OFFSETS :: "int list list" where
  "w_SCAN_OFFSETS =
     [[124, 186, 248, 310, 372, 434, 496, 558, 620, 682, 744, 806, 868, 930, 992, 1054,
       1116, 1178, 1240, 1302, 1364, 1426, 1488, 0],
      [-100, -75, -50, -25, 25, 50, 75, 100, 0, 0, 0, 0, 0, 0, 0, 0, 0, 0, 0, 0, 0, 0, 0, 0],
      [-20, -15, -10, -5, 5, 10, 15, 20, 0, 0, 0, 0, 0, 0, 0, 0, 0, 0, 0, 0, 0, 0, 0, 0],
      [-4, -3, -2, -1, 1, 2, 3, 4, 0, 0, 0, 0, 0, 0, 0, 0, 0, 0, 0, 0, 0, 0, 0, 0]]"

definition w_calculateEffectiveParams :: "WTimeStretch \<Rightarrow> WTimeStretch" where
  "w_calculateEffectiveParams s =
     s\<lparr>wts_sequenceLength :=
         (let seqMs = 125 - (125 - 50) / (2 - 0.5) * (wts_tempo s - 0.5)
          in \<lfloor>wts_sampleRate s * max 50 (min 125 seqMs) / 1000\<rfloor>),
       wts_seekLength :=
         (let seekMs = 25 - (25 - 15) / (2 - 0.5) * (wts_tempo s - 0.5)
          in \<lfloor>wts_sampleRate s * max 15 (min 25 seekMs) / 1000\<rfloor>)\<rparr>"

definition w_calculateOverlapLength :: "WTimeStretch \<Rightarrow> real \<Rightarrow> error + WTimeStretch" where
  "w_calculateOverlapLength s overlapMs =
     (if product_is_Infinity (wts_sampleRate s) overlapMs then Inl NotANumber
      else
        (let overlap0 = \<lfloor>wts_sampleRate s * overlapMs / 1000\<rfloor>;
             overlap1 = (if overlap0 < 16 then 16 else overlap0);
             overlap = overlap1 - js_rem overlap1 8
         in thenE (Float32Array_of_length (overlap * 2)) (\<lambda>refMidBuffer.
              thenE (Float32Array_of_length (overlap * 2)) (\<lambda>midBuffer.
                Inr (s\<lparr>wts_overlapLength := overlap,
                       wts_refMidBuffer := Some refMidBuffer,
                       wts_midBuffer := Some midBuffer\<rparr>)))))"

definition WTimeStretch_set_tempo :: "WTimeStretch \<Rightarrow> real \<Rightarrow> WTimeStretch" where
  "WTimeStretch_set_tempo s0 v =
     (let s = w_calculateEffectiveParams (s0\<lparr>wts_tempo := v\<rparr>);
          nominalSkip = wts_tempo s * real_of_int (wts_sequenceLength s - wts_overlapLength s);
          skip = \<lfloor>nominalSkip + 0.5\<rfloor>
      in s\<lparr>wts_nominalSkip := nominalSkip, wts_skipFract := 0,
            wts_sampleReq :=
              max (skip + wts_overlapLength s) (wts_sequenceLength s) + wts_seekLength s\<rparr>)"

text \<open>\<open>setParameters(sampleRate, overlapMs = 16)\<close>.\<close>

definition WTimeStretch_setParameters ::
  "WTimeStretch \<Rightarrow> real \<Rightarrow> real \<Rightarrow> error + WTimeStretch" where
  "WTimeStretch_setParameters s sampleRate overlapMs =
     (let s1 = s\<lparr>wts_sampleRate := (if sampleRate > 0 then sampleRate else wts_sampleRate s)\<rparr>
      in thenE (w_calculateOverlapLength (w_calculateEffectiveParams s1) overlapMs) (\<lambda>s2.
           Inr (WTimeStretch_set_tempo s2 (wts_tempo s2))))"

definition WTimeStretch_reset ::
  "WTimeStretch \<Rightarrow> FifoSampleBuffer \<Rightarrow> FifoSampleBuffer
     \<Rightarrow> error + WTimeStretch \<times> FifoSampleBuffer \<times> FifoSampleBuffer" where
  "WTimeStretch_reset s inp out =
     thenE (clear inp) (\<lambda>inp'. thenE (clear out) (\<lambda>out'.
       Inr (s\<lparr>wts_midBuffer := None, wts_skipFract := 0\<rparr>, inp', out')))"

definition w_precalc_frame :: "int \<Rightarrow> sample list \<Rightarrow> int \<Rightarrow> sample list \<Rightarrow> sample list" where
  "w_precalc_frame overlapLength midBuffer i refMidBuffer =
     (let weight = i * (overlapLength - i); idx = i * 2;
          ref1 = wr refMidBuffer idx (rd midBuffer idx * Val (real_of_int weight))
      in wr ref1 (idx + 1) (rd midBuffer (idx + 1) * Val (real_of_int weight)))"

definition w_precalcCorrReference :: "WTimeStretch \<Rightarrow> error + WTimeStretch" where
  "w_precalcCorrReference s =
     (if wts_overlapLength s \<le> 0 then Inr s
      else case wts_refMidBuffer s of
             None \<Rightarrow> Inl TypeError
           | Some refMidBuffer \<Rightarrow>
               (case wts_midBuffer s of
                  None \<Rightarrow> Inl TypeError
                | Some midBuffer \<Rightarrow>
                    Inr (s\<lparr>wts_refMidBuffer :=
                             Some (fold (w_precalc_frame (wts_overlapLength s) midBuffer)
                                     (map int [0..<nat (wts_overlapLength s)])
                                     refMidBuffer)\<rparr>)))"

definition w_crossCorr_sum :: "int \<Rightarrow> sample list \<Rightarrow> int \<Rightarrow> sample list \<Rightarrow> sample" where
  "w_crossCorr_sum overlapLength input inputStart refMidBuffer =
     fold (\<lambda>k corr. let i = k * 2
                     in corr + (rd input (inputStart + i) * rd refMidBuffer i
                                + rd input (inputStart + i + 1) * rd refMidBuffer (i + 1)))
       (map int [1..<nat overlapLength]) (Val 0)"

definition w_calculateCrossCorr :: "WTimeStretch \<Rightarrow> FifoSampleBuffer \<Rightarrow> int \<Rightarrow> error + sample" where
  "w_calculateCrossCorr s inp offset =
     (if wts_overlapLength s \<le> 1 then Inr (Val 0)
      else case wts_refMidBuffer s of
             None \<Rightarrow> Inl TypeError
           | Some refMidBuffer \<Rightarrow>
               Inr (w_crossCorr_sum (wts_overlapLength s) (vector inp) (startIndex inp + offset)
                      refMidBuffer))"

definition w_scan_entry ::
  "WTimeStretch \<Rightarrow> FifoSampleBuffer \<Rightarrow> int \<Rightarrow> int
     \<Rightarrow> error + int \<times> sample \<Rightarrow> error + int \<times> sample" where
  "w_scan_entry s inp corrOffset entry acc =
     thenE acc (\<lambda>(bestOffset, bestCorr).
       let testOffset = corrOffset + entry
       in if testOffset \<ge> 0 \<and> testOffset < wts_seekLength s
          then thenE (w_calculateCrossCorr s inp (testOffset * 2))
                 (\<lambda>corr. if gt_sample corr bestCorr then Inr (testOffset, corr)
                          else Inr (bestOffset, bestCorr))
          else Inr (bestOffset, bestCorr))"

definition w_scan_level ::
  "WTimeStretch \<Rightarrow> FifoSampleBuffer \<Rightarrow> int list
     \<Rightarrow> error + int \<times> sample \<times> int \<Rightarrow> error + int \<times> sample \<times> int" where
  "w_scan_level s inp row acc =
     thenE acc (\<lambda>(bestOffset, bestCorr, corrOffset).
       thenE (fold (w_scan_entry s inp corrOffset) (takeWhile (\<lambda>x. x \<noteq> 0) row)
                (Inr (bestOffset, bestCorr)))
         (\<lambda>(bestOffset', bestCorr'). Inr (bestOffset', bestCorr', bestOffset')))"

definition w_seekBestOverlapPositionQuick :: "WTimeStretch \<Rightarrow> FifoSampleBuffer \<Rightarrow> error + int" where
  "w_seekBestOverlapPositionQuick s inp =
     thenE (fold (w_scan_level s inp) w_SCAN_OFFSETS (Inr (0, Val Number_MIN_VALUE, 0)))
       (\<lambda>(bestOffset, bestCorr, corrOffset). Inr bestOffset)"

definition w_seekBestOverlapPosition ::
  "WTimeStretch \<Rightarrow> FifoSampleBuffer \<Rightarrow> error + WTimeStretch \<times> int" where
  "w_seekBestOverlapPosition s inp =
     thenE (w_precalcCorrReference s) (\<lambda>s1.
       thenE (w_seekBestOverlapPositionQuick s1 inp) (\<lambda>offset. Inr (s1, offset)))"

definition w_overlap_frame ::
  "int \<Rightarrow> sample list \<Rightarrow> sample list \<Rightarrow> int \<Rightarrow> int \<Rightarrow> int \<Rightarrow> sample list \<Rightarrow> sample list" where
  "w_overlap_frame overlapLength midBuffer input inputStart outputStart i output =
     (let invOverlap = 1 / real_of_int overlapLength;
          fadeOut = real_of_int (overlapLength - i) * invOverlap;
          fadeIn = real_of_int i * invOverlap;
          idx = i * 2; inIdx = inputStart + idx; outIdx = outputStart + idx;
          output1 = wr output outIdx (rd input inIdx * Val fadeIn + rd midBuffer idx * Val fadeOut)
      in wr output1 (outIdx + 1)
           (rd input (inIdx + 1) * Val fadeIn + rd midBuffer (idx + 1) * Val fadeOut))"

definition w_overlap ::
  "WTimeStretch \<Rightarrow> FifoSampleBuffer \<Rightarrow> FifoSampleBuffer \<Rightarrow> int \<Rightarrow> error + FifoSampleBuffer" where
  "w_overlap s inp out offset =
     (if wts_overlapLength s \<le> 0 then Inr out
      else case wts_midBuffer s of
             None \<Rightarrow> Inl TypeError
           | Some midBuffer \<Rightarrow>
               Inr (out\<lparr>vector :=
                      fold (w_overlap_frame (wts_overlapLength s) midBuffer (vector inp)
                              (startIndex inp + offset * 2) (endIndex out))
                        (map int [0..<nat (wts_overlapLength s)]) (vector out)\<rparr>))"

definition WTimeStretch_process_step ::
  "WTimeStretch \<Rightarrow> FifoSampleBuffer \<Rightarrow> FifoSampleBuffer
     \<Rightarrow> error + WTimeStretch \<times> FifoSampleBuffer \<times> FifoSampleBuffer" where
  "WTimeStretch_process_step s inp out =
     thenE (w_seekBestOverlapPosition s inp) (\<lambda>(s1, offset).
     thenE (ensureCapacity out (frameCount out + wts_overlapLength s1)) (\<lambda>out1.
     thenE (w_overlap s1 inp out1 offset) (\<lambda>out2.
       let out3 = put out2 (wts_overlapLength s1);
           middleLength = wts_sequenceLength s1 - 2 * wts_overlapLength s1
       in thenE (if middleLength > 0
                 then putBuffer out3 inp (offset + wts_overlapLength s1) middleLength
                 else Inr out3) (\<lambda>out4.
            let midStart = startIndex inp
                             + (offset + wts_sequenceLength s1 - wts_overlapLength s1) * 2
            in case wts_midBuffer s1 of
                 None \<Rightarrow> Inl TypeError
               | Some midBuffer \<Rightarrow>
                   thenE (set_arr midBuffer
                            (subarray (vector inp) midStart
                               (midStart + wts_overlapLength s1 * 2)) 0) (\<lambda>midBuffer'.
                     let skipFract1 = wts_skipFract s1 + wts_nominalSkip s1;
                         skip = \<lfloor>skipFract1\<rfloor>
                     in Inr (s1\<lparr>wts_midBuffer := Some midBuffer',
                                wts_skipFract := skipFract1 - real_of_int skip\<rparr>,
                             receive inp skip, out4))))))"

partial_function (option) WTimeStretch_process_loop ::
  "WTimeStretch \<Rightarrow> FifoSampleBuffer \<Rightarrow> FifoSampleBuffer
     \<Rightarrow> (error + WTimeStretch \<times> FifoSampleBuffer \<times> FifoSampleBuffer) option" where
  "WTimeStretch_process_loop s inp out =
     (if frameCount inp \<ge> wts_sampleReq s
      then (case WTimeStretch_process_step s inp out of
              Inl e \<Rightarrow> Some (Inl e)
            | Inr (s', inp', out') \<Rightarrow> WTimeStretch_process_loop s' inp' out')
      else Some (Inr (s, inp, out)))"

definition WTimeStretch_process ::
  "WTimeStretch \<Rightarrow> FifoSampleBuffer \<Rightarrow> FifoSampleBuffer
     \<Rightarrow> (error + WTimeStretch \<times> FifoSampleBuffer \<times> FifoSampleBuffer) option" where
  "WTimeStretch_process s inp out =
     (if (case wts_midBuffer s of None \<Rightarrow> True | Some midBuffer \<Rightarrow> length midBuffer = 0)
      then (if frameCount inp < wts_overlapLength s then Some (Inr (s, inp, out))
            else case receiveSamples inp (new_Float32Array (wts_overlapLength s * 2))
                        (wts_overlapLength s) of
                   Inl e \<Rightarrow> Some (Inl e)
                 | Inr (midBuffer, inp') \<Rightarrow>
                     WTimeStretch_process_loop (s\<lparr>wts_midBuffer := Some midBuffer\<rparr>) inp' out)
      else WTimeStretch_process_loop s inp out)"


section \<open>SoundTouch: the engine of the library\<close>

text \<open>
  The engine owns three buffers; each sub-component is built with two buffers of its own
  and holds two references that the engine redirects to its buffers.  The buffers live in
  a store indexed by \<open>buffer_ref\<close>, and the four references are fields of the engine.
  A step that may raise and a loop that may run for ever compose in
  \<open>(error + 'a) option\<close>.
\<close>

definition thenP :: "(error + 'a) option \<Rightarrow> ('a \<Rightarrow> (error + 'b) option) \<Rightarrow> (error + 'b) option" where
  "thenP r f = (case r of None \<Rightarrow> None | Some (Inl e) \<Rightarrow> Some (Inl e) | Some (Inr x) \<Rightarrow> f x)"

datatype buffer_ref =
  EngineInput | EngineIntermediate | EngineOutput
  | TransposerOwnInput | TransposerOwnOutput | StretchOwnInput | StretchOwnOutput

record SoundTouch =
  st_rateTransposer :: RateTransposer
  st_timeStretch :: TimeStretch
  st_buffers :: "buffer_ref \<Rightarrow> FifoSampleBuffer"
  st_rt_inputBuffer :: buffer_ref
  st_rt_outputBuffer :: buffer_ref
  st_ts_inputBuffer :: buffer_ref
  st_ts_outputBuffer :: buffer_ref
  st_rate :: real
  st_tempo :: real
  st_virtualPitch :: real
  st_virtualRate :: real
  st_virtualTempo :: real

text \<open>\<open>calculateEffectiveRateAndTempo\<close>.  The quotient by a virtual pitch of 0 is an
  infinity or \<open>NaN\<close> in the source and is not represented.\<close>

definition calculateEffectiveRateAndTempo :: "SoundTouch \<Rightarrow> SoundTouch" where
  "calculateEffectiveRateAndTempo e =
     (let oldTempo = st_tempo e; oldRate = st_rate e;
          tempo' = st_virtualTempo e / st_virtualPitch e;
          rate' = st_virtualRate e * st_virtualPitch e;
          e1 = e\<lparr>st_tempo := tempo', st_rate := rate',
                 st_timeStretch :=
                   (if \<bar>tempo' - oldTempo\<bar> > 1 / 10 ^ 10
                    then TimeStretch_set_tempo (st_timeStretch e) tempo'
                    else st_timeStretch e),
                 st_rateTransposer :=
                   (if \<bar>rate' - oldRate\<bar> > 1 / 10 ^ 10
                    then RateTransposer_set_rate (st_rateTransposer e) rate'
                    else st_rateTransposer e)\<rparr>
      in if rate' > 1
         then (if EngineOutput \<noteq> st_rt_outputBuffer e1
               then e1\<lparr>st_ts_inputBuffer := EngineInput,
                       st_ts_outputBuffer := EngineIntermediate,
                       st_rt_inputBuffer := EngineIntermediate,
                       st_rt_outputBuffer := EngineOutput\<rparr>
               else e1)
         else (if EngineOutput \<noteq> st_ts_outputBuffer e1
               then e1\<lparr>st_rt_inputBuffer := EngineInput,
                       st_rt_outputBuffer := EngineIntermediate,
                       st_ts_inputBuffer := EngineIntermediate,
                       st_ts_outputBuffer := EngineOutput\<rparr>
               else e1))"

definition SoundTouch_new :: SoundTouch where
  "SoundTouch_new =
     calculateEffectiveRateAndTempo
       \<lparr>st_rateTransposer = RateTransposer_new, st_timeStretch = TimeStretch_new,
        st_buffers = (\<lambda>r. Fifo_new 4096),
        st_rt_inputBuffer = TransposerOwnInput, st_rt_outputBuffer = TransposerOwnOutput,
        st_ts_inputBuffer = StretchOwnInput, st_ts_outputBuffer = StretchOwnOutput,
        st_rate = 1, st_tempo = 1, st_virtualPitch = 1, st_virtualRate = 1,
        st_virtualTempo = 1\<rparr>"

definition SoundTouch_set_rate :: "SoundTouch \<Rightarrow> real \<Rightarrow> SoundTouch" where
  "SoundTouch_set_rate e v = calculateEffectiveRateAndTempo (e\<lparr>st_virtualRate := v\<rparr>)"

definition SoundTouch_set_tempo :: "SoundTouch \<Rightarrow> real \<Rightarrow> SoundTouch" where
  "SoundTouch_set_tempo e v = calculateEffectiveRateAndTempo (e\<lparr>st_virtualTempo := v\<rparr>)"

definition SoundTouch_set_pitch :: "SoundTouch \<Rightarrow> real \<Rightarrow> SoundTouch" where
  "SoundTouch_set_pitch e v = calculateEffectiveRateAndTempo (e\<lparr>st_virtualPitch := v\<rparr>)"

definition SoundTouch_set_pitchSemitones :: "SoundTouch \<Rightarrow> real \<Rightarrow> SoundTouch" where
  "SoundTouch_set_pitchSemitones e semitones = SoundTouch_set_pitch e (2 powr (semitones / 12))"

definition SoundTouch_setParameters ::
  "SoundTouch \<Rightarrow> real \<Rightarrow> real \<Rightarrow> real \<Rightarrow> real \<Rightarrow> error + SoundTouch" where
  "SoundTouch_setParameters e sampleRate sequenceMs seekWindowMs overlapMs =
     thenE (TimeStretch_setParameters (st_timeStretch e) sampleRate sequenceMs seekWindowMs
              overlapMs)
       (\<lambda>timeStretch. Inr (e\<lparr>st_timeStretch := timeStretch\<rparr>))"

definition st_clear :: "SoundTouch \<Rightarrow> buffer_ref \<Rightarrow> error + SoundTouch" where
  "st_clear e r =
     thenE (clear (st_buffers e r)) (\<lambda>f. Inr (e\<lparr>st_buffers := (st_buffers e)(r := f)\<rparr>))"

definition st_rateTransposer_reset :: "SoundTouch \<Rightarrow> error + SoundTouch" where
  "st_rateTransposer_reset e =
     thenE (RateTransposer_reset (st_rateTransposer e) (st_buffers e (st_rt_inputBuffer e))
              (st_buffers e (st_rt_outputBuffer e)))
       (\<lambda>(t, inp, out).
          Inr (e\<lparr>st_rateTransposer := t,
                 st_buffers := (st_buffers e)(st_rt_inputBuffer e := inp,
                                              st_rt_outputBuffer e := out)\<rparr>))"

definition st_timeStretch_reset :: "SoundTouch \<Rightarrow> error + SoundTouch" where
  "st_timeStretch_reset e =
     thenE (TimeStretch_reset (st_timeStretch e) (st_buffers e (st_ts_inputBuffer e))
              (st_buffers e (st_ts_outputBuffer e)))
       (\<lambda>(s, inp, out).
          Inr (e\<lparr>st_timeStretch := s,
                 st_buffers := (st_buffers e)(st_ts_inputBuffer e := inp,
                                              st_ts_outputBuffer e := out)\<rparr>))"

definition SoundTouch_reset :: "SoundTouch \<Rightarrow> error + SoundTouch" where
  "SoundTouch_reset e =
     thenE (st_rateTransposer_reset e) (\<lambda>e1. thenE (st_timeStretch_reset e1) (\<lambda>e2.
       thenE (st_clear e2 EngineInput) (\<lambda>e3. thenE (st_clear e3 EngineIntermediate) (\<lambda>e4.
         st_clear e4 EngineOutput))))"

definition st_rateTransposer_process :: "SoundTouch \<Rightarrow> (error + SoundTouch) option" where
  "st_rateTransposer_process e =
     thenP (RateTransposer_process (st_rateTransposer e) (st_buffers e (st_rt_inputBuffer e))
              (st_buffers e (st_rt_outputBuffer e)))
       (\<lambda>(t, inp, out).
          Some (Inr (e\<lparr>st_rateTransposer := t,
                       st_buffers := (st_buffers e)(st_rt_inputBuffer e := inp,
                                                    st_rt_outputBuffer e := out)\<rparr>)))"

definition st_timeStretch_process :: "SoundTouch \<Rightarrow> (error + SoundTouch) option" where
  "st_timeStretch_process e =
     thenP (TimeStretch_process (st_timeStretch e) (st_buffers e (st_ts_inputBuffer e))
              (st_buffers e (st_ts_outputBuffer e)))
       (\<lambda>(s, inp, out).
          Some (Inr (e\<lparr>st_timeStretch := s,
                       st_buffers := (st_buffers e)(st_ts_inputBuffer e := inp,
                                                    st_ts_outputBuffer e := out)\<rparr>)))"

definition SoundTouch_process :: "SoundTouch \<Rightarrow> (error + SoundTouch) option" where
  "SoundTouch_process e =
     (if st_rate e > 1
      then thenP (st_timeStretch_process e) st_rateTransposer_process
      else thenP (st_rateTransposer_process e) st_timeStretch_process)"

section \<open>SoundTouchEngine: the engine of the worklet\<close>

record SoundTouchEngine =
  se_rateTransposer :: RateTransposer
  se_timeStretch :: WTimeStretch
  se_buffers :: "buffer_ref \<Rightarrow> FifoSampleBuffer"
  se_rt_inputBuffer :: buffer_ref
  se_rt_outputBuffer :: buffer_ref
  se_ts_inputBuffer :: buffer_ref
  se_ts_outputBuffer :: buffer_ref
  se_rate :: real
  se_tempo :: real
  se_virtualPitch :: real

definition w_calculateEffectiveRateAndTempo :: "SoundTouchEngine \<Rightarrow> SoundTouchEngine" where
  "w_calculateEffectiveRateAndTempo e =
     (let oldTempo = se_tempo e; oldRate = se_rate e;
          tempo' = 1 / se_virtualPitch e;
          rate' = se_virtualPitch e;
          e1 = e\<lparr>se_tempo := tempo', se_rate := rate',
                 se_timeStretch :=
                   (if \<bar>tempo' - oldTempo\<bar> > 1 / 10 ^ 10
                    then WTimeStretch_set_tempo (se_timeStretch e) tempo'
                    else se_timeStretch e),
                 se_rateTransposer :=
                   (if \<bar>rate' - oldRate\<bar> > 1 / 10 ^ 10
                    then WRateTransposer_set_rate (se_rateTransposer e) rate'
                    else se_rateTransposer e)\<rparr>
      in if rate' > 1
         then e1\<lparr>se_ts_inputBuffer := EngineInput,
                 se_ts_outputBuffer := EngineIntermediate,
                 se_rt_inputBuffer := EngineIntermediate,
                 se_rt_outputBuffer := EngineOutput\<rparr>
         else e1\<lparr>se_rt_inputBuffer := EngineInput,
                 se_rt_outputBuffer := EngineIntermediate,
                 se_ts_inputBuffer := EngineIntermediate,
                 se_ts_outputBuffer := EngineOutput\<rparr>)"

text \<open>\<open>new SoundTouchEngine(sampleRate)\<close>.\<close>

definition SoundTouchEngine_new :: "real \<Rightarrow> error + SoundTouchEngine" where
  "SoundTouchEngine_new sampleRate =
     thenE (WTimeStretch_setParameters WTimeStretch_new sampleRate 16) (\<lambda>timeStretch.
       Inr (w_calculateEffectiveRateAndTempo
              \<lparr>se_rateTransposer = RateTransposer_new,
               se_timeStretch = timeStretch,
               se_buffers = (\<lambda>r. Fifo_new 4096),
               se_rt_inputBuffer = TransposerOwnInput, se_rt_outputBuffer = TransposerOwnOutput,
               se_ts_inputBuffer = StretchOwnInput, se_ts_outputBuffer = StretchOwnOutput,
               se_rate = 1, se_tempo = 1, se_virtualPitch = 1\<rparr>))"

definition SoundTouchEngine_set_pitch :: "SoundTouchEngine \<Rightarrow> real \<Rightarrow> SoundTouchEngine" where
  "SoundTouchEngine_set_pitch e v =
     w_calculateEffectiveRateAndTempo (e\<lparr>se_virtualPitch := v\<rparr>)"

definition SoundTouchEngine_set_pitchSemitones ::
  "SoundTouchEngine \<Rightarrow> real \<Rightarrow> SoundTouchEngine" where
  "SoundTouchEngine_set_pitchSemitones e semitones =
     SoundTouchEngine_set_pitch e (2 powr (semitones / 12))"

definition se_clear :: "SoundTouchEngine \<Rightarrow> buffer_ref \<Rightarrow> error + SoundTouchEngine" where
  "se_clear e r =
     thenE (clear (se_buffers e r)) (\<lambda>f. Inr (e\<lparr>se_buffers := (se_buffers e)(r := f)\<rparr>))"

definition se_rateTransposer_reset :: "SoundTouchEngine \<Rightarrow> error + SoundTouchEngine" where
  "se_rateTransposer_reset e =
     thenE (WRateTransposer_reset (se_rateTransposer e) (se_buffers e (se_rt_inputBuffer e))
              (se_buffers e (se_rt_outputBuffer e)))
       (\<lambda>(t, inp, out).
          Inr (e\<lparr>se_rateTransposer := t,
                 se_buffers := (se_buffers e)(se_rt_inputBuffer e := inp,
                                              se_rt_outputBuffer e := out)\<rparr>))"

definition se_timeStretch_reset :: "SoundTouchEngine \<Rightarrow> error + SoundTouchEngine" where
  "se_timeStretch_reset e =
     thenE (WTimeStretch_reset (se_timeStretch e) (se_buffers e (se_ts_inputBuffer e))
              (se_buffers e (se_ts_outputBuffer e)))
       (\<lambda>(s, inp, out).
          Inr (e\<lparr>se_timeStretch := s,
                 se_buffers := (se_buffers e)(se_ts_inputBuffer e := inp,
                                              se_ts_outputBuffer e := out)\<rparr>))"

definition SoundTouchEngine_reset :: "SoundTouchEngine \<Rightarrow> error + SoundTouchEngine" where
  "SoundTouchEngine_reset e =
     thenE (se_rateTransposer_reset e) (\<lambda>e1. thenE (se_timeStretch_reset e1) (\<lambda>e2.
       thenE (se_clear e2 EngineInput) (\<lambda>e3. thenE (se_clear e3 EngineIntermediate) (\<lambda>e4.
         se_clear e4 EngineOutput))))"

definition se_rateTransposer_process :: "SoundTouchEngine \<Rightarrow> (error + SoundTouchEngine) option" where
  "se_rateTransposer_process e =
     thenP (WRateTransposer_process (se_rateTransposer e) (se_buffers e (se_rt_inputBuffer e))
              (se_buffers e (se_rt_outputBuffer e)))
       (\<lambda>(t, inp, out).
          Some (Inr (e\<lparr>se_rateTransposer := t,
                       se_buffers := (se_buffers e)(se_rt_inputBuffer e := inp,
                                                    se_rt_outputBuffer e := out)\<rparr>)))"

definition se_timeStretch_process :: "SoundTouchEngine \<Rightarrow> (error + SoundTouchEngine) option" where
  "se_timeStretch_process e =
     thenP (WTimeStretch_process (se_timeStretch e) (se_buffers e (se_ts_inputBuffer e))
              (se_buffers e (se_ts_outputBuffer e)))
       (\<lambda>(s, inp, out).
          Some (Inr (e\<lparr>se_timeStretch := s,
                       se_buffers := (se_buffers e)(se_ts_inputBuffer e := inp,
                                                    se_ts_outputBuffer e := out)\<rparr>)))"

definition SoundTouchEngine_process :: "SoundTouchEngine \<Rightarrow> (error + SoundTouchEngine) option" where
  "SoundTouchEngine_process e =
     (if se_rate e > 1
      then thenP (se_timeStretch_process e) se_rateTransposer_process
      else thenP (se_rateTransposer_process e) se_timeStretch_process)"

section \<open>SoundTouchProcessor: the block processor of the worklet\<close>

definition ST_BLOCK_SIZE :: int where "ST_BLOCK_SIZE = 128"
definition ST_FADE_FRAMES :: int where "ST_FADE_FRAMES = 64"
definition ST_MIN_FRAMES_FOR_PROCESSING :: int where "ST_MIN_FRAMES_FOR_PROCESSING = 4096"

record SoundTouchProcessor =
  sp_soundTouch :: SoundTouchEngine
  sp_outputBuffer :: "sample list"
  sp_bypassed :: bool
  sp_fadeCounter :: int
  sp_previousPitch :: real
  sp_skipBuffer :: bool
  sp_skipBufferCounter :: int

text \<open>The constructor; \<open>sampleRate\<close> is the global of the worklet scope.\<close>

definition SoundTouchProcessor_new :: "real \<Rightarrow> error + SoundTouchProcessor" where
  "SoundTouchProcessor_new sampleRate =
     thenE (SoundTouchEngine_new sampleRate) (\<lambda>soundTouch.
       Inr \<lparr>sp_soundTouch = soundTouch,
            sp_outputBuffer = new_Float32Array (ST_BLOCK_SIZE * 2),
            sp_bypassed = True, sp_fadeCounter = 0, sp_previousPitch = 1,
            sp_skipBuffer = False, sp_skipBufferCounter = 0\<rparr>)"

text \<open>\<open>outLeft.set(left); if (outRight) outRight.set(right)\<close>, on the list of output
  channels.\<close>

definition sp_passthrough ::
  "sample list \<Rightarrow> sample list \<Rightarrow> sample list list \<Rightarrow> error + sample list list" where
  "sp_passthrough left right output =
     thenE (set_arr (output ! 0) left 0) (\<lambda>outLeft.
       if length output > 1
       then thenE (set_arr (output ! 1) right 0) (\<lambda>outRight.
              Inr (output[0 := outLeft, 1 := outRight]))
       else Inr (output[0 := outLeft]))"

text \<open>The part of \<open>process\<close> that reads the parameters: the skip period after a pitch
  jump, the new pitch, and the transitions into and out of bypass.  \<open>semitone\<close>, \<open>cents\<close>
  and \<open>enabledParam\<close> are the first elements of the three parameter arrays.\<close>

definition sp_shouldBypass :: "real \<Rightarrow> real \<Rightarrow> real \<Rightarrow> bool" where
  "sp_shouldBypass semitone cents enabledParam =
     (let enabled = enabledParam \<ge> 0.5;
          totalSemitones = semitone + cents / 100;
          targetPitch = 2 powr (totalSemitones / 12)
      in \<not> enabled \<or> \<bar>targetPitch - 1\<bar> < 0.001)"

definition sp_update_pitch :: "SoundTouchProcessor \<Rightarrow> real \<Rightarrow> real \<Rightarrow> real \<Rightarrow> SoundTouchProcessor" where
  "sp_update_pitch p semitone cents enabledParam =
     (let totalSemitones = semitone + cents / 100;
          targetPitch = 2 powr (totalSemitones / 12);
          shouldBypass = sp_shouldBypass semitone cents enabledParam
      in if \<bar>targetPitch - sp_previousPitch p\<bar> > 0.001
         then (let p1 = (if \<bar>totalSemitones\<bar> > 3 \<or> (sp_bypassed p \<and> \<not> shouldBypass)
                         then p\<lparr>sp_skipBuffer := True, sp_skipBufferCounter := 32\<rparr>
                         else p)
               in p1\<lparr>sp_soundTouch :=
                        SoundTouchEngine_set_pitchSemitones (sp_soundTouch p1) totalSemitones,
                      sp_previousPitch := targetPitch\<rparr>)
         else p)"

definition sp_update_bypass ::
  "SoundTouchProcessor \<Rightarrow> bool \<Rightarrow> error + SoundTouchProcessor" where
  "sp_update_bypass p shouldBypass =
     (if shouldBypass \<and> \<not> sp_bypassed p
      then thenE (SoundTouchEngine_reset (sp_soundTouch p)) (\<lambda>e.
             Inr (p\<lparr>sp_skipBuffer := True, sp_skipBufferCounter := 32, sp_bypassed := True,
                    sp_soundTouch := e\<rparr>))
      else if \<not> shouldBypass \<and> sp_bypassed p
      then Inr (p\<lparr>sp_skipBuffer := True, sp_skipBufferCounter := 32, sp_bypassed := False\<rparr>)
      else Inr p)"

text \<open>Interleaving the two input channels.\<close>

definition sp_interleave :: "sample list \<Rightarrow> sample list \<Rightarrow> int \<Rightarrow> sample list" where
  "sp_interleave left right numSamples =
     fold (\<lambda>i a. wr (wr a (i * 2) (rd left i)) (i * 2 + 1) (rd right i))
       (map int [0..<nat numSamples]) (new_Float32Array (numSamples * 2))"

text \<open>Pushing the block into the engine, running the engine once 4096 frames wait in its
  input, and moving at most one block of its output into the processor's zeroed output
  array.\<close>

definition sp_engine_input :: "SoundTouchEngine \<Rightarrow> FifoSampleBuffer" where
  "sp_engine_input e = se_buffers e EngineInput"

definition sp_engine_output :: "SoundTouchEngine \<Rightarrow> FifoSampleBuffer" where
  "sp_engine_output e = se_buffers e EngineOutput"

definition sp_push ::
  "SoundTouchEngine \<Rightarrow> sample list \<Rightarrow> sample list \<Rightarrow> int \<Rightarrow> (error + SoundTouchEngine) option" where
  "sp_push e left right numSamples =
     (let interleavedInput = sp_interleave left right numSamples
      in thenP (Some (putSamples (sp_engine_input e) interleavedInput 0 numSamples)) (\<lambda>inp.
         let e1 = e\<lparr>se_buffers := (se_buffers e)(EngineInput := inp)\<rparr>
         in if frameCount (sp_engine_input e1) \<ge> ST_MIN_FRAMES_FOR_PROCESSING
            then SoundTouchEngine_process e1 else Some (Inr e1)))"

definition sp_extract ::
  "SoundTouchProcessor \<Rightarrow> SoundTouchEngine \<Rightarrow> int \<Rightarrow> error + SoundTouchProcessor" where
  "sp_extract p e2 numSamples =
     (let zeroed = replicate (length (sp_outputBuffer p)) (Val 0);
          available = min numSamples (frameCount (sp_engine_output e2))
      in if available > 0
         then thenE (receiveSamples (sp_engine_output e2) zeroed available)
                (\<lambda>(outputBuffer, out).
                   Inr (p\<lparr>sp_soundTouch :=
                            e2\<lparr>se_buffers := (se_buffers e2)(EngineOutput := out)\<rparr>,
                          sp_outputBuffer := outputBuffer\<rparr>))
         else Inr (p\<lparr>sp_soundTouch := e2, sp_outputBuffer := zeroed\<rparr>))"

definition sp_feed ::
  "SoundTouchProcessor \<Rightarrow> sample list \<Rightarrow> sample list \<Rightarrow> int
     \<Rightarrow> (error + SoundTouchProcessor) option" where
  "sp_feed p left right numSamples =
     thenP (sp_push (sp_soundTouch p) left right numSamples) (\<lambda>e2.
       Some (sp_extract p e2 numSamples))"

text \<open>The two loops that write the output block: cross-faded with the input while the
  fade counter is positive, the processor's output array otherwise.\<close>

definition sp_emit_fade ::
  "sample list \<Rightarrow> sample list \<Rightarrow> sample list \<Rightarrow> real \<Rightarrow> int \<Rightarrow> sample list list
     \<Rightarrow> sample list list" where
  "sp_emit_fade outputBuffer left right fadeProgress numSamples output =
     fold (\<lambda>i outp.
             let outp1 = outp[0 := wr (outp ! 0) i
                                     (rd left i * Val (1 - fadeProgress)
                                        + rd outputBuffer (i * 2) * Val fadeProgress)]
             in if length output > 1
                then outp1[1 := wr (outp1 ! 1) i
                                  (rd right i * Val (1 - fadeProgress)
                                     + rd outputBuffer (i * 2 + 1) * Val fadeProgress)]
                else outp1)
       (map int [0..<nat numSamples]) output"

definition sp_emit_wet ::
  "sample list \<Rightarrow> int \<Rightarrow> sample list list \<Rightarrow> sample list list" where
  "sp_emit_wet outputBuffer numSamples output =
     fold (\<lambda>i outp.
             let outp1 = outp[0 := wr (outp ! 0) i (rd outputBuffer (i * 2))]
             in if length output > 1
                then outp1[1 := wr (outp1 ! 1) i (rd outputBuffer (i * 2 + 1))]
                else outp1)
       (map int [0..<nat numSamples]) output"

definition sp_emit ::
  "SoundTouchProcessor \<Rightarrow> sample list \<Rightarrow> sample list \<Rightarrow> int \<Rightarrow> sample list list
     \<Rightarrow> error + SoundTouchProcessor \<times> sample list list" where
  "sp_emit p left right numSamples output =
     (if sp_skipBufferCounter p > 0
      then thenE (sp_passthrough left right output) (\<lambda>output'.
             Inr (p\<lparr>sp_skipBufferCounter := sp_skipBufferCounter p - 1\<rparr>, output'))
      else
        (let p1 = (if sp_skipBuffer p
                   then p\<lparr>sp_fadeCounter := ST_FADE_FRAMES, sp_skipBuffer := False\<rparr> else p)
         in if sp_fadeCounter p1 > 0
            then (let fadeProgress =
                        1 - real_of_int (sp_fadeCounter p1) / real_of_int ST_FADE_FRAMES
                  in Inr (p1\<lparr>sp_fadeCounter := sp_fadeCounter p1 - 1\<rparr>,
                          sp_emit_fade (sp_outputBuffer p1) left right fadeProgress numSamples
                            output))
            else Inr (p1, sp_emit_wet (sp_outputBuffer p1) numSamples output)))"

text \<open>\<open>process(inputs, outputs, parameters)\<close>: \<open>input\<close> and \<open>output\<close> are \<open>inputs[0]\<close> and
  \<open>outputs[0]\<close>, lists of channels.  The result holds the processor and the output
  channels.\<close>

definition SoundTouchProcessor_process ::
  "SoundTouchProcessor \<Rightarrow> sample list list \<Rightarrow> sample list list \<Rightarrow> real \<Rightarrow> real \<Rightarrow> real
     \<Rightarrow> (error + SoundTouchProcessor \<times> sample list list) option" where
  "SoundTouchProcessor_process p input output semitone cents enabledParam =
     (if input = [] \<or> output = [] then Some (Inr (p, output))
      else
        (let numSamples = int (length (input ! 0));
             left = input ! 0;
             right = (if length input > 1 then input ! 1 else left);
             shouldBypass = sp_shouldBypass semitone cents enabledParam;
             p1 = sp_update_pitch p semitone cents enabledParam
         in thenP (Some (sp_update_bypass p1 shouldBypass)) (\<lambda>p2.
              if sp_bypassed p2 \<and> sp_skipBufferCounter p2 \<le> 0 \<and> sp_fadeCounter p2 \<le> 0
              then thenP (Some (sp_passthrough left right output)) (\<lambda>output'.
                     Some (Inr (p2, output')))
              else thenP (sp_feed p2 left right numSamples) (\<lambda>p3.
                     Some (sp_emit p3 left right numSamples output)))))"

section \<open>RubberbandProcessor: the block processor of the external stretcher\<close>

text \<open>
  The RubberBand stretcher is a WebAssembly module outside the repository.  Its instance
  (linear memory and stretcher) is a value of a type \<open>'x\<close>, and the exported functions the
  processor calls are the fields of \<open>RubberbandWasm\<close>, a parameter of the model; the two
  accessors stand for the copies between the channel arrays and the memory blocks that the
  processor allocated for input and output.
\<close>

definition BLOCK_SIZE :: int where "BLOCK_SIZE = 128"
definition FADE_FRAMES :: int where "FADE_FRAMES = 64"

record 'x RubberbandWasm =
  rubberband_set_pitch_scale :: "'x \<Rightarrow> int \<Rightarrow> real \<Rightarrow> 'x"
  rubberband_set_formant_scale :: "'x \<Rightarrow> int \<Rightarrow> real \<Rightarrow> 'x"
  rubberband_process :: "'x \<Rightarrow> int \<Rightarrow> int \<Rightarrow> 'x"
  rubberband_available :: "'x \<Rightarrow> int \<Rightarrow> int"
  rubberband_retrieve :: "'x \<Rightarrow> int \<Rightarrow> int \<Rightarrow> 'x"
  heap_set_input :: "'x \<Rightarrow> nat \<Rightarrow> sample list \<Rightarrow> 'x"
  heap_get_output :: "'x \<Rightarrow> nat \<Rightarrow> int \<Rightarrow> sample list"

record 'x RubberbandProcessor =
  rp_wasm :: "'x option"
  rp_stretcher :: int
  rp_channels :: int
  rp_ready :: bool
  rp_bypassed :: bool
  rp_previousPitchScale :: real
  rp_previousFormantScale :: real
  rp_fadeCounter :: int

text \<open>\<open>input[ch] || input[0]\<close>.\<close>

definition source_channel :: "sample list list \<Rightarrow> nat \<Rightarrow> sample list" where
  "source_channel input ch = (if ch < length input then input ! ch else input ! 0)"

definition passthrough :: "sample list list \<Rightarrow> sample list list \<Rightarrow> error + sample list list" where
  "passthrough input output =
     fold (\<lambda>ch acc. thenE acc (\<lambda>outp.
             thenE (set_arr (outp ! ch) (source_channel input ch) 0) (\<lambda>c.
               Inr (outp[ch := c]))))
       [0..<length output] (Inr output)"

definition applyCrossfade ::
  "bool \<Rightarrow> int \<Rightarrow> sample list \<Rightarrow> sample list \<Rightarrow> sample list \<Rightarrow> sample list" where
  "applyCrossfade bypassed fadeCounter dry wet output =
     (let fadeProgress = 1 - real_of_int fadeCounter / real_of_int FADE_FRAMES;
          wetGain = (if bypassed then cos (fadeProgress * pi * 0.5)
                     else sin (fadeProgress * pi * 0.5));
          dryGain = (if bypassed then sin (fadeProgress * pi * 0.5)
                     else cos (fadeProgress * pi * 0.5))
      in fold (\<lambda>i outp. wr outp i (rd dry i * Val dryGain + rd wet i * Val wetGain))
           (map int [0..<length output]) output)"

text \<open>The transitions into and out of bypass at the head of \<open>process\<close>.\<close>

definition rp_update_bypass :: "'x RubberbandProcessor \<Rightarrow> bool \<Rightarrow> 'x RubberbandProcessor" where
  "rp_update_bypass p shouldBypass =
     (if shouldBypass \<and> \<not> rp_bypassed p
      then p\<lparr>rp_fadeCounter := FADE_FRAMES, rp_bypassed := True\<rparr>
      else if \<not> shouldBypass \<and> rp_bypassed p
      then p\<lparr>rp_fadeCounter := FADE_FRAMES, rp_bypassed := False\<rparr>
      else p)"

text \<open>The copy of the processed channels to the output, cross-faded while the fade counter
  is positive; the counter goes down once for each output channel.\<close>

definition rp_copy_out ::
  "'x RubberbandWasm \<Rightarrow> 'x \<Rightarrow> bool \<Rightarrow> int \<Rightarrow> sample list list \<Rightarrow> int \<Rightarrow> nat
     \<Rightarrow> error + int \<times> sample list list \<Rightarrow> error + int \<times> sample list list" where
  "rp_copy_out W x bypassed channels input numSamples ch acc =
     thenE acc (\<lambda>(fadeCounter, outp).
       let sourceChannel = nat (min (int ch) (channels - 1));
           processedData = heap_get_output W x sourceChannel numSamples
       in if fadeCounter > 0
          then Inr (fadeCounter - 1,
                    outp[ch := applyCrossfade bypassed fadeCounter (source_channel input ch)
                                 processedData (outp ! ch)])
          else thenE (set_arr (outp ! ch) processedData 0) (\<lambda>c.
                 Inr (fadeCounter, outp[ch := c])))"

text \<open>The middle of \<open>process\<close>: new pitch and formant scales go to the stretcher, the
  input channels are copied into its memory (a mono input twice when it processes stereo),
  and the stretcher processes the block.\<close>

definition rp_push_block ::
  "'x RubberbandWasm \<Rightarrow> 'x RubberbandProcessor \<Rightarrow> 'x \<Rightarrow> sample list list \<Rightarrow> int
     \<Rightarrow> real \<Rightarrow> real \<Rightarrow> 'x \<times> 'x RubberbandProcessor" where
  "rp_push_block W p1 x input numSamples pitchScale formantScale =
     (let (x1, p2) =
            (if \<bar>pitchScale - rp_previousPitchScale p1\<bar> > 0.001
             then (rubberband_set_pitch_scale W x (rp_stretcher p1) pitchScale,
                   p1\<lparr>rp_previousPitchScale := pitchScale\<rparr>)
             else (x, p1));
          (x2, p3) =
            (if \<bar>formantScale - rp_previousFormantScale p2\<bar> > 0.001
             then (rubberband_set_formant_scale W x1 (rp_stretcher p2) formantScale,
                   p2\<lparr>rp_previousFormantScale := formantScale\<rparr>)
             else (x1, p2));
          x3 = fold (\<lambda>ch y. heap_set_input W y ch (input ! ch))
                 [0..<min (nat (rp_channels p3)) (length input)] x2;
          x4 = (if length input = 1 \<and> rp_channels p3 = 2
                then heap_set_input W x3 1 (input ! 0) else x3)
      in (rubberband_process W x4 (rp_stretcher p3) numSamples, p3))"

definition rp_shouldBypass :: "real \<Rightarrow> real \<Rightarrow> bool" where
  "rp_shouldBypass pitchScale enabledParam =
     (let enabled = enabledParam \<ge> 0.5
      in \<not> enabled \<or> \<bar>pitchScale - 1\<bar> < 0.001)"

text \<open>\<open>process(inputs, outputs, parameters)\<close>, with \<open>input = inputs[0]\<close>,
  \<open>output = outputs[0]\<close> and the first elements of the three parameter arrays.\<close>

definition RubberbandProcessor_process ::
  "'x RubberbandWasm \<Rightarrow> 'x RubberbandProcessor \<Rightarrow> sample list list \<Rightarrow> sample list list
     \<Rightarrow> real \<Rightarrow> real \<Rightarrow> real \<Rightarrow> error + 'x RubberbandProcessor \<times> sample list list" where
  "RubberbandProcessor_process W p input output pitchScale formantScale enabledParam =
     (if input = [] \<or> output = [] then Inr (p, output)
      else
        (let numSamples = int (length (input ! 0));
             shouldBypass = rp_shouldBypass pitchScale enabledParam;
             p1 = rp_update_bypass p shouldBypass
         in case rp_wasm p1 of
              None \<Rightarrow> thenE (passthrough input output) (\<lambda>output'. Inr (p1, output'))
            | Some x \<Rightarrow>
                if \<not> rp_ready p1 \<or> rp_stretcher p1 = 0
                then thenE (passthrough input output) (\<lambda>output'. Inr (p1, output'))
                else if rp_bypassed p1 \<and> rp_fadeCounter p1 \<le> 0
                then thenE (passthrough input output) (\<lambda>output'. Inr (p1, output'))
                else
                  (let (x5, p3) = rp_push_block W p1 x input numSamples pitchScale formantScale;
                       available = rubberband_available W x5 (rp_stretcher p3)
                   in if available \<ge> numSamples
                      then (let x6 = rubberband_retrieve W x5 (rp_stretcher p3) numSamples
                            in thenE (fold (rp_copy_out W x6 (rp_bypassed p3) (rp_channels p3)
                                              input numSamples)
                                        [0..<length output] (Inr (rp_fadeCounter p3, output)))
                                 (\<lambda>(fadeCounter, output').
                                    Inr (p3\<lparr>rp_wasm := Some x6, rp_fadeCounter := fadeCounter\<rparr>,
                                         output')))
                      else thenE (passthrough input output) (\<lambda>output'.
                             Inr (p3\<lparr>rp_wasm := Some x5\<rparr>, output')))))"

section \<open>Auxiliary notions\<close>

text \<open>A buffer is well formed when its read position and live frame count are not negative
  and the live frames lie inside the backing array.\<close>

definition fifo_ok :: "FifoSampleBuffer \<Rightarrow> bool" where
  "fifo_ok f = (0 \<le> position f \<and> 0 \<le> frameCount f \<and> endIndex f \<le> int (length (vector f)))"

text \<open>The library \<open>TimeStretch\<close> seen as a worklet \<open>TimeStretch\<close>: the fields the two classes
  share.  The worklet class has no \<open>sequenceMs\<close>, \<open>seekWindowMs\<close> and \<open>overlapMs\<close>
  fields; its sequence and seek window are always derived from the tempo, which the library
  class does when the two fields are 0.\<close>

definition worklet_view :: "TimeStretch \<Rightarrow> WTimeStretch" where
  "worklet_view s =
     \<lparr>wts_sampleRate = ts_sampleRate s, wts_tempo = ts_tempo s,
      wts_sequenceLength = ts_sequenceLength s, wts_seekLength = ts_seekLength s,
      wts_overlapLength = ts_overlapLength s, wts_nominalSkip = ts_nominalSkip s,
      wts_skipFract = ts_skipFract s, wts_midBuffer = ts_midBuffer s,
      wts_refMidBuffer = ts_refMidBuffer s, wts_sampleReq = ts_sampleReq s\<rparr>"

definition auto_params :: "TimeStretch \<Rightarrow> bool" where
  "auto_params s = (ts_sequenceMs s = 0 \<and> ts_seekWindowMs s = 0)"

definition view3 ::
  "TimeStretch \<times> FifoSampleBuffer \<times> FifoSampleBuffer
     \<Rightarrow> WTimeStretch \<times> FifoSampleBuffer \<times> FifoSampleBuffer" where
  "view3 x = (case x of (s, inp, out) \<Rightarrow> (worklet_view s, inp, out))"

text \<open>Callers of the two classes: a sequence of method calls on an object and its two
  buffers, run on the library class and on the worklet class.  \<open>SetParameters\<close> passes the
  sample rate and the overlap in milliseconds and leaves the sequence and the seek window
  automatic.\<close>

datatype transposer_call =
  SetRate real | ResetTransposer | PutTransposer "sample list" | ProcessTransposer

datatype stretch_call =
  SetParameters real real | SetTempo real | ResetStretch | PutStretch "sample list"
  | ProcessStretch

fun rt_call ::
  "RateTransposer \<times> FifoSampleBuffer \<times> FifoSampleBuffer \<Rightarrow> transposer_call
     \<Rightarrow> (error + RateTransposer \<times> FifoSampleBuffer \<times> FifoSampleBuffer) option" where
  "rt_call (t, inp, out) (SetRate v) = Some (Inr (RateTransposer_set_rate t v, inp, out))"
| "rt_call (t, inp, out) ResetTransposer = Some (RateTransposer_reset t inp out)"
| "rt_call (t, inp, out) (PutTransposer block) =
     Some (thenE (putSamples inp block 0 (int (length block) div 2)) (\<lambda>inp'. Inr (t, inp', out)))"
| "rt_call (t, inp, out) ProcessTransposer = RateTransposer_process t inp out"

fun rt_calls ::
  "RateTransposer \<times> FifoSampleBuffer \<times> FifoSampleBuffer \<Rightarrow> transposer_call list
     \<Rightarrow> (error + RateTransposer \<times> FifoSampleBuffer \<times> FifoSampleBuffer) option" where
  "rt_calls st [] = Some (Inr st)"
| "rt_calls st (c # cs) = thenP (rt_call st c) (\<lambda>st'. rt_calls st' cs)"

fun w_rt_call ::
  "RateTransposer \<times> FifoSampleBuffer \<times> FifoSampleBuffer \<Rightarrow> transposer_call
     \<Rightarrow> (error + RateTransposer \<times> FifoSampleBuffer \<times> FifoSampleBuffer) option" where
  "w_rt_call (t, inp, out) (SetRate v) = Some (Inr (WRateTransposer_set_rate t v, inp, out))"
| "w_rt_call (t, inp, out) ResetTransposer = Some (WRateTransposer_reset t inp out)"
| "w_rt_call (t, inp, out) (PutTransposer block) =
     Some (thenE (putSamples inp block 0 (int (length block) div 2)) (\<lambda>inp'. Inr (t, inp', out)))"
| "w_rt_call (t, inp, out) ProcessTransposer = WRateTransposer_process t inp out"

fun w_rt_calls ::
  "RateTransposer \<times> FifoSampleBuffer \<times> FifoSampleBuffer \<Rightarrow> transposer_call list
     \<Rightarrow> (error + RateTransposer \<times> FifoSampleBuffer \<times> FifoSampleBuffer) option" where
  "w_rt_calls st [] = Some (Inr st)"
| "w_rt_calls st (c # cs) = thenP (w_rt_call st c) (\<lambda>st'. w_rt_calls st' cs)"

fun ts_call ::
  "TimeStretch \<times> FifoSampleBuffer \<times> FifoSampleBuffer \<Rightarrow> stretch_call
     \<Rightarrow> (error + TimeStretch \<times> FifoSampleBuffer \<times> FifoSampleBuffer) option" where
  "ts_call (s, inp, out) (SetParameters sampleRate overlapMs) =
     Some (thenE (TimeStretch_setParameters s sampleRate 0 0 overlapMs)
             (\<lambda>s'. Inr (s', inp, out)))"
| "ts_call (s, inp, out) (SetTempo v) = Some (Inr (TimeStretch_set_tempo s v, inp, out))"
| "ts_call (s, inp, out) ResetStretch = Some (TimeStretch_reset s inp out)"
| "ts_call (s, inp, out) (PutStretch block) =
     Some (thenE (putSamples inp block 0 (int (length block) div 2)) (\<lambda>inp'. Inr (s, inp', out)))"
| "ts_call (s, inp, out) ProcessStretch = TimeStretch_process s inp out"

fun ts_calls ::
  "TimeStretch \<times> FifoSampleBuffer \<times> FifoSampleBuffer \<Rightarrow> stretch_call list
     \<Rightarrow> (error + TimeStretch \<times> FifoSampleBuffer \<times> FifoSampleBuffer) option" where
  "ts_calls st [] = Some (Inr st)"
| "ts_calls st (c # cs) = thenP (ts_call st c) (\<lambda>st'. ts_calls st' cs)"

fun w_ts_call ::
  "WTimeStretch \<times> FifoSampleBuffer \<times> FifoSampleBuffer \<Rightarrow> stretch_call
     \<Rightarrow> (error + WTimeStretch \<times> FifoSampleBuffer \<times> FifoSampleBuffer) option" where
  "w_ts_call (s, inp, out) (SetParameters sampleRate overlapMs) =
     Some (thenE (WTimeStretch_setParameters s sampleRate overlapMs)
             (\<lambda>s'. Inr (s', inp, out)))"
| "w_ts_call (s, inp, out) (SetTempo v) = Some (Inr (WTimeStretch_set_tempo s v, inp, out))"
| "w_ts_call (s, inp, out) ResetStretch = Some (WTimeStretch_reset s inp out)"
| "w_ts_call (s, inp, out) (PutStretch block) =
     Some (thenE (putSamples inp block 0 (int (length block) div 2)) (\<lambda>inp'. Inr (s, inp', out)))"
| "w_ts_call (s, inp, out) ProcessStretch = WTimeStretch_process s inp out"

fun w_ts_calls ::
  "WTimeStretch \<times> FifoSampleBuffer \<times> FifoSampleBuffer \<Rightarrow> stretch_call list
     \<Rightarrow> (error + WTimeStretch \<times> FifoSampleBuffer \<times> FifoSampleBuffer) option" where
  "w_ts_calls st [] = Some (Inr st)"
| "w_ts_calls st (c # cs) = thenP (w_ts_call st c) (\<lambda>st'. w_ts_calls st' cs)"



fun positive_overlap :: "stretch_call \<Rightarrow> bool" where
  "positive_overlap (SetParameters sampleRate overlapMs) = (0 < overlapMs)"
| "positive_overlap c = True"

text \<open>A time stretcher at tempo 1: the nominal skip is the whole number
  \<open>sequenceLength - overlapLength\<close> of frames and is positive, the skip fraction is 0, and
  the mid buffer, when present, holds one overlap window.  \<open>seed_frames\<close> counts the input
  frames that sit in the mid buffer, \<open>chunk_frames\<close> the frames one iteration of
  \<open>process()\<close> appends to the output.\<close>

definition steady_tempo_one :: "TimeStretch \<Rightarrow> bool" where
  "steady_tempo_one s =
     (ts_nominalSkip s = real_of_int (ts_sequenceLength s - ts_overlapLength s)
      \<and> ts_skipFract s = 0
      \<and> ts_sequenceLength s - ts_overlapLength s \<le> ts_sampleReq s
      \<and> 0 < ts_overlapLength s \<and> ts_overlapLength s < ts_sequenceLength s
      \<and> (case ts_refMidBuffer s of None \<Rightarrow> False | Some r \<Rightarrow> True)
      \<and> (case ts_midBuffer s of None \<Rightarrow> True
          | Some m \<Rightarrow> int (length m) = 2 * ts_overlapLength s))"

definition seed_frames :: "TimeStretch \<Rightarrow> int" where
  "seed_frames s = (case ts_midBuffer s of None \<Rightarrow> 0 | Some m \<Rightarrow> ts_overlapLength s)"

definition chunk_frames :: "TimeStretch \<Rightarrow> int" where
  "chunk_frames s =
     (if ts_sequenceLength s - 2 * ts_overlapLength s > 0
      then ts_sequenceLength s - ts_overlapLength s else ts_overlapLength s)"

text \<open>A stretcher configured with automatic sequence and seek window and then set to tempo
  1, and a caller that puts each block of interleaved samples into the input buffer and
  calls \<open>process()\<close>; \<open>frames_put\<close> is the number of frames such a caller has put.\<close>

definition tempo_one_start :: "real \<Rightarrow> real \<Rightarrow> error + TimeStretch" where
  "tempo_one_start sampleRate overlapMs =
     thenE (TimeStretch_setParameters TimeStretch_new sampleRate 0 0 overlapMs)
       (\<lambda>s. Inr (TimeStretch_set_tempo s 1))"

definition frames_put :: "sample list list \<Rightarrow> int" where
  "frames_put blocks = sum_list (map (\<lambda>block. int (length block) div 2) blocks)"

fun ts_run ::
  "TimeStretch \<Rightarrow> FifoSampleBuffer \<Rightarrow> FifoSampleBuffer \<Rightarrow> sample list list
     \<Rightarrow> (error + TimeStretch \<times> FifoSampleBuffer \<times> FifoSampleBuffer) option" where
  "ts_run s inp out [] = Some (Inr (s, inp, out))"
| "ts_run s inp out (block # blocks) =
     thenP (Some (putSamples inp block 0 (int (length block) div 2))) (\<lambda>inp1.
       thenP (TimeStretch_process s inp1 out) (\<lambda>(s', inp', out').
         ts_run s' inp' out' blocks))"

text \<open>A worklet processor that runs at 12 semitones and whose engine has no processed
  output, and a caller that hands \<open>process\<close> one input block after the other, each with
  zeroed output channels of the same shape as the audio runtime does; the caller keeps the
  processor and the last output block.\<close>

definition starved :: "SoundTouchProcessor \<Rightarrow> bool" where
  "starved q =
     (\<not> sp_bypassed q \<and> sp_previousPitch q = 2
      \<and> length (sp_outputBuffer q) = 256
      \<and> fifo_ok (sp_engine_input (sp_soundTouch q))
      \<and> frameCount (sp_engine_output (sp_soundTouch q)) = 0)"

fun sp_run ::
  "SoundTouchProcessor \<times> sample list list \<Rightarrow> sample list list list \<Rightarrow> real \<Rightarrow> real \<Rightarrow> real
     \<Rightarrow> (error + SoundTouchProcessor \<times> sample list list) option" where
  "sp_run st [] semitone cents enabledParam = Some (Inr st)"
| "sp_run st (input # inputs) semitone cents enabledParam =
     thenP (SoundTouchProcessor_process (fst st) input
              (map (\<lambda>channel. replicate (length channel) (Val 0)) input)
              semitone cents enabledParam)
       (\<lambda>st'. sp_run st' inputs semitone cents enabledParam)"
section \<open>Sequencing\<close>

lemma thenP_Some_Inr [simp]: "thenP (Some (Inr x)) f = f x"
  by (simp add: thenP_def)

lemma thenP_Some_Inl [simp]: "thenP (Some (Inl e)) f = Some (Inl e)"
  by (simp add: thenP_def)

lemma thenP_None [simp]: "thenP None f = None"
  by (simp add: thenP_def)

lemma thenE_Inr [simp]: "thenE (Inr x) f = f x"
  by (simp add: thenE_def)

lemma thenE_Inl [simp]: "thenE (Inl e) f = Inl e"
  by (simp add: thenE_def)

lemma thenE_eq_Inr: "thenE r f = Inr y \<longleftrightarrow> (\<exists>x. r = Inr x \<and> f x = Inr y)"
  by (cases r) simp_all

section \<open>Parameters of the time stretcher\<close>

lemma js_rem_nonneg: "0 \<le> a \<Longrightarrow> js_rem a 8 = a mod 8"
  by (cases "a = 0") (simp_all add: js_rem_def)

lemma round_down_8: "16 \<le> (a::int) \<Longrightarrow> a - js_rem a 8 = a div 8 * 8"
  by (simp add: js_rem_nonneg minus_mod_eq_div_mult)

lemma round_down_8_ge: "16 \<le> (a::int) \<Longrightarrow> 16 \<le> a div 8 * 8"
  by presburger

lemma calculateEffectiveParams_fields:
  "ts_sampleRate (calculateEffectiveParams s) = ts_sampleRate s"
  "ts_tempo (calculateEffectiveParams s) = ts_tempo s"
  "ts_sequenceMs (calculateEffectiveParams s) = ts_sequenceMs s"
  "ts_seekWindowMs (calculateEffectiveParams s) = ts_seekWindowMs s"
  "ts_overlapMs (calculateEffectiveParams s) = ts_overlapMs s"
  "ts_overlapLength (calculateEffectiveParams s) = ts_overlapLength s"
  "ts_nominalSkip (calculateEffectiveParams s) = ts_nominalSkip s"
  "ts_skipFract (calculateEffectiveParams s) = ts_skipFract s"
  "ts_midBuffer (calculateEffectiveParams s) = ts_midBuffer s"
  "ts_refMidBuffer (calculateEffectiveParams s) = ts_refMidBuffer s"
  "ts_sampleReq (calculateEffectiveParams s) = ts_sampleReq s"
  by (simp_all add: calculateEffectiveParams_def)

lemma w_calculateEffectiveParams_fields:
  "wts_sampleRate (w_calculateEffectiveParams s) = wts_sampleRate s"
  "wts_tempo (w_calculateEffectiveParams s) = wts_tempo s"
  "wts_overlapLength (w_calculateEffectiveParams s) = wts_overlapLength s"
  "wts_nominalSkip (w_calculateEffectiveParams s) = wts_nominalSkip s"
  "wts_skipFract (w_calculateEffectiveParams s) = wts_skipFract s"
  "wts_midBuffer (w_calculateEffectiveParams s) = wts_midBuffer s"
  "wts_refMidBuffer (w_calculateEffectiveParams s) = wts_refMidBuffer s"
  "wts_sampleReq (w_calculateEffectiveParams s) = wts_sampleReq s"
  by (simp_all add: w_calculateEffectiveParams_def)

lemma Infinity_exceeds_limit:
  assumes "product_is_Infinity a b"
  shows "Float32Array_MAX_LENGTH < 2 * \<lfloor>a * b / 1000\<rfloor>"
proof -
  have "(4294967296000 :: real) \<le> 2 ^ 1024 - 2 ^ 970" by simp
  moreover have "2 ^ 1024 - 2 ^ 970 \<le> a * b"
    using assms by (simp only: product_is_Infinity_def)
  ultimately have "4294967296000 \<le> a * b" by (rule order_trans)
  then have "4294967296 \<le> a * b / 1000" by simp
  then have "4294967296 \<le> \<lfloor>a * b / 1000\<rfloor>" by (simp add: le_floor_iff)
  moreover have "Float32Array_MAX_LENGTH = 4294967295"
    by (simp add: Float32Array_MAX_LENGTH_def)
  ultimately show ?thesis by linarith
qed

lemma overlap_window_fits:
  "2 * k \<le> Float32Array_MAX_LENGTH
     \<Longrightarrow> Float32Array_of_length (max 16 k div 8 * 8 * 2)
           = Inr (new_Float32Array (max 16 k div 8 * 8 * 2))"
  by (simp add: Float32Array_of_length_def Float32Array_MAX_LENGTH_def max_def) presburger

lemma overlap_window_too_long:
  "Float32Array_MAX_LENGTH < max 16 k div 8 * 8 * 2
     \<Longrightarrow> Float32Array_of_length (max 16 k div 8 * 8 * 2) = Inl RangeError"
  by (simp add: Float32Array_of_length_def)

lemma calculateOverlapLength_returns:
  assumes "2 * \<lfloor>ts_sampleRate s * ts_overlapMs s / 1000\<rfloor> \<le> Float32Array_MAX_LENGTH"
  shows "calculateOverlapLength s
           = Inr (s\<lparr>ts_overlapLength :=
                      max 16 \<lfloor>ts_sampleRate s * ts_overlapMs s / 1000\<rfloor> div 8 * 8,
                    ts_refMidBuffer :=
                      Some (new_Float32Array
                              (max 16 \<lfloor>ts_sampleRate s * ts_overlapMs s / 1000\<rfloor> div 8 * 8 * 2)),
                    ts_midBuffer :=
                      Some (new_Float32Array
                              (max 16 \<lfloor>ts_sampleRate s * ts_overlapMs s / 1000\<rfloor> div 8 * 8 * 2))\<rparr>)"
proof -
  let ?k = "\<lfloor>ts_sampleRate s * ts_overlapMs s / 1000\<rfloor>"
  have fin: "\<not> product_is_Infinity (ts_sampleRate s) (ts_overlapMs s)"
    using assms Infinity_exceeds_limit [of "ts_sampleRate s" "ts_overlapMs s"] by auto
  have ov: "(if ?k < 16 then 16 else ?k) - js_rem (if ?k < 16 then 16 else ?k) 8
              = max 16 ?k div 8 * 8"
    by (simp add: round_down_8 max_def)
  show ?thesis
    unfolding calculateOverlapLength_def Let_def ov overlap_window_fits [OF assms]
    using fin by simp
qed

lemma calculateOverlapLength_Inr:
  assumes "calculateOverlapLength s = Inr s'"
  shows "s' = s\<lparr>ts_overlapLength :=
                   max 16 \<lfloor>ts_sampleRate s * ts_overlapMs s / 1000\<rfloor> div 8 * 8,
                 ts_refMidBuffer :=
                   Some (new_Float32Array
                           (max 16 \<lfloor>ts_sampleRate s * ts_overlapMs s / 1000\<rfloor> div 8 * 8 * 2)),
                 ts_midBuffer :=
                   Some (new_Float32Array
                           (max 16 \<lfloor>ts_sampleRate s * ts_overlapMs s / 1000\<rfloor> div 8 * 8 * 2))\<rparr>"
proof -
  let ?k = "\<lfloor>ts_sampleRate s * ts_overlapMs s / 1000\<rfloor>"
  have ov: "(if ?k < 16 then 16 else ?k) - js_rem (if ?k < 16 then 16 else ?k) 8
              = max 16 ?k div 8 * 8"
    by (simp add: round_down_8 max_def)
  show ?thesis
    using assms unfolding calculateOverlapLength_def Let_def ov
    by (auto simp add: Float32Array_of_length_def split: if_splits)
qed

lemma w_calculateOverlapLength_returns:
  assumes "2 * \<lfloor>wts_sampleRate s * ms / 1000\<rfloor> \<le> Float32Array_MAX_LENGTH"
  shows "w_calculateOverlapLength s ms
           = Inr (s\<lparr>wts_overlapLength := max 16 \<lfloor>wts_sampleRate s * ms / 1000\<rfloor> div 8 * 8,
                    wts_refMidBuffer :=
                      Some (new_Float32Array
                              (max 16 \<lfloor>wts_sampleRate s * ms / 1000\<rfloor> div 8 * 8 * 2)),
                    wts_midBuffer :=
                      Some (new_Float32Array
                              (max 16 \<lfloor>wts_sampleRate s * ms / 1000\<rfloor> div 8 * 8 * 2))\<rparr>)"
proof -
  let ?k = "\<lfloor>wts_sampleRate s * ms / 1000\<rfloor>"
  have fin: "\<not> product_is_Infinity (wts_sampleRate s) ms"
    using assms Infinity_exceeds_limit [of "wts_sampleRate s" ms] by auto
  have ov: "(if ?k < 16 then 16 else ?k) - js_rem (if ?k < 16 then 16 else ?k) 8
              = max 16 ?k div 8 * 8"
    by (simp add: round_down_8 max_def)
  show ?thesis
    unfolding w_calculateOverlapLength_def Let_def ov overlap_window_fits [OF assms]
    using fin by simp
qed

lemma w_calculateOverlapLength_Inr:
  assumes "w_calculateOverlapLength s ms = Inr s'"
  shows "s' = s\<lparr>wts_overlapLength := max 16 \<lfloor>wts_sampleRate s * ms / 1000\<rfloor> div 8 * 8,
                 wts_refMidBuffer :=
                   Some (new_Float32Array
                           (max 16 \<lfloor>wts_sampleRate s * ms / 1000\<rfloor> div 8 * 8 * 2)),
                 wts_midBuffer :=
                   Some (new_Float32Array
                           (max 16 \<lfloor>wts_sampleRate s * ms / 1000\<rfloor> div 8 * 8 * 2))\<rparr>"
proof -
  let ?k = "\<lfloor>wts_sampleRate s * ms / 1000\<rfloor>"
  have ov: "(if ?k < 16 then 16 else ?k) - js_rem (if ?k < 16 then 16 else ?k) 8
              = max 16 ?k div 8 * 8"
    by (simp add: round_down_8 max_def)
  show ?thesis
    using assms unfolding w_calculateOverlapLength_def Let_def ov
    by (auto simp add: Float32Array_of_length_def split: if_splits)
qed

lemma TimeStretch_set_tempo_fields:
  "ts_sampleRate (TimeStretch_set_tempo s v) = ts_sampleRate s"
  "ts_tempo (TimeStretch_set_tempo s v) = v"
  "ts_sequenceMs (TimeStretch_set_tempo s v) = ts_sequenceMs s"
  "ts_seekWindowMs (TimeStretch_set_tempo s v) = ts_seekWindowMs s"
  "ts_overlapMs (TimeStretch_set_tempo s v) = ts_overlapMs s"
  "ts_overlapLength (TimeStretch_set_tempo s v) = ts_overlapLength s"
  "ts_skipFract (TimeStretch_set_tempo s v) = 0"
  "ts_midBuffer (TimeStretch_set_tempo s v) = ts_midBuffer s"
  "ts_refMidBuffer (TimeStretch_set_tempo s v) = ts_refMidBuffer s"
  by (simp_all add: TimeStretch_set_tempo_def Let_def calculateEffectiveParams_fields)

lemma WTimeStretch_set_tempo_fields:
  "wts_sampleRate (WTimeStretch_set_tempo s v) = wts_sampleRate s"
  "wts_tempo (WTimeStretch_set_tempo s v) = v"
  "wts_overlapLength (WTimeStretch_set_tempo s v) = wts_overlapLength s"
  "wts_skipFract (WTimeStretch_set_tempo s v) = 0"
  "wts_midBuffer (WTimeStretch_set_tempo s v) = wts_midBuffer s"
  "wts_refMidBuffer (WTimeStretch_set_tempo s v) = wts_refMidBuffer s"
  by (simp_all add: WTimeStretch_set_tempo_def Let_def w_calculateEffectiveParams_fields)

lemma TimeStretch_setParameters_Inr:
  assumes "TimeStretch_setParameters s sr sq sk ms = Inr s'"
  shows "\<exists>s2. calculateOverlapLength
                (calculateEffectiveParams
                   (s\<lparr>ts_sampleRate := (if sr > 0 then sr else ts_sampleRate s),
                      ts_overlapMs := (if ms > 0 then ms else ts_overlapMs s),
                      ts_sequenceMs := sq, ts_seekWindowMs := sk\<rparr>)) = Inr s2
             \<and> s' = TimeStretch_set_tempo s2 (ts_tempo s2)"
  using assms unfolding TimeStretch_setParameters_def Let_def thenE_eq_Inr sum.inject
  by blast

lemma WTimeStretch_setParameters_Inr:
  assumes "WTimeStretch_setParameters s sr ms = Inr s'"
  shows "\<exists>s2. w_calculateOverlapLength
                (w_calculateEffectiveParams
                   (s\<lparr>wts_sampleRate := (if sr > 0 then sr else wts_sampleRate s)\<rparr>)) ms = Inr s2
             \<and> s' = WTimeStretch_set_tempo s2 (wts_tempo s2)"
  using assms unfolding WTimeStretch_setParameters_def Let_def thenE_eq_Inr sum.inject
  by blast

lemma TimeStretch_setParameters_fields:
  assumes "TimeStretch_setParameters s sr sq sk ms = Inr s'"
  shows "ts_sampleRate s' = (if sr > 0 then sr else ts_sampleRate s)"
    and "ts_overlapMs s' = (if ms > 0 then ms else ts_overlapMs s)"
    and "ts_sequenceMs s' = sq"
    and "ts_seekWindowMs s' = sk"
    and "ts_tempo s' = ts_tempo s"
    and "ts_overlapLength s' =
           max 16 \<lfloor>(if sr > 0 then sr else ts_sampleRate s)
                     * (if ms > 0 then ms else ts_overlapMs s) / 1000\<rfloor> div 8 * 8"
    and "ts_midBuffer s' = Some (new_Float32Array (ts_overlapLength s' * 2))"
    and "ts_refMidBuffer s' = Some (new_Float32Array (ts_overlapLength s' * 2))"
proof -
  from TimeStretch_setParameters_Inr [OF assms] obtain s2 where
    c: "calculateOverlapLength
          (calculateEffectiveParams
             (s\<lparr>ts_sampleRate := (if sr > 0 then sr else ts_sampleRate s),
                ts_overlapMs := (if ms > 0 then ms else ts_overlapMs s),
                ts_sequenceMs := sq, ts_seekWindowMs := sk\<rparr>)) = Inr s2"
    and s': "s' = TimeStretch_set_tempo s2 (ts_tempo s2)"
    by blast
  note s2 = calculateOverlapLength_Inr [OF c]
  show "ts_sampleRate s' = (if sr > 0 then sr else ts_sampleRate s)"
    and "ts_overlapMs s' = (if ms > 0 then ms else ts_overlapMs s)"
    and "ts_sequenceMs s' = sq"
    and "ts_seekWindowMs s' = sk"
    and "ts_tempo s' = ts_tempo s"
    and ov: "ts_overlapLength s' =
           max 16 \<lfloor>(if sr > 0 then sr else ts_sampleRate s)
                     * (if ms > 0 then ms else ts_overlapMs s) / 1000\<rfloor> div 8 * 8"
    unfolding s' TimeStretch_set_tempo_fields
    by (subst s2, simp add: calculateEffectiveParams_fields)+
  show "ts_midBuffer s' = Some (new_Float32Array (ts_overlapLength s' * 2))"
    and "ts_refMidBuffer s' = Some (new_Float32Array (ts_overlapLength s' * 2))"
    unfolding ov unfolding s' TimeStretch_set_tempo_fields
    by (subst s2, simp add: calculateEffectiveParams_fields)+
qed

lemma WTimeStretch_setParameters_fields:
  assumes "WTimeStretch_setParameters s sr ms = Inr s'"
  shows "wts_sampleRate s' = (if sr > 0 then sr else wts_sampleRate s)"
    and "wts_tempo s' = wts_tempo s"
    and "wts_overlapLength s' =
           max 16 \<lfloor>(if sr > 0 then sr else wts_sampleRate s) * ms / 1000\<rfloor> div 8 * 8"
proof -
  from WTimeStretch_setParameters_Inr [OF assms] obtain s2 where
    c: "w_calculateOverlapLength
          (w_calculateEffectiveParams
             (s\<lparr>wts_sampleRate := (if sr > 0 then sr else wts_sampleRate s)\<rparr>)) ms = Inr s2"
    and s': "s' = WTimeStretch_set_tempo s2 (wts_tempo s2)"
    by blast
  note s2 = w_calculateOverlapLength_Inr [OF c]
  show "wts_sampleRate s' = (if sr > 0 then sr else wts_sampleRate s)"
    and "wts_tempo s' = wts_tempo s"
    and "wts_overlapLength s' =
           max 16 \<lfloor>(if sr > 0 then sr else wts_sampleRate s) * ms / 1000\<rfloor> div 8 * 8"
    unfolding s' WTimeStretch_set_tempo_fields
    by (subst s2, simp add: w_calculateEffectiveParams_fields)+
qed

lemma TimeStretch_setParameters_returns:
  assumes "2 * \<lfloor>(if sr > 0 then sr else ts_sampleRate s)
                 * (if ms > 0 then ms else ts_overlapMs s) / 1000\<rfloor> \<le> Float32Array_MAX_LENGTH"
  shows "\<exists>s'. TimeStretch_setParameters s sr sq sk ms = Inr s'"
proof -
  let ?s1 = "calculateEffectiveParams
               (s\<lparr>ts_sampleRate := (if sr > 0 then sr else ts_sampleRate s),
                  ts_overlapMs := (if ms > 0 then ms else ts_overlapMs s),
                  ts_sequenceMs := sq, ts_seekWindowMs := sk\<rparr>)"
  have "2 * \<lfloor>ts_sampleRate ?s1 * ts_overlapMs ?s1 / 1000\<rfloor> \<le> Float32Array_MAX_LENGTH"
    using assms by (simp add: calculateEffectiveParams_fields)
  from calculateOverlapLength_returns [OF this] show ?thesis
    by (simp add: TimeStretch_setParameters_def Let_def)
qed

lemma WTimeStretch_setParameters_returns:
  assumes "2 * \<lfloor>(if sr > 0 then sr else wts_sampleRate s) * ms / 1000\<rfloor>
             \<le> Float32Array_MAX_LENGTH"
  shows "\<exists>s'. WTimeStretch_setParameters s sr ms = Inr s'"
proof -
  let ?s1 = "w_calculateEffectiveParams
               (s\<lparr>wts_sampleRate := (if sr > 0 then sr else wts_sampleRate s)\<rparr>)"
  have "2 * \<lfloor>wts_sampleRate ?s1 * ms / 1000\<rfloor> \<le> Float32Array_MAX_LENGTH"
    using assms by (simp add: w_calculateEffectiveParams_fields)
  from w_calculateOverlapLength_returns [OF this] show ?thesis
    by (simp add: WTimeStretch_setParameters_def Let_def)
qed

text \<open>
  Claim C9, amended.  Let the sample rate be above zero and let the overlap window fit a typed
  array: twice the floor of sample rate times overlap duration over 1000 does not exceed the
  length limit of the engine (which excludes a product that overflows).  Then, whatever the
  state before, \<open>setParameters\<close> returns and leaves an overlap length that is a multiple of 8
  and at least 16 frames, computed afresh by the call: the floor of sample rate times overlap
  duration over 1000, raised to 16 and rounded down to a multiple of 8.  The library computes
  from the duration it has stored, which the call replaces when the argument is positive; the
  worklet computes from the argument.
\<close>

theorem overlapLength_multiple_of_8_min_16:
  assumes "0 < sr"
    and "2 * \<lfloor>sr * (if 0 < ms then ms else ts_overlapMs s) / 1000\<rfloor> \<le> Float32Array_MAX_LENGTH"
    and "2 * \<lfloor>sr * ms / 1000\<rfloor> \<le> Float32Array_MAX_LENGTH"
  shows "\<exists>s' w'.
           TimeStretch_setParameters s sr sq sk ms = Inr s'
         \<and> WTimeStretch_setParameters w sr ms = Inr w'
         \<and> 8 dvd ts_overlapLength s' \<and> 16 \<le> ts_overlapLength s'
         \<and> ts_overlapLength s' =
             max 16 \<lfloor>sr * (if 0 < ms then ms else ts_overlapMs s) / 1000\<rfloor> div 8 * 8
         \<and> 8 dvd wts_overlapLength w' \<and> 16 \<le> wts_overlapLength w'
         \<and> wts_overlapLength w' = max 16 \<lfloor>sr * ms / 1000\<rfloor> div 8 * 8"
proof -
  have ge: "16 \<le> max 16 (k::int) div 8 * 8" for k
    by (rule round_down_8_ge) simp
  from TimeStretch_setParameters_returns [of sr s ms sq sk] assms(1,2) obtain s' where
    s': "TimeStretch_setParameters s sr sq sk ms = Inr s'"
    by auto
  from WTimeStretch_setParameters_returns [of sr w ms] assms(1,3) obtain w' where
    w': "WTimeStretch_setParameters w sr ms = Inr w'"
    by auto
  show ?thesis
    using s' w' assms(1) ge
    by (intro exI [of _ s'] exI [of _ w'])
      (simp add: TimeStretch_setParameters_fields(6) [OF s']
        WTimeStretch_setParameters_fields(3) [OF w'])
qed

text \<open>The amended claim C9 at 44100 Hz with 16 ms (704 frames) and at 8000 Hz with 1 ms (the
  minimum of 16 frames).\<close>

theorem overlapLength_multiple_of_8_min_16_witness:
  "(\<exists>s' w'. TimeStretch_setParameters TimeStretch_new 44100 0 0 16 = Inr s'
           \<and> WTimeStretch_setParameters WTimeStretch_new 44100 16 = Inr w'
           \<and> ts_overlapLength s' = 704 \<and> wts_overlapLength w' = 704)
   \<and> (\<exists>s' w'. TimeStretch_setParameters TimeStretch_new 8000 0 0 1 = Inr s'
           \<and> WTimeStretch_setParameters WTimeStretch_new 8000 1 = Inr w'
           \<and> ts_overlapLength s' = 16 \<and> wts_overlapLength w' = 16)"
  using overlapLength_multiple_of_8_min_16
      [where sr = 44100 and ms = 16 and s = TimeStretch_new and w = WTimeStretch_new
         and sq = 0 and sk = 0]
    overlapLength_multiple_of_8_min_16
      [where sr = 8000 and ms = 1 and s = TimeStretch_new and w = WTimeStretch_new
         and sq = 0 and sk = 0]
  by (simp add: Float32Array_MAX_LENGTH_def TimeStretch_new_def) blast

text \<open>
  Claim C9 as stated fails for overlap durations that are too long.  At 44100 Hz with an
  overlap of \<open>10^305\<close> ms the product overflows: both classes return with \<open>NaN\<close> in
  \<open>overlapLength\<close>, which is neither a multiple of 8 nor at least 16.  With \<open>10^15\<close> ms the
  overlap window cannot be allocated and \<open>setParameters\<close> raises \<open>RangeError\<close>.
\<close>

theorem overlap_too_long_counterexample:
  "TimeStretch_setParameters TimeStretch_new 44100 0 0 (10 ^ 305) = Inl NotANumber
   \<and> WTimeStretch_setParameters WTimeStretch_new 44100 (10 ^ 305) = Inl NotANumber
   \<and> TimeStretch_setParameters TimeStretch_new 44100 0 0 (10 ^ 15) = Inl RangeError
   \<and> WTimeStretch_setParameters WTimeStretch_new 44100 (10 ^ 15) = Inl RangeError"
proof -
  have inf: "product_is_Infinity 44100 (10 ^ 305)" by (simp add: product_is_Infinity_def)
  have fin: "\<not> product_is_Infinity 44100 (10 ^ 15)" by (simp add: product_is_Infinity_def)
  have long: "Float32Array_of_length (44100000000000000 * 2) = Inl RangeError"
    by (simp add: Float32Array_of_length_def Float32Array_MAX_LENGTH_def)
  show ?thesis
    using inf fin long
    by (simp add: TimeStretch_setParameters_def WTimeStretch_setParameters_def Let_def
        calculateOverlapLength_def w_calculateOverlapLength_def calculateEffectiveParams_fields
        w_calculateEffectiveParams_fields TimeStretch_new_def WTimeStretch_new_def js_rem_def)
qed
section \<open>Facts about the sample buffer\<close>


lemma length_wr [simp]: "length (wr a i v) = length a"
  by (simp add: wr_def)

lemma length_subarray_le: "length (subarray a b e) \<le> length a"
  by (simp add: subarray_def Let_def)

lemma length_subarray_bound: "0 \<le> n \<Longrightarrow> int (length (subarray a b (b + n))) \<le> n"
  by (auto simp add: subarray_def Let_def rel_index_def max_def min_def)

lemma subarray_in_range:
  "0 \<le> b \<Longrightarrow> b \<le> e \<Longrightarrow> e \<le> int (length a)
     \<Longrightarrow> subarray a b e = take (nat (e - b)) (drop (nat b) a)"
  by (simp add: subarray_def Let_def rel_index_def max_def min_def)

lemma subarray_clamped:
  "0 \<le> b \<Longrightarrow> b \<le> int (length a) \<Longrightarrow> int (length a) \<le> e
     \<Longrightarrow> subarray a b e = drop (nat b) a"
proof -
  assume a: "0 \<le> b" "b \<le> int (length a)" "int (length a) \<le> e"
  have "length (drop (nat b) a) \<le> nat (int (length a) - b)"
    using a by simp
  then show ?thesis
    using a by (auto simp add: subarray_def Let_def rel_index_def max_def min_def)
qed

lemma set_arr_fits:
  "int (length src) \<le> int (length dst)
     \<Longrightarrow> set_arr dst src 0 = Inr (src @ drop (length src) dst)"
  by (simp add: set_arr_def)

lemma set_arr_too_long:
  "length dst < length src \<Longrightarrow> set_arr dst src 0 = Inl RangeError"
  by (simp add: set_arr_def)

lemma receive_more_than_live:
  "frameCount f < n \<Longrightarrow>
     receive f n = f\<lparr>frameCount := 0, position := position f + frameCount f\<rparr>"
  by (simp add: receive_def Let_def)

text \<open>
  Claim C7, amended.  On a well-formed buffer holding \<open>k\<close> live frames, a request for
  \<open>n > k\<close> frames makes \<open>receive\<close> remove exactly the \<open>k\<close> live frames.
  \<open>receiveSamples\<close> does the same removal when it returns, but its copy is cut to the
  backing array and not to the live frames: it copies the \<open>min(2n, length - start)\<close>
  samples of the backing array that begin at the read position, the \<open>2k\<close> live samples
  first and storage that is not live behind them, and it raises \<open>RangeError\<close> when that
  many samples do not fit into the output array.
\<close>

theorem receive_beyond_live_frames:
  assumes "fifo_ok f" and "frameCount f < n"
  shows "frameCount (receive f n) = 0
       \<and> position (receive f n) = position f + frameCount f
       \<and> vector (receive f n) = vector f
       \<and> receiveSamples f output n =
           (let copied = take (nat (2 * n)) (drop (nat (startIndex f)) (vector f))
            in if length output < length copied then Inl RangeError
               else Inr (copied @ drop (length copied) output, receive f n))
       \<and> length (take (nat (2 * n)) (drop (nat (startIndex f)) (vector f)))
           = min (nat (2 * n)) (length (vector f) - nat (startIndex f))
       \<and> take (nat (2 * frameCount f)) (take (nat (2 * n)) (drop (nat (startIndex f)) (vector f)))
           = take (nat (2 * frameCount f)) (drop (nat (startIndex f)) (vector f))"
proof -
  have r: "receive f n = f\<lparr>frameCount := 0, position := position f + frameCount f\<rparr>"
    using assms(2) by (rule receive_more_than_live)
  have s0: "0 \<le> startIndex f" and sl: "startIndex f \<le> int (length (vector f))"
    using assms(1) by (simp_all add: fifo_ok_def startIndex_def endIndex_def)
  have n0: "0 \<le> n" using assms by (simp add: fifo_ok_def)
  let ?rest = "drop (nat (startIndex f)) (vector f)"
  have sub: "subarray (vector f) (startIndex f) (startIndex f + n * 2)
               = take (nat (2 * n)) ?rest"
  proof (cases "startIndex f + n * 2 \<le> int (length (vector f))")
    case True
    then show ?thesis using s0 n0 by (simp add: subarray_in_range mult.commute)
  next
    case False
    then have "subarray (vector f) (startIndex f) (startIndex f + n * 2) = ?rest"
      using s0 sl by (simp add: subarray_clamped)
    moreover have "length ?rest \<le> nat (2 * n)" using False s0 by simp
    ultimately show ?thesis by simp
  qed
  have rs: "receiveSamples f output n =
              (let copied = take (nat (2 * n)) ?rest
               in if length output < length copied then Inl RangeError
                  else Inr (copied @ drop (length copied) output, receive f n))"
    by (simp add: receiveSamples_def Let_def sub set_arr_def del: length_take)
  have tk: "take (nat (2 * frameCount f)) (take (nat (2 * n)) ?rest)
              = take (nat (2 * frameCount f)) ?rest"
    using assms by (simp add: fifo_ok_def min_def)
  show ?thesis
    using r rs tk by simp
qed

theorem receive_beyond_live_frames_witness:
  "receive \<lparr>vector = [Val 5, Val 6, Val 3, Val 4], position = 0, frameCount = 1\<rparr> 2
     = \<lparr>vector = [Val 5, Val 6, Val 3, Val 4], position = 1, frameCount = 0\<rparr>
   \<and> receiveSamples \<lparr>vector = [Val 5, Val 6, Val 3, Val 4], position = 0, frameCount = 1\<rparr>
        [Val 9, Val 9, Val 9, Val 9, Val 9, Val 9] 2
     = Inr ([Val 5, Val 6, Val 3, Val 4, Val 9, Val 9],
            \<lparr>vector = [Val 5, Val 6, Val 3, Val 4], position = 1, frameCount = 0\<rparr>)"
  using receive_beyond_live_frames
    [of "\<lparr>vector = [Val 5, Val 6, Val 3, Val 4], position = 0, frameCount = 1\<rparr>" 2
        "[Val 9, Val 9, Val 9, Val 9, Val 9, Val 9]"]
  by (simp add: fifo_ok_def endIndex_def startIndex_def receive_def)

text \<open>
  Claim C7 as stated fails for \<open>receiveSamples\<close>.  The buffer below is reached by putting
  two frames, removing them and putting one frame; it holds one live frame (5, 6) in front
  of the stale frame (3, 4).  Reading two frames copies both frames into the output, and
  raises \<open>RangeError\<close> when the output array has room for the one live frame only.
\<close>

theorem receiveSamples_copies_stale_frame_counterexample:
  "thenE (putSamples (Fifo_new 2) [Val 1, Val 2, Val 3, Val 4] 0 2)
     (\<lambda>f1. putSamples (receive f1 2) [Val 5, Val 6] 0 1)
     = Inr \<lparr>vector = [Val 5, Val 6, Val 3, Val 4], position = 0, frameCount = 1\<rparr>
   \<and> receiveSamples \<lparr>vector = [Val 5, Val 6, Val 3, Val 4], position = 0, frameCount = 1\<rparr>
        [Val 9, Val 9, Val 9, Val 9] 2
     = Inr ([Val 5, Val 6, Val 3, Val 4],
            \<lparr>vector = [Val 5, Val 6, Val 3, Val 4], position = 1, frameCount = 0\<rparr>)
   \<and> receiveSamples \<lparr>vector = [Val 5, Val 6, Val 3, Val 4], position = 0, frameCount = 1\<rparr>
        [Val 9, Val 9] 2
     = Inl RangeError"
  by code_simp

lemma rd_in_range: "0 \<le> i \<Longrightarrow> i < int (length a) \<Longrightarrow> rd a i = a ! nat i"
  by (simp add: rd_def)

lemma rd_append:
  "0 \<le> j \<Longrightarrow> rd (a @ b) j = (if j < int (length a) then rd a j else rd b (j - int (length a)))"
  by (auto simp add: rd_def nth_append nat_diff_distrib')

lemma rd_drop: "0 \<le> j \<Longrightarrow> rd (drop k a) j = rd a (int k + j)"
  by (auto simp add: rd_def nat_add_distrib)

lemma rd_take: "rd (take k a) j = (if j < int k then rd a j else NaN)"
  by (auto simp add: rd_def)

lemma rd_replicate: "rd (replicate k v) j = (if 0 \<le> j \<and> j < int k then v else NaN)"
  by (auto simp add: rd_def nat_less_iff)

lemma length_subarray:
  "0 \<le> b \<Longrightarrow> 0 \<le> e \<Longrightarrow> int (length (subarray a b e))
     = max (min e (int (length a)) - min b (int (length a))) 0"
  by (auto simp add: subarray_def Let_def rel_index_def max_def min_def)

lemma rd_subarray:
  assumes "0 \<le> b" and "0 \<le> e" and "0 \<le> j" and "j < int (length (subarray a b e))"
  shows "rd (subarray a b e) j = rd a (b + j)"
proof -
  have l: "int (length (subarray a b e)) = max (min e (int (length a)) - min b (int (length a))) 0"
    using assms(1,2) by (rule length_subarray)
  then have b: "b \<le> int (length a)" and e: "0 \<le> e" using assms by (auto simp add: max_def min_def split: if_splits)
  have "subarray a b e = take (nat (min e (int (length a)) - b)) (drop (nat b) a)"
    using assms(1) b e by (auto simp add: subarray_def Let_def rel_index_def max_def min_def)
  then show ?thesis
    using assms l b by (auto simp add: rd_take rd_drop max_def min_def split: if_splits)
qed

lemma set_arr_result:
  assumes "0 \<le> off" and "off + int (length src) \<le> int (length dst)"
  shows "\<exists>d. set_arr dst src off = Inr d \<and> length d = length dst
           \<and> (\<forall>j. rd d j = (if off \<le> j \<and> j < off + int (length src) then rd src (j - off)
                             else rd dst j))"
proof -
  let ?d = "take (nat off) dst @ src @ drop (nat off + length src) dst"
  have s: "set_arr dst src off = Inr ?d" using assms by (simp add: set_arr_def)
  have len: "length ?d = length dst" using assms by auto
  have "rd ?d j = (if off \<le> j \<and> j < off + int (length src) then rd src (j - off) else rd dst j)" for j
  proof (cases "0 \<le> j \<and> j < int (length dst)")
    case False
    then show ?thesis using assms len by (auto simp add: rd_def simp del: length_append)
  next
    case True
    then show ?thesis
      using assms by (auto simp add: rd_append rd_take rd_drop min_def nat_add_distrib algebra_simps)
  qed
  then show ?thesis using s len by blast
qed

lemma rewind_result:
  "\<exists>f'. rewind f = Inr f' \<and> frameCount f' = frameCount f
        \<and> length (vector f') = length (vector f)
        \<and> (fifo_ok f \<longrightarrow> fifo_ok f' \<and> position f' = 0
             \<and> (\<forall>j. 0 \<le> j \<and> j < 2 * frameCount f
                   \<longrightarrow> rd (vector f') j = rd (vector f) (startIndex f + j)))"
proof (cases "position f > 0")
  case False
  then show ?thesis by (auto simp add: rewind_def fifo_ok_def startIndex_def)
next
  case True
  let ?sub = "subarray (vector f) (startIndex f) (endIndex f)"
  have fit: "0 + int (length ?sub) \<le> int (length (vector f))"
    using length_subarray_le [of "vector f" "startIndex f" "endIndex f"] by simp
  from set_arr_result [OF _ fit] obtain d where
    d: "set_arr (vector f) ?sub 0 = Inr d" and ld: "length d = length (vector f)"
    and rdd: "\<forall>j. rd d j = (if 0 \<le> j \<and> j < 0 + int (length ?sub) then rd ?sub (j - 0)
                            else rd (vector f) j)"
    by auto
  have r: "rewind f = Inr (f\<lparr>vector := d, position := 0\<rparr>)"
    using True d by (simp add: rewind_def)
  have ok: "fifo_ok f \<Longrightarrow> fifo_ok (f\<lparr>vector := d, position := 0\<rparr>)"
    by (simp add: fifo_ok_def endIndex_def ld)
  have content: "rd d j = rd (vector f) (startIndex f + j)"
    if "fifo_ok f" and "0 \<le> j" and "j < 2 * frameCount f" for j
  proof -
    have s0: "0 \<le> startIndex f" using that by (simp add: fifo_ok_def startIndex_def)
    have e0: "0 \<le> endIndex f" using that by (simp add: fifo_ok_def endIndex_def)
    have "int (length ?sub) = endIndex f - startIndex f"
      using that s0 e0 by (simp add: length_subarray fifo_ok_def startIndex_def endIndex_def)
    then have jl: "j < int (length ?sub)" using that by (simp add: startIndex_def endIndex_def)
    then have "rd d j = rd ?sub j" using rdd that by simp
    also have "\<dots> = rd (vector f) (startIndex f + j)"
      using s0 e0 that(2) jl by (rule rd_subarray)
    finally show ?thesis .
  qed
  show ?thesis using r ok content ld by auto
qed

lemma ensureCapacity_result:
  "\<exists>f'. ensureCapacity f n = Inr f' \<and> frameCount f' = frameCount f
        \<and> 2 * n \<le> int (length (vector f'))
        \<and> (fifo_ok f \<longrightarrow> fifo_ok f' \<and> position f' = 0
             \<and> (\<forall>j. 0 \<le> j \<and> j < 2 * frameCount f
                   \<longrightarrow> rd (vector f') j = rd (vector f) (startIndex f + j)))"
proof (cases "int (length (vector f)) < n * 2")
  case False
  then show ?thesis
    using rewind_result [of f] by (auto simp add: ensureCapacity_def Let_def)
next
  case True
  let ?sub = "subarray (vector f) (startIndex f) (endIndex f)"
  let ?new = "new_Float32Array (n * 2)"
  have ln: "int (length ?new) = n * 2" using True by (simp add: new_Float32Array_def)
  have fit: "0 + int (length ?sub) \<le> int (length ?new)"
    using length_subarray_le [of "vector f" "startIndex f" "endIndex f"] True ln by simp
  from set_arr_result [OF _ fit] obtain d where
    d: "set_arr ?new ?sub 0 = Inr d" and ld: "length d = length ?new"
    and rdd: "\<forall>j. rd d j = (if 0 \<le> j \<and> j < 0 + int (length ?sub) then rd ?sub (j - 0)
                            else rd ?new j)"
    by auto
  have r: "ensureCapacity f n = Inr (f\<lparr>vector := d, position := 0\<rparr>)"
    using True d by (simp add: ensureCapacity_def Let_def)
  have ok: "fifo_ok f \<Longrightarrow> fifo_ok (f\<lparr>vector := d, position := 0\<rparr>)"
    using True ld ln by (simp add: fifo_ok_def endIndex_def)
  have content: "rd d j = rd (vector f) (startIndex f + j)"
    if "fifo_ok f" and "0 \<le> j" and "j < 2 * frameCount f" for j
  proof -
    have s0: "0 \<le> startIndex f" using that by (simp add: fifo_ok_def startIndex_def)
    have e0: "0 \<le> endIndex f" using that by (simp add: fifo_ok_def endIndex_def)
    have "int (length ?sub) = endIndex f - startIndex f"
      using that s0 e0 by (simp add: length_subarray fifo_ok_def startIndex_def endIndex_def)
    then have jl: "j < int (length ?sub)" using that by (simp add: startIndex_def endIndex_def)
    then have "rd d j = rd ?sub j" using rdd that by simp
    also have "\<dots> = rd (vector f) (startIndex f + j)"
      using s0 e0 that(2) jl by (rule rd_subarray)
    finally show ?thesis .
  qed
  show ?thesis using r ok content ld ln by auto
qed

lemma receive_ok: "fifo_ok f \<Longrightarrow> fifo_ok (receive f n)"
  by (auto simp add: fifo_ok_def receive_def Let_def endIndex_def)


lemma receive_frameCount:
  "0 \<le> n \<Longrightarrow> n \<le> frameCount f \<Longrightarrow> frameCount (receive f n) = frameCount f - n"
  by (simp add: receive_def Let_def)


section \<open>The engine: effective rate and tempo\<close>

lemma calculateEffectiveRateAndTempo_fields:
  "st_tempo (calculateEffectiveRateAndTempo e) = st_virtualTempo e / st_virtualPitch e"
  "st_rate (calculateEffectiveRateAndTempo e) = st_virtualRate e * st_virtualPitch e"
  "st_virtualPitch (calculateEffectiveRateAndTempo e) = st_virtualPitch e"
  "st_virtualTempo (calculateEffectiveRateAndTempo e) = st_virtualTempo e"
  "st_virtualRate (calculateEffectiveRateAndTempo e) = st_virtualRate e"
  "st_buffers (calculateEffectiveRateAndTempo e) = st_buffers e"
  "st_timeStretch (calculateEffectiveRateAndTempo e) =
     (if \<bar>st_virtualTempo e / st_virtualPitch e - st_tempo e\<bar> > 1 / 10 ^ 10
      then TimeStretch_set_tempo (st_timeStretch e) (st_virtualTempo e / st_virtualPitch e)
      else st_timeStretch e)"
  "st_rateTransposer (calculateEffectiveRateAndTempo e) =
     (if \<bar>st_virtualRate e * st_virtualPitch e - st_rate e\<bar> > 1 / 10 ^ 10
      then RateTransposer_set_rate (st_rateTransposer e) (st_virtualRate e * st_virtualPitch e)
      else st_rateTransposer e)"
  by (simp_all add: calculateEffectiveRateAndTempo_def Let_def)

lemma w_calculateEffectiveRateAndTempo_fields:
  "se_tempo (w_calculateEffectiveRateAndTempo e) = 1 / se_virtualPitch e"
  "se_rate (w_calculateEffectiveRateAndTempo e) = se_virtualPitch e"
  "se_virtualPitch (w_calculateEffectiveRateAndTempo e) = se_virtualPitch e"
  "se_buffers (w_calculateEffectiveRateAndTempo e) = se_buffers e"
  "se_timeStretch (w_calculateEffectiveRateAndTempo e) =
     (if \<bar>1 / se_virtualPitch e - se_tempo e\<bar> > 1 / 10 ^ 10
      then WTimeStretch_set_tempo (se_timeStretch e) (1 / se_virtualPitch e)
      else se_timeStretch e)"
  "se_rateTransposer (w_calculateEffectiveRateAndTempo e) =
     (if \<bar>se_virtualPitch e - se_rate e\<bar> > 1 / 10 ^ 10
      then WRateTransposer_set_rate (se_rateTransposer e) (se_virtualPitch e)
      else se_rateTransposer e)"
  by (simp_all add: w_calculateEffectiveRateAndTempo_def Let_def)

lemma SoundTouch_new_fields:
  "st_tempo SoundTouch_new = 1" "st_rate SoundTouch_new = 1"
  "st_virtualPitch SoundTouch_new = 1" "st_virtualTempo SoundTouch_new = 1"
  "st_virtualRate SoundTouch_new = 1"
  "st_timeStretch SoundTouch_new = TimeStretch_new"
  "st_rateTransposer SoundTouch_new = RateTransposer_new"
  by (simp_all add: SoundTouch_new_def calculateEffectiveRateAndTempo_fields)

text \<open>
  Claim C2.  Assigning a positive value to any of the three virtual controls of the library
  engine (pitch, tempo, rate) leaves the effective tempo equal to virtual tempo over virtual
  pitch and the effective rate equal to virtual rate times virtual pitch; the time stretcher
  receives the effective tempo through its tempo setter exactly when it differs from the
  previous effective tempo by more than 1e-10, and the transposer receives the effective
  rate through its rate setter exactly when that differs from the previous one by more than
  1e-10.  The worklet's engine has the pitch control only, with tempo and rate fixed at 1:
  its effective tempo is 1 over the pitch and its effective rate is the pitch, pushed under
  the same test.  After a push the tempo held by the time stretcher is the effective tempo and
  the rate held by the transposer is the effective rate; without one they keep the value they
  had.
\<close>

theorem effective_rate_and_tempo:
  assumes "0 < v" and "0 < st_virtualPitch e"
  shows "(\<forall>e' \<in> {SoundTouch_set_pitch e v, SoundTouch_set_tempo e v, SoundTouch_set_rate e v}.
            st_tempo e' = st_virtualTempo e' / st_virtualPitch e'
          \<and> st_rate e' = st_virtualRate e' * st_virtualPitch e'
          \<and> st_timeStretch e' =
              (if \<bar>st_tempo e' - st_tempo e\<bar> > 1 / 10 ^ 10
               then TimeStretch_set_tempo (st_timeStretch e) (st_tempo e')
               else st_timeStretch e)
          \<and> st_rateTransposer e' =
              (if \<bar>st_rate e' - st_rate e\<bar> > 1 / 10 ^ 10
               then RateTransposer_set_rate (st_rateTransposer e) (st_rate e')
               else st_rateTransposer e)
          \<and> ts_tempo (st_timeStretch e') =
              (if \<bar>st_tempo e' - st_tempo e\<bar> > 1 / 10 ^ 10
               then st_tempo e' else ts_tempo (st_timeStretch e))
          \<and> rt_rate (st_rateTransposer e') =
              (if \<bar>st_rate e' - st_rate e\<bar> > 1 / 10 ^ 10
               then st_rate e' else rt_rate (st_rateTransposer e)))
       \<and> st_virtualPitch (SoundTouch_set_pitch e v) = v
       \<and> st_virtualTempo (SoundTouch_set_pitch e v) = st_virtualTempo e
       \<and> st_virtualRate (SoundTouch_set_pitch e v) = st_virtualRate e
       \<and> st_virtualTempo (SoundTouch_set_tempo e v) = v
       \<and> st_virtualPitch (SoundTouch_set_tempo e v) = st_virtualPitch e
       \<and> st_virtualRate (SoundTouch_set_tempo e v) = st_virtualRate e
       \<and> st_virtualRate (SoundTouch_set_rate e v) = v
       \<and> st_virtualPitch (SoundTouch_set_rate e v) = st_virtualPitch e
       \<and> st_virtualTempo (SoundTouch_set_rate e v) = st_virtualTempo e
       \<and> se_virtualPitch (SoundTouchEngine_set_pitch w v) = v
       \<and> se_tempo (SoundTouchEngine_set_pitch w v) = 1 / v
       \<and> se_rate (SoundTouchEngine_set_pitch w v) = 1 * v
       \<and> se_timeStretch (SoundTouchEngine_set_pitch w v) =
            (if \<bar>se_tempo (SoundTouchEngine_set_pitch w v) - se_tempo w\<bar> > 1 / 10 ^ 10
             then WTimeStretch_set_tempo (se_timeStretch w)
                    (se_tempo (SoundTouchEngine_set_pitch w v))
             else se_timeStretch w)
       \<and> se_rateTransposer (SoundTouchEngine_set_pitch w v) =
            (if \<bar>se_rate (SoundTouchEngine_set_pitch w v) - se_rate w\<bar> > 1 / 10 ^ 10
             then WRateTransposer_set_rate (se_rateTransposer w)
                    (se_rate (SoundTouchEngine_set_pitch w v))
             else se_rateTransposer w)
       \<and> wts_tempo (se_timeStretch (SoundTouchEngine_set_pitch w v)) =
            (if \<bar>se_tempo (SoundTouchEngine_set_pitch w v) - se_tempo w\<bar> > 1 / 10 ^ 10
             then se_tempo (SoundTouchEngine_set_pitch w v)
             else wts_tempo (se_timeStretch w))
       \<and> rt_rate (se_rateTransposer (SoundTouchEngine_set_pitch w v)) =
            (if \<bar>se_rate (SoundTouchEngine_set_pitch w v) - se_rate w\<bar> > 1 / 10 ^ 10
             then se_rate (SoundTouchEngine_set_pitch w v)
             else rt_rate (se_rateTransposer w))"
  by (simp add: SoundTouch_set_pitch_def SoundTouch_set_tempo_def SoundTouch_set_rate_def
      SoundTouchEngine_set_pitch_def calculateEffectiveRateAndTempo_fields
      w_calculateEffectiveRateAndTempo_fields TimeStretch_set_tempo_fields
      WTimeStretch_set_tempo_fields RateTransposer_set_rate_def WRateTransposer_set_rate_def)

lemma SoundTouchEngine_new_fields:
  assumes "SoundTouchEngine_new sr = Inr e"
  shows "se_virtualPitch e = 1" and "se_tempo e = 1" and "se_rate e = 1"
    and "se_rateTransposer e = RateTransposer_new"
    and "se_buffers e = (\<lambda>r. Fifo_new 4096)"
    and "WTimeStretch_setParameters WTimeStretch_new sr 16 = Inr (se_timeStretch e)"
  using assms
  by (auto simp add: SoundTouchEngine_new_def thenE_eq_Inr
      w_calculateEffectiveRateAndTempo_fields)

lemma SoundTouchEngine_new_returns:
  assumes "2 * \<lfloor>(if sr > 0 then sr else 44100) * 16 / 1000\<rfloor> \<le> Float32Array_MAX_LENGTH"
  shows "\<exists>e. SoundTouchEngine_new sr = Inr e"
proof -
  have "2 * \<lfloor>(if sr > 0 then sr else wts_sampleRate WTimeStretch_new) * 16 / 1000\<rfloor>
          \<le> Float32Array_MAX_LENGTH"
    using assms
    by (auto simp add: WTimeStretch_new_def Float32Array_MAX_LENGTH_def split: if_splits)
  from WTimeStretch_setParameters_returns [OF this] obtain ts where
    "WTimeStretch_setParameters WTimeStretch_new sr 16 = Inr ts"
    by blast
  then show ?thesis by (simp add: SoundTouchEngine_new_def)
qed

text \<open>Claim C2 at pitch 2 and at tempo 2 on new engines: the time stretcher of the engine
  holds tempo 1/2 and its transposer rate 2 after the pitch was set.\<close>

theorem effective_rate_and_tempo_witness:
  "st_tempo (SoundTouch_set_pitch SoundTouch_new 2) = 1 / 2
   \<and> st_rate (SoundTouch_set_pitch SoundTouch_new 2) = 2
   \<and> ts_tempo (st_timeStretch (SoundTouch_set_pitch SoundTouch_new 2)) = 1 / 2
   \<and> rt_rate (st_rateTransposer (SoundTouch_set_pitch SoundTouch_new 2)) = 2
   \<and> st_tempo (SoundTouch_set_tempo SoundTouch_new 2) = 2
   \<and> st_rate (SoundTouch_set_tempo SoundTouch_new 2) = 1
   \<and> st_rateTransposer (SoundTouch_set_tempo SoundTouch_new 2) = RateTransposer_new
   \<and> (\<exists>w. SoundTouchEngine_new 44100 = Inr w
          \<and> se_tempo (SoundTouchEngine_set_pitch w 2) = 1 / 2
          \<and> se_rate (SoundTouchEngine_set_pitch w 2) = 2
          \<and> wts_tempo (se_timeStretch (SoundTouchEngine_set_pitch w 2)) = 1 / 2
          \<and> rt_rate (se_rateTransposer (SoundTouchEngine_set_pitch w 2)) = 2)"
proof -
  from SoundTouchEngine_new_returns [of 44100] obtain w where
    w: "SoundTouchEngine_new 44100 = Inr w"
    by (auto simp add: Float32Array_MAX_LENGTH_def)
  note f = SoundTouchEngine_new_fields(1-4) [OF w]
  let ?P = "SoundTouch_set_pitch SoundTouch_new 2"
  let ?T = "SoundTouch_set_tempo SoundTouch_new 2"
  let ?W = "SoundTouchEngine_set_pitch w 2"
  have pos: "(0::real) < 2" "0 < st_virtualPitch SoundTouch_new"
    by (simp_all add: SoundTouch_new_fields)
  note t = effective_rate_and_tempo [OF pos, of w]
  from t have vp: "st_virtualPitch ?P = 2" "st_virtualTempo ?P = st_virtualTempo SoundTouch_new"
    "st_virtualRate ?P = st_virtualRate SoundTouch_new"
    and vt: "st_virtualTempo ?T = 2" "st_virtualPitch ?T = st_virtualPitch SoundTouch_new"
    "st_virtualRate ?T = st_virtualRate SoundTouch_new"
    by blast+
  from t have ep: "st_tempo ?P = st_virtualTempo ?P / st_virtualPitch ?P"
    "st_rate ?P = st_virtualRate ?P * st_virtualPitch ?P"
    "ts_tempo (st_timeStretch ?P) =
       (if \<bar>st_tempo ?P - st_tempo SoundTouch_new\<bar> > 1 / 10 ^ 10
        then st_tempo ?P else ts_tempo (st_timeStretch SoundTouch_new))"
    "rt_rate (st_rateTransposer ?P) =
       (if \<bar>st_rate ?P - st_rate SoundTouch_new\<bar> > 1 / 10 ^ 10
        then st_rate ?P else rt_rate (st_rateTransposer SoundTouch_new))"
    and et: "st_tempo ?T = st_virtualTempo ?T / st_virtualPitch ?T"
    "st_rate ?T = st_virtualRate ?T * st_virtualPitch ?T"
    "st_rateTransposer ?T =
       (if \<bar>st_rate ?T - st_rate SoundTouch_new\<bar> > 1 / 10 ^ 10
        then RateTransposer_set_rate (st_rateTransposer SoundTouch_new) (st_rate ?T)
        else st_rateTransposer SoundTouch_new)"
    by blast+
  from t have ew: "se_tempo ?W = 1 / 2" "se_rate ?W = 1 * 2"
    "wts_tempo (se_timeStretch ?W) =
       (if \<bar>se_tempo ?W - se_tempo w\<bar> > 1 / 10 ^ 10
        then se_tempo ?W else wts_tempo (se_timeStretch w))"
    "rt_rate (se_rateTransposer ?W) =
       (if \<bar>se_rate ?W - se_rate w\<bar> > 1 / 10 ^ 10
        then se_rate ?W else rt_rate (se_rateTransposer w))"
    by blast+
  have p1: "st_tempo ?P = 1 / 2" and p2: "st_rate ?P = 2"
    using ep(1,2) vp by (simp_all add: SoundTouch_new_fields)
  have p3: "ts_tempo (st_timeStretch ?P) = 1 / 2" and p4: "rt_rate (st_rateTransposer ?P) = 2"
    using ep(3,4) p1 p2 by (simp_all add: SoundTouch_new_fields)
  have t1: "st_tempo ?T = 2" and t2: "st_rate ?T = 1"
    using et(1,2) vt by (simp_all add: SoundTouch_new_fields)
  have t3: "st_rateTransposer ?T = RateTransposer_new"
    using et(3) t2 by (simp add: SoundTouch_new_fields)
  have lib: "st_tempo ?P = 1 / 2 \<and> st_rate ?P = 2
     \<and> ts_tempo (st_timeStretch ?P) = 1 / 2 \<and> rt_rate (st_rateTransposer ?P) = 2
     \<and> st_tempo ?T = 2 \<and> st_rate ?T = 1 \<and> st_rateTransposer ?T = RateTransposer_new"
    using p1 p2 p3 p4 t1 t2 t3 by simp
  have wk: "se_tempo ?W = 1 / 2 \<and> se_rate ?W = 2
     \<and> wts_tempo (se_timeStretch ?W) = 1 / 2 \<and> rt_rate (se_rateTransposer ?W) = 2"
    using ew by (simp add: f)
  show ?thesis using lib w wk by blast
qed

text \<open>
  Claim C3 as stated fails: on a new engine, pitch 2.0 followed by pitch 0.5 leaves effective
  tempo 2 and effective rate 0.5, while pitch 1.0 leaves both at 1.
\<close>

theorem pitch_2_then_half_counterexample:
  "st_tempo (SoundTouch_set_pitch (SoundTouch_set_pitch SoundTouch_new 2) (1 / 2)) = 2
   \<and> st_rate (SoundTouch_set_pitch (SoundTouch_set_pitch SoundTouch_new 2) (1 / 2)) = 1 / 2
   \<and> st_tempo (SoundTouch_set_pitch SoundTouch_new 1) = 1
   \<and> st_rate (SoundTouch_set_pitch SoundTouch_new 1) = 1
   \<and> st_tempo (SoundTouch_set_pitch (SoundTouch_set_pitch SoundTouch_new 2) (1 / 2))
       \<noteq> st_tempo (SoundTouch_set_pitch SoundTouch_new 1)
   \<and> st_rate (SoundTouch_set_pitch (SoundTouch_set_pitch SoundTouch_new 2) (1 / 2))
       \<noteq> st_rate (SoundTouch_set_pitch SoundTouch_new 1)"
  by (simp add: SoundTouch_set_pitch_def calculateEffectiveRateAndTempo_fields
      SoundTouch_new_fields)

text \<open>
  Claim C3, amended.  The pitch setter stores its argument; two assignments do not multiply.
  Setting pitch \<open>p\<close> and then pitch \<open>q\<close> leaves the same effective tempo and effective rate
  as setting pitch \<open>q\<close> directly on the same engine, namely virtual tempo over \<open>q\<close> and
  virtual rate times \<open>q\<close>; so pitch 2.0 followed by pitch 0.5 agrees with pitch 0.5.  No
  call of \<open>process()\<close> is involved.
\<close>

theorem pitch_setter_last_value_wins:
  "st_tempo (SoundTouch_set_pitch (SoundTouch_set_pitch e p) q)
     = st_tempo (SoundTouch_set_pitch e q)
   \<and> st_rate (SoundTouch_set_pitch (SoundTouch_set_pitch e p) q)
     = st_rate (SoundTouch_set_pitch e q)
   \<and> st_tempo (SoundTouch_set_pitch (SoundTouch_set_pitch e p) q) = st_virtualTempo e / q
   \<and> st_rate (SoundTouch_set_pitch (SoundTouch_set_pitch e p) q) = st_virtualRate e * q"
  by (simp add: SoundTouch_set_pitch_def calculateEffectiveRateAndTempo_fields)

theorem pitch_setter_last_value_wins_witness:
  "st_tempo (SoundTouch_set_pitch (SoundTouch_set_pitch SoundTouch_new 2) (1 / 2))
     = st_tempo (SoundTouch_set_pitch SoundTouch_new (1 / 2))
   \<and> st_rate (SoundTouch_set_pitch (SoundTouch_set_pitch SoundTouch_new 2) (1 / 2))
     = st_rate (SoundTouch_set_pitch SoundTouch_new (1 / 2))"
  using pitch_setter_last_value_wins [of SoundTouch_new 2 "1 / 2"] by simp

section \<open>The block processor of the external stretcher\<close>

lemma passthrough_prefix:
  assumes "\<forall>ch < length output. length (source_channel input ch) = length (output ! ch)"
    and "k \<le> length output"
  shows "fold (\<lambda>ch acc. thenE acc (\<lambda>outp.
             thenE (set_arr (outp ! ch) (source_channel input ch) 0) (\<lambda>c.
               Inr (outp[ch := c]))))
           [0..<k] (Inr output)
         = Inr (map (source_channel input) [0..<k] @ drop k output)"
  using assms(2)
proof (induction k)
  case 0
  show ?case by simp
next
  case (Suc k)
  then have k: "k < length output" by simp
  have len: "length (source_channel input k) = length (output ! k)"
    using assms(1) k by simp
  have nth: "(map (source_channel input) [0..<k] @ drop k output) ! k = output ! k"
    using k by (simp add: nth_append)
  have upd: "(map (source_channel input) [0..<k] @ drop k output)[k := source_channel input k]
               = map (source_channel input) [0..<Suc k] @ drop (Suc k) output"
    using k by (simp add: list_update_append Cons_nth_drop_Suc [symmetric])
  show ?case
    using Suc k by (simp add: nth set_arr_def len upd)
qed

lemma passthrough_same_lengths:
  assumes "\<forall>ch < length output. length (source_channel input ch) = length (output ! ch)"
  shows "passthrough input output = Inr (map (source_channel input) [0..<length output])"
  using passthrough_prefix [OF assms, of "length output"]
  by (simp add: passthrough_def)

lemma source_channel_lengths:
  assumes "input \<noteq> []" and "\<forall>c \<in> set input. length c = n" and "\<forall>c \<in> set output. length c = n"
  shows "\<forall>ch < length output. length (source_channel input ch) = length (output ! ch)"
  using assms by (auto simp add: source_channel_def)


lemma rp_update_bypass_fields:
  "rp_wasm (rp_update_bypass p b) = rp_wasm p"
  "rp_ready (rp_update_bypass p b) = rp_ready p"
  "rp_stretcher (rp_update_bypass p b) = rp_stretcher p"
  "rp_channels (rp_update_bypass p b) = rp_channels p"
  "rp_previousPitchScale (rp_update_bypass p b) = rp_previousPitchScale p"
  "rp_previousFormantScale (rp_update_bypass p b) = rp_previousFormantScale p"
  by (simp_all add: rp_update_bypass_def)



section \<open>The rate transposer\<close>






















section \<open>The worklet's inlined classes and the library classes\<close>

lemma w_advance_input_eq: "w_advance_input n s i = advance_input n s i"
proof (induction n s i rule: advance_input.induct)
  case (1 n s i)
  then show ?case
    by (simp add: advance_input.simps [of n s i] w_advance_input.simps [of n s i])
qed

lemma w_transpose_prev_if:
  assumes "transpose_prev rate pL pR input inputStart outputStart s c out = Some y"
  shows "w_transpose_prev rate pL pR input inputStart outputStart s c out = Some y"
proof (rule transpose_prev.raw_induct
    [where P = "\<lambda>rate pL pR input inputStart outputStart s c out y.
                  w_transpose_prev rate pL pR input inputStart outputStart s c out = Some y",
      OF _ assms], goal_cases)
  case (1 f rate pL pR input inputStart outputStart s c out y)
  let ?o2 = "wr (wr out (outputStart + c * 2) (Val (1 - s) * pL + Val s * rd input inputStart))
               (outputStart + c * 2 + 1) (Val (1 - s) * pR + Val s * rd input (inputStart + 1))"
  show ?case
  proof (cases "s < 1")
    case True
    with 1(2) have "f rate pL pR input inputStart outputStart (s + rate) (c + 1) ?o2 = Some y"
      by (simp add: Let_def)
    then have "w_transpose_prev rate pL pR input inputStart outputStart (s + rate) (c + 1) ?o2
                 = Some y"
      by (rule 1(1))
    then show ?thesis using True by (subst w_transpose_prev.simps) (simp add: Let_def)
  next
    case False
    with 1(2) show ?thesis by (subst w_transpose_prev.simps) simp
  qed
qed

lemma w_transpose_prev_only_if:
  assumes "w_transpose_prev rate pL pR input inputStart outputStart s c out = Some y"
  shows "transpose_prev rate pL pR input inputStart outputStart s c out = Some y"
proof (rule w_transpose_prev.raw_induct
    [where P = "\<lambda>rate pL pR input inputStart outputStart s c out y.
                  transpose_prev rate pL pR input inputStart outputStart s c out = Some y",
      OF _ assms], goal_cases)
  case (1 f rate pL pR input inputStart outputStart s c out y)
  let ?o2 = "wr (wr out (outputStart + c * 2) (Val (1 - s) * pL + Val s * rd input inputStart))
               (outputStart + c * 2 + 1) (Val (1 - s) * pR + Val s * rd input (inputStart + 1))"
  show ?case
  proof (cases "s < 1")
    case True
    with 1(2) have "f rate pL pR input inputStart outputStart (s + rate) (c + 1) ?o2 = Some y"
      by (simp add: Let_def)
    then have "transpose_prev rate pL pR input inputStart outputStart (s + rate) (c + 1) ?o2
                 = Some y"
      by (rule 1(1))
    then show ?thesis using True by (subst transpose_prev.simps) (simp add: Let_def)
  next
    case False
    with 1(2) show ?thesis by (subst transpose_prev.simps) simp
  qed
qed

lemma w_transpose_prev_eq:
  "w_transpose_prev rate pL pR input inputStart outputStart s c out
     = transpose_prev rate pL pR input inputStart outputStart s c out"
proof (cases "transpose_prev rate pL pR input inputStart outputStart s c out")
  case None
  then show ?thesis
    using w_transpose_prev_only_if [of rate pL pR input inputStart outputStart s c out]
    by (cases "w_transpose_prev rate pL pR input inputStart outputStart s c out") auto
next
  case (Some y)
  then show ?thesis by (simp add: w_transpose_prev_if)
qed

lemma w_transpose_rest_if:
  assumes "transpose_rest rate input inputStart outputStart n s i c out = Some y"
  shows "w_transpose_rest rate input inputStart outputStart n s i c out = Some y"
proof (rule transpose_rest.raw_induct
    [where P = "\<lambda>rate input inputStart outputStart n s i c out y.
                  w_transpose_rest rate input inputStart outputStart n s i c out = Some y",
      OF _ assms], goal_cases)
  case (1 f rate input inputStart outputStart n s i c out y)
  obtain s1 i1 where adv: "advance_input n s i = (s1, i1)"
    by (cases "advance_input n s i") auto
  let ?idx = "inputStart + i1 * 2"
  let ?o2 = "wr (wr out (outputStart + c * 2)
                   (Val (1 - s1) * rd input ?idx + Val s1 * rd input (?idx + 2)))
               (outputStart + c * 2 + 1)
               (Val (1 - s1) * rd input (?idx + 1) + Val s1 * rd input (?idx + 3))"
  show ?case
  proof (cases "n - 1 \<le> i1")
    case True
    with 1(2) adv show ?thesis
      by (subst w_transpose_rest.simps) (simp add: w_advance_input_eq)
  next
    case False
    with 1(2) adv
    have "f rate input inputStart outputStart n (s1 + rate) i1 (c + 1) ?o2 = Some y"
      by (simp add: Let_def)
    then have "w_transpose_rest rate input inputStart outputStart n (s1 + rate) i1 (c + 1) ?o2
                 = Some y"
      by (rule 1(1))
    then show ?thesis using False adv
      by (subst w_transpose_rest.simps) (simp add: Let_def w_advance_input_eq)
  qed
qed

lemma w_transpose_rest_only_if:
  assumes "w_transpose_rest rate input inputStart outputStart n s i c out = Some y"
  shows "transpose_rest rate input inputStart outputStart n s i c out = Some y"
proof (rule w_transpose_rest.raw_induct
    [where P = "\<lambda>rate input inputStart outputStart n s i c out y.
                  transpose_rest rate input inputStart outputStart n s i c out = Some y",
      OF _ assms], goal_cases)
  case (1 f rate input inputStart outputStart n s i c out y)
  obtain s1 i1 where adv: "advance_input n s i = (s1, i1)"
    by (cases "advance_input n s i") auto
  let ?idx = "inputStart + i1 * 2"
  let ?o2 = "wr (wr out (outputStart + c * 2)
                   (Val (1 - s1) * rd input ?idx + Val s1 * rd input (?idx + 2)))
               (outputStart + c * 2 + 1)
               (Val (1 - s1) * rd input (?idx + 1) + Val s1 * rd input (?idx + 3))"
  show ?case
  proof (cases "n - 1 \<le> i1")
    case True
    with 1(2) adv show ?thesis
      by (subst transpose_rest.simps) (simp add: w_advance_input_eq)
  next
    case False
    with 1(2) adv
    have "f rate input inputStart outputStart n (s1 + rate) i1 (c + 1) ?o2 = Some y"
      by (simp add: Let_def w_advance_input_eq)
    then have "transpose_rest rate input inputStart outputStart n (s1 + rate) i1 (c + 1) ?o2
                 = Some y"
      by (rule 1(1))
    then show ?thesis using False adv
      by (subst transpose_rest.simps) (simp add: Let_def)
  qed
qed

lemma w_transpose_rest_eq:
  "w_transpose_rest rate input inputStart outputStart n s i c out
     = transpose_rest rate input inputStart outputStart n s i c out"
proof (cases "transpose_rest rate input inputStart outputStart n s i c out")
  case None
  then show ?thesis
    using w_transpose_rest_only_if [of rate input inputStart outputStart n s i c out]
    by (cases "w_transpose_rest rate input inputStart outputStart n s i c out") auto
next
  case (Some y)
  then show ?thesis by (simp add: w_transpose_rest_if)
qed

lemma w_transpose_eq: "w_transpose t inp out n = transpose t inp out n"
  unfolding w_transpose_def transpose_def w_transpose_prev_eq w_transpose_rest_eq ..

lemma WRateTransposer_process_eq:
  "WRateTransposer_process t inp out = RateTransposer_process t inp out"
  unfolding WRateTransposer_process_def RateTransposer_process_def w_transpose_eq ..

lemma WRateTransposer_reset_eq: "WRateTransposer_reset t inp out = RateTransposer_reset t inp out"
  by (simp add: WRateTransposer_reset_def RateTransposer_reset_def)

lemma WRateTransposer_set_rate_eq: "WRateTransposer_set_rate t v = RateTransposer_set_rate t v"
  by (simp add: WRateTransposer_set_rate_def RateTransposer_set_rate_def)

lemma worklet_view_fields [simp]:
  "wts_sampleRate (worklet_view s) = ts_sampleRate s"
  "wts_tempo (worklet_view s) = ts_tempo s"
  "wts_sequenceLength (worklet_view s) = ts_sequenceLength s"
  "wts_seekLength (worklet_view s) = ts_seekLength s"
  "wts_overlapLength (worklet_view s) = ts_overlapLength s"
  "wts_nominalSkip (worklet_view s) = ts_nominalSkip s"
  "wts_skipFract (worklet_view s) = ts_skipFract s"
  "wts_midBuffer (worklet_view s) = ts_midBuffer s"
  "wts_refMidBuffer (worklet_view s) = ts_refMidBuffer s"
  "wts_sampleReq (worklet_view s) = ts_sampleReq s"
  by (simp_all add: worklet_view_def)

lemma worklet_view_update:
  "worklet_view (s\<lparr>ts_sampleRate := a\<rparr>) = (worklet_view s)\<lparr>wts_sampleRate := a\<rparr>"
  "worklet_view (s\<lparr>ts_tempo := a\<rparr>) = (worklet_view s)\<lparr>wts_tempo := a\<rparr>"
  "worklet_view (s\<lparr>ts_sequenceLength := i\<rparr>) = (worklet_view s)\<lparr>wts_sequenceLength := i\<rparr>"
  "worklet_view (s\<lparr>ts_seekLength := i\<rparr>) = (worklet_view s)\<lparr>wts_seekLength := i\<rparr>"
  "worklet_view (s\<lparr>ts_overlapLength := i\<rparr>) = (worklet_view s)\<lparr>wts_overlapLength := i\<rparr>"
  "worklet_view (s\<lparr>ts_nominalSkip := a\<rparr>) = (worklet_view s)\<lparr>wts_nominalSkip := a\<rparr>"
  "worklet_view (s\<lparr>ts_skipFract := a\<rparr>) = (worklet_view s)\<lparr>wts_skipFract := a\<rparr>"
  "worklet_view (s\<lparr>ts_midBuffer := m\<rparr>) = (worklet_view s)\<lparr>wts_midBuffer := m\<rparr>"
  "worklet_view (s\<lparr>ts_refMidBuffer := m\<rparr>) = (worklet_view s)\<lparr>wts_refMidBuffer := m\<rparr>"
  "worklet_view (s\<lparr>ts_sampleReq := i\<rparr>) = (worklet_view s)\<lparr>wts_sampleReq := i\<rparr>"
  "worklet_view (s\<lparr>ts_sequenceMs := a\<rparr>) = worklet_view s"
  "worklet_view (s\<lparr>ts_seekWindowMs := a\<rparr>) = worklet_view s"
  "worklet_view (s\<lparr>ts_overlapMs := a\<rparr>) = worklet_view s"
  by (simp_all add: worklet_view_def)

lemma view_calculateEffectiveParams:
  "auto_params s \<Longrightarrow>
     w_calculateEffectiveParams (worklet_view s) = worklet_view (calculateEffectiveParams s)"
  by (simp add: w_calculateEffectiveParams_def calculateEffectiveParams_def auto_params_def
      worklet_view_update)

lemma view_calculateOverlapLength:
  "w_calculateOverlapLength (worklet_view s) (ts_overlapMs s)
     = map_sum id worklet_view (calculateOverlapLength s)"
  by (simp add: w_calculateOverlapLength_def calculateOverlapLength_def Let_def
      worklet_view_update Float32Array_of_length_def)

lemma auto_params_calculateEffectiveParams:
  "auto_params (calculateEffectiveParams s) = auto_params s"
  by (simp add: auto_params_def calculateEffectiveParams_fields)

lemma auto_params_calculateOverlapLength:
  "calculateOverlapLength s = Inr s' \<Longrightarrow> auto_params s' = auto_params s"
  by (drule calculateOverlapLength_Inr) (simp add: auto_params_def)

lemma auto_params_set_tempo: "auto_params (TimeStretch_set_tempo s v) = auto_params s"
  by (simp add: auto_params_def TimeStretch_set_tempo_fields)

lemma view_set_tempo:
  assumes "auto_params s"
  shows "WTimeStretch_set_tempo (worklet_view s) v = worklet_view (TimeStretch_set_tempo s v)"
proof -
  have a: "auto_params (s\<lparr>ts_tempo := v\<rparr>)" using assms by (simp add: auto_params_def)
  have "w_calculateEffectiveParams ((worklet_view s)\<lparr>wts_tempo := v\<rparr>)
          = worklet_view (calculateEffectiveParams (s\<lparr>ts_tempo := v\<rparr>))"
    using view_calculateEffectiveParams [OF a] by (simp add: worklet_view_update)
  then show ?thesis
    by (simp add: WTimeStretch_set_tempo_def TimeStretch_set_tempo_def Let_def
        seekWindowLength_def worklet_view_update)
qed

lemma view_setParameters:
  assumes "0 < ms"
  shows "WTimeStretch_setParameters (worklet_view s) sr ms
           = map_sum id worklet_view (TimeStretch_setParameters s sr 0 0 ms)"
proof -
  let ?s1 = "s\<lparr>ts_sampleRate := (if sr > 0 then sr else ts_sampleRate s),
               ts_overlapMs := (if ms > 0 then ms else ts_overlapMs s),
               ts_sequenceMs := 0, ts_seekWindowMs := 0\<rparr>"
  have a1: "auto_params ?s1" by (simp add: auto_params_def)
  have v1: "worklet_view ?s1
              = (worklet_view s)\<lparr>wts_sampleRate := (if sr > 0 then sr else wts_sampleRate (worklet_view s))\<rparr>"
    by (simp add: worklet_view_update)
  have ms1: "ts_overlapMs (calculateEffectiveParams ?s1) = ms"
    using assms by (simp add: calculateEffectiveParams_fields)
  have c: "w_calculateOverlapLength (w_calculateEffectiveParams (worklet_view ?s1)) ms
          = map_sum id worklet_view (calculateOverlapLength (calculateEffectiveParams ?s1))"
    using view_calculateOverlapLength [of "calculateEffectiveParams ?s1"]
    by (simp add: view_calculateEffectiveParams [OF a1] ms1)
  show ?thesis
  proof (cases "calculateOverlapLength (calculateEffectiveParams ?s1)")
    case (Inl e)
    then show ?thesis
      unfolding WTimeStretch_setParameters_def TimeStretch_setParameters_def Let_def
        v1 [symmetric] c
      by simp
  next
    case (Inr s2)
    have a2: "auto_params s2"
      using auto_params_calculateOverlapLength [OF Inr] a1
      by (simp add: auto_params_calculateEffectiveParams)
    show ?thesis
      unfolding WTimeStretch_setParameters_def TimeStretch_setParameters_def Let_def
        v1 [symmetric] c Inr
      by (simp add: view_set_tempo [OF a2])
  qed
qed

lemma auto_params_setParameters:
  "TimeStretch_setParameters s sr 0 0 ms = Inr s' \<Longrightarrow> auto_params s'"
  by (simp add: auto_params_def TimeStretch_setParameters_fields(3,4))

lemma map_sum_thenE: "map_sum id f (thenE r g) = thenE r (\<lambda>x. map_sum id f (g x))"
  by (cases r) simp_all

lemma thenE_map_sum: "thenE (map_sum id f r) g = thenE r (\<lambda>x. g (f x))"
  by (cases r) simp_all

lemma w_precalc_frame_eq: "w_precalc_frame = precalc_frame"
  by (intro ext) (simp add: w_precalc_frame_def precalc_frame_def)

lemma w_crossCorr_sum_eq: "w_crossCorr_sum = crossCorr_sum"
  by (intro ext) (simp add: w_crossCorr_sum_def crossCorr_sum_def)

lemma w_overlap_frame_eq: "w_overlap_frame = overlap_frame"
  by (intro ext) (simp add: w_overlap_frame_def overlap_frame_def)

lemma w_SCAN_OFFSETS_eq: "w_SCAN_OFFSETS = SCAN_OFFSETS"
  by (simp add: w_SCAN_OFFSETS_def SCAN_OFFSETS_def)

lemma view_precalcCorrReference:
  "w_precalcCorrReference (worklet_view s) = map_sum id worklet_view (precalcCorrReference s)"
  by (simp add: w_precalcCorrReference_def precalcCorrReference_def w_precalc_frame_eq
      worklet_view_update split: option.splits)

lemma view_calculateCrossCorr:
  "w_calculateCrossCorr (worklet_view s) inp offset = calculateCrossCorr s inp offset"
  by (simp add: w_calculateCrossCorr_def calculateCrossCorr_def w_crossCorr_sum_eq
      split: option.splits)

lemma view_scan_entry: "w_scan_entry (worklet_view s) inp = scan_entry s inp"
  unfolding w_scan_entry_def scan_entry_def view_calculateCrossCorr worklet_view_fields ..

lemma view_scan_level: "w_scan_level (worklet_view s) inp = scan_level s inp"
  unfolding w_scan_level_def scan_level_def view_scan_entry ..

lemma view_seekBestOverlapPositionQuick:
  "w_seekBestOverlapPositionQuick (worklet_view s) inp = seekBestOverlapPositionQuick s inp"
  by (simp add: w_seekBestOverlapPositionQuick_def seekBestOverlapPositionQuick_def
      view_scan_level w_SCAN_OFFSETS_eq)

lemma view_seekBestOverlapPosition:
  "w_seekBestOverlapPosition (worklet_view s) inp
     = map_sum id (\<lambda>(s', offset). (worklet_view s', offset)) (seekBestOverlapPosition s inp)"
  by (simp add: w_seekBestOverlapPosition_def seekBestOverlapPosition_def
      view_precalcCorrReference thenE_map_sum map_sum_thenE view_seekBestOverlapPositionQuick)

lemma view_overlap: "w_overlap (worklet_view s) inp out offset = overlap s inp out offset"
  by (simp add: w_overlap_def overlap_def w_overlap_frame_eq split: option.splits)

lemma view_process_step:
  "WTimeStretch_process_step (worklet_view s) inp out
     = map_sum id view3 (TimeStretch_process_step s inp out)"
proof (cases "seekBestOverlapPosition s inp")
  case (Inl e)
  then show ?thesis
    by (simp add: WTimeStretch_process_step_def TimeStretch_process_step_def
        view_seekBestOverlapPosition)
next
  case (Inr x)
  obtain s1 offset where x: "x = (s1, offset)" by (cases x) auto
  show ?thesis
  proof (cases "ts_midBuffer s1")
    case None
    then show ?thesis
      unfolding WTimeStretch_process_step_def TimeStretch_process_step_def
        view_seekBestOverlapPosition Inr x
      by (simp add: view_overlap seekWindowLength_def map_sum_thenE Let_def view3_def
          worklet_view_update cong: if_cong)
  next
    case (Some m)
    then show ?thesis
      unfolding WTimeStretch_process_step_def TimeStretch_process_step_def
        view_seekBestOverlapPosition Inr x
      by (simp add: view_overlap seekWindowLength_def map_sum_thenE Let_def view3_def
          worklet_view_update cong: if_cong)
  qed
qed

lemma precalcCorrReference_state:
  "precalcCorrReference s = Inr s1 \<Longrightarrow> \<exists>r. s1 = s\<lparr>ts_refMidBuffer := r\<rparr>"
  by (cases "ts_refMidBuffer s"; cases "ts_midBuffer s")
    (auto simp add: precalcCorrReference_def split: if_splits intro: exI [of _ "ts_refMidBuffer s"])

lemma seekBestOverlapPosition_state:
  assumes "seekBestOverlapPosition s inp = Inr (s1, offset)"
  shows "\<exists>r. s1 = s\<lparr>ts_refMidBuffer := r\<rparr>"
proof -
  from assms obtain s0 where p: "precalcCorrReference s = Inr s0" and "s1 = s0"
    by (auto simp add: seekBestOverlapPosition_def thenE_eq_Inr)
  then show ?thesis using precalcCorrReference_state by blast
qed

lemma TimeStretch_process_step_state:
  assumes "TimeStretch_process_step s inp out = Inr (s', inp', out')"
  shows "\<exists>r m f. s' = s\<lparr>ts_refMidBuffer := r, ts_midBuffer := m, ts_skipFract := f\<rparr>"
proof -
  from assms obtain s1 offset where sk: "seekBestOverlapPosition s inp = Inr (s1, offset)"
    by (cases "seekBestOverlapPosition s inp")
      (auto simp add: TimeStretch_process_step_def)
  from seekBestOverlapPosition_state [OF sk]
  obtain r where s1: "s1 = s\<lparr>ts_refMidBuffer := r\<rparr>" by blast
  from assms sk obtain m f where "s' = s1\<lparr>ts_midBuffer := m, ts_skipFract := f\<rparr>"
    by (cases "ts_midBuffer s1")
      (auto simp add: TimeStretch_process_step_def thenE_eq_Inr Let_def)
  then show ?thesis using s1 by blast
qed

lemma TimeStretch_process_step_fields:
  assumes "TimeStretch_process_step s inp out = Inr (s', inp', out')"
  shows "ts_sampleRate s' = ts_sampleRate s" "ts_tempo s' = ts_tempo s"
    "ts_sequenceMs s' = ts_sequenceMs s" "ts_seekWindowMs s' = ts_seekWindowMs s"
    "ts_overlapMs s' = ts_overlapMs s" "ts_sequenceLength s' = ts_sequenceLength s"
    "ts_seekLength s' = ts_seekLength s" "ts_overlapLength s' = ts_overlapLength s"
    "ts_nominalSkip s' = ts_nominalSkip s" "ts_sampleReq s' = ts_sampleReq s"
  using TimeStretch_process_step_state [OF assms] by auto

lemma auto_params_process_step:
  "TimeStretch_process_step s inp out = Inr (s', inp', out') \<Longrightarrow> auto_params s' = auto_params s"
  by (simp add: auto_params_def TimeStretch_process_step_fields)

lemma view_loop_if:
  assumes "TimeStretch_process_loop s inp out = Some y"
  shows "WTimeStretch_process_loop (worklet_view s) inp out = Some (map_sum id view3 y)"
proof (rule TimeStretch_process_loop.raw_induct
    [where P = "\<lambda>s inp out y.
                  WTimeStretch_process_loop (worklet_view s) inp out = Some (map_sum id view3 y)",
      OF _ assms], goal_cases)
  case (1 f s inp out y)
  show ?case
  proof (cases "ts_sampleReq s \<le> frameCount inp")
    case False
    with 1(2) show ?thesis
      by (subst WTimeStretch_process_loop.simps) (auto simp add: view3_def)
  next
    case True
    show ?thesis
    proof (cases "TimeStretch_process_step s inp out")
      case (Inl e)
      with 1(2) True show ?thesis
        by (subst WTimeStretch_process_loop.simps) (auto simp add: view_process_step)
    next
      case (Inr x)
      obtain s' inp' out' where x: "x = (s', inp', out')" by (cases x) auto
      from 1(2) True Inr x have "f s' inp' out' = Some y" by simp
      then have "WTimeStretch_process_loop (worklet_view s') inp' out'
                   = Some (map_sum id view3 y)"
        by (rule 1(1))
      then show ?thesis using True Inr x
        by (subst WTimeStretch_process_loop.simps) (simp add: view_process_step view3_def)
    qed
  qed
qed

lemma view_loop_only_if:
  assumes "WTimeStretch_process_loop w inp out = Some y"
  shows "\<forall>s. worklet_view s = w \<longrightarrow>
           (\<exists>y'. TimeStretch_process_loop s inp out = Some y' \<and> map_sum id view3 y' = y)"
proof (rule WTimeStretch_process_loop.raw_induct
    [where P = "\<lambda>w inp out y. \<forall>s. worklet_view s = w \<longrightarrow>
           (\<exists>y'. TimeStretch_process_loop s inp out = Some y' \<and> map_sum id view3 y' = y)",
      OF _ assms], goal_cases)
  case (1 f w inp out y)
  show ?case
  proof (intro allI impI)
    fix s assume w: "worklet_view s = w"
    have req: "wts_sampleReq w = ts_sampleReq s" using w by auto
    have st: "WTimeStretch_process_step w inp out
                = map_sum id view3 (TimeStretch_process_step s inp out)"
      using w view_process_step [of s inp out] by simp
    show "\<exists>y'. TimeStretch_process_loop s inp out = Some y' \<and> map_sum id view3 y' = y"
    proof (cases "ts_sampleReq s \<le> frameCount inp")
      case False
      with 1(2) req w show ?thesis
        by (subst TimeStretch_process_loop.simps) (auto simp add: view3_def)
    next
      case True
      show ?thesis
      proof (cases "TimeStretch_process_step s inp out")
        case (Inl e)
        with 1(2) True req st show ?thesis
          by (subst TimeStretch_process_loop.simps) auto
      next
        case (Inr x)
        obtain s' inp' out' where x: "x = (s', inp', out')" by (cases x) auto
        from 1(2) True req st Inr x have "f (worklet_view s') inp' out' = Some y"
          by (simp add: view3_def)
        from 1(1) [OF this] obtain y' where
          "TimeStretch_process_loop s' inp' out' = Some y'" "map_sum id view3 y' = y"
          by blast
        then show ?thesis using True Inr x
          by (subst TimeStretch_process_loop.simps) simp
      qed
    qed
  qed
qed

lemma view_loop:
  "WTimeStretch_process_loop (worklet_view s) inp out
     = map_option (map_sum id view3) (TimeStretch_process_loop s inp out)"
proof (cases "TimeStretch_process_loop s inp out")
  case (Some y)
  then show ?thesis by (simp add: view_loop_if)
next
  case None
  then show ?thesis
    using view_loop_only_if [of "worklet_view s" inp out]
    by (cases "WTimeStretch_process_loop (worklet_view s) inp out") auto
qed

lemma view_process:
  "WTimeStretch_process (worklet_view s) inp out
     = map_option (map_sum id view3) (TimeStretch_process s inp out)"
proof (cases "receiveSamples inp (new_Float32Array (ts_overlapLength s * 2)) (ts_overlapLength s)")
  case (Inl e)
  then show ?thesis
    by (simp add: WTimeStretch_process_def TimeStretch_process_def view_loop view3_def)
next
  case (Inr x)
  obtain m inp' where x: "x = (m, inp')" by (cases x) auto
  have "WTimeStretch_process_loop ((worklet_view s)\<lparr>wts_midBuffer := Some m\<rparr>) inp' out
          = map_option (map_sum id view3)
              (TimeStretch_process_loop (s\<lparr>ts_midBuffer := Some m\<rparr>) inp' out)"
    using view_loop [of "s\<lparr>ts_midBuffer := Some m\<rparr>" inp' out]
    by (simp add: worklet_view_update)
  then show ?thesis using Inr x
    by (simp add: WTimeStretch_process_def TimeStretch_process_def view_loop view3_def)
qed

lemma view_reset:
  "WTimeStretch_reset (worklet_view s) inp out = map_sum id view3 (TimeStretch_reset s inp out)"
  by (cases "clear inp"; cases "clear out")
    (simp_all add: WTimeStretch_reset_def TimeStretch_reset_def view3_def worklet_view_update)

lemma auto_params_loop:
  assumes "TimeStretch_process_loop s inp out = Some y"
  shows "\<forall>s' inp' out'. y = Inr (s', inp', out') \<longrightarrow> auto_params s' = auto_params s"
proof (rule TimeStretch_process_loop.raw_induct
    [where P = "\<lambda>s inp out y.
                  \<forall>s' inp' out'. y = Inr (s', inp', out') \<longrightarrow> auto_params s' = auto_params s",
      OF _ assms], goal_cases)
  case (1 f s inp out y)
  show ?case
  proof (cases "ts_sampleReq s \<le> frameCount inp")
    case False
    with 1(2) show ?thesis by auto
  next
    case True
    show ?thesis
    proof (cases "TimeStretch_process_step s inp out")
      case (Inl e)
      with 1(2) True show ?thesis by auto
    next
      case (Inr x)
      obtain s1 inp1 out1 where x: "x = (s1, inp1, out1)" by (cases x) auto
      from 1(2) True Inr x have "f s1 inp1 out1 = Some y" by simp
      from 1(1) [OF this] auto_params_process_step [of s inp out s1 inp1 out1] Inr x
      show ?thesis by simp
    qed
  qed
qed

lemma auto_params_process:
  assumes "TimeStretch_process s inp out = Some (Inr (s', inp', out'))"
  shows "auto_params s' = auto_params s"
proof (cases "case ts_midBuffer s of None \<Rightarrow> True | Some midBuffer \<Rightarrow> length midBuffer = 0")
  case False
  with assms have "TimeStretch_process_loop s inp out = Some (Inr (s', inp', out'))"
    by (simp add: TimeStretch_process_def)
  from auto_params_loop [OF this] show ?thesis by simp
next
  case True
  show ?thesis
  proof (cases "frameCount inp < ts_overlapLength s")
    case True
    with assms \<open>case ts_midBuffer s of None \<Rightarrow> True | Some midBuffer \<Rightarrow> length midBuffer = 0\<close>
    show ?thesis by (simp add: TimeStretch_process_def)
  next
    case False
    with assms True obtain m inp1 where
      "TimeStretch_process_loop (s\<lparr>ts_midBuffer := Some m\<rparr>) inp1 out
         = Some (Inr (s', inp', out'))"
      by (auto simp add: TimeStretch_process_def split: sum.splits)
    from auto_params_loop [OF this] show ?thesis by (simp add: auto_params_def)
  qed
qed

lemma auto_params_reset:
  "TimeStretch_reset s inp out = Inr (s', inp', out') \<Longrightarrow> auto_params s' = auto_params s"
  by (auto simp add: TimeStretch_reset_def thenE_eq_Inr auto_params_def)

lemma ts_call_view:
  assumes "auto_params s" and "positive_overlap c"
  shows "w_ts_call (worklet_view s, inp, out) c
           = map_option (map_sum id view3) (ts_call (s, inp, out) c)"
    and "ts_call (s, inp, out) c = Some (Inr (s', inp', out')) \<Longrightarrow> auto_params s'"
proof -
  show "w_ts_call (worklet_view s, inp, out) c
           = map_option (map_sum id view3) (ts_call (s, inp, out) c)"
  proof (cases c)
    case (SetParameters sr ms)
    then show ?thesis
      using assms
      by (cases "TimeStretch_setParameters s sr 0 0 ms")
        (simp_all add: view_setParameters view3_def)
  next
    case (SetTempo v)
    then show ?thesis using assms by (simp add: view_set_tempo view3_def)
  next
    case ResetStretch
    then show ?thesis by (simp add: view_reset)
  next
    case (PutStretch block)
    then show ?thesis
      by (cases "putSamples inp block 0 (int (length block) div 2)") (simp_all add: view3_def)
  next
    case ProcessStretch
    then show ?thesis by (simp add: view_process)
  qed
  show "auto_params s'" if "ts_call (s, inp, out) c = Some (Inr (s', inp', out'))"
  proof (cases c)
    case (SetParameters sr ms)
    then show ?thesis
      using that by (auto simp add: thenE_eq_Inr auto_params_setParameters)
  next
    case (SetTempo v)
    then show ?thesis using that assms by (auto simp add: auto_params_set_tempo)
  next
    case ResetStretch
    then show ?thesis using that assms auto_params_reset [of s inp out s' inp' out'] by simp
  next
    case (PutStretch block)
    then show ?thesis using that assms by (auto simp add: thenE_eq_Inr)
  next
    case ProcessStretch
    then show ?thesis using that assms auto_params_process [of s inp out s' inp' out'] by simp
  qed
qed

lemma ts_calls_view:
  "auto_params s \<Longrightarrow> list_all positive_overlap calls \<Longrightarrow>
     w_ts_calls (worklet_view s, inp, out) calls
       = map_option (map_sum id view3) (ts_calls (s, inp, out) calls)"
proof (induction calls arbitrary: s inp out)
  case Nil
  then show ?case by (simp add: view3_def)
next
  case (Cons c cs)
  then have pc: "positive_overlap c" and pcs: "list_all positive_overlap cs" by simp_all
  note v = ts_call_view [OF Cons.prems(1) pc, of inp out]
  show ?case
  proof (cases "ts_call (s, inp, out) c")
    case None
    then show ?thesis using v(1) by simp
  next
    case (Some r)
    show ?thesis
    proof (cases r)
      case (Inl e)
      then show ?thesis using v(1) Some by simp
    next
      case (Inr x)
      obtain s' inp' out' where x: "x = (s', inp', out')" by (cases x) auto
      have a: "auto_params s'" using v(2) Some Inr x by simp
      show ?thesis
        using v(1) Some Inr x Cons.IH [OF a pcs, of inp' out'] by (simp add: view3_def)
    qed
  qed
qed

lemma rt_calls_eq: "w_rt_calls st calls = rt_calls st calls"
proof (induction calls arbitrary: st)
  case Nil
  show ?case by simp
next
  case (Cons c cs)
  obtain t inp out where st: "st = (t, inp, out)" by (cases st) auto
  have "w_rt_call st c = rt_call st c"
    unfolding st
    by (cases c)
      (simp_all add: WRateTransposer_process_eq WRateTransposer_reset_eq
        WRateTransposer_set_rate_eq)
  then show ?case using Cons.IH by simp
qed

lemma worklet_view_new: "worklet_view TimeStretch_new = WTimeStretch_new"
  by (simp add: worklet_view_def TimeStretch_new_def WTimeStretch_new_def)

lemma TimeStretch_process_idle:
  assumes "ts_midBuffer s = Some m" and "length m \<noteq> 0" and "frameCount inp < ts_sampleReq s"
  shows "TimeStretch_process s inp out = Some (Inr (s, inp, out))"
  using assms
  by (simp add: TimeStretch_process_def) (subst TimeStretch_process_loop.simps, simp)

lemma WTimeStretch_process_idle:
  assumes "wts_midBuffer s = Some m" and "length m \<noteq> 0" and "frameCount inp < wts_sampleReq s"
  shows "WTimeStretch_process s inp out = Some (Inr (s, inp, out))"
  using assms
  by (simp add: WTimeStretch_process_def) (subst WTimeStretch_process_loop.simps, simp)

lemma library_overlapMs_zero:
  "TimeStretch_setParameters TimeStretch_new 44100 0 0 0
     = Inr \<lparr>ts_sampleRate = 44100, ts_tempo = 1, ts_sequenceMs = 0, ts_seekWindowMs = 0,
            ts_overlapMs = 16, ts_sequenceLength = 4410, ts_seekLength = 955,
            ts_overlapLength = 704, ts_nominalSkip = 3706, ts_skipFract = 0,
            ts_midBuffer = Some (new_Float32Array 1408),
            ts_refMidBuffer = Some (new_Float32Array 1408), ts_sampleReq = 5365\<rparr>"
  by (simp add: TimeStretch_setParameters_def TimeStretch_set_tempo_def Let_def
      calculateOverlapLength_def calculateEffectiveParams_def seekWindowLength_def
      TimeStretch_new_def js_rem_def product_is_Infinity_def Float32Array_of_length_def
      Float32Array_MAX_LENGTH_def)

lemma worklet_overlapMs_zero:
  "WTimeStretch_setParameters WTimeStretch_new 44100 0
     = Inr \<lparr>wts_sampleRate = 44100, wts_tempo = 1, wts_sequenceLength = 4410,
            wts_seekLength = 955, wts_overlapLength = 16, wts_nominalSkip = 4394,
            wts_skipFract = 0, wts_midBuffer = Some (new_Float32Array 32),
            wts_refMidBuffer = Some (new_Float32Array 32), wts_sampleReq = 5365\<rparr>"
  by (simp add: WTimeStretch_setParameters_def WTimeStretch_set_tempo_def Let_def
      w_calculateOverlapLength_def w_calculateEffectiveParams_def
      WTimeStretch_new_def js_rem_def product_is_Infinity_def Float32Array_of_length_def
      Float32Array_MAX_LENGTH_def)

text \<open>
  Claim C10, amended.  Take any sequence of calls of \<open>rate\<close>, \<open>reset()\<close>, \<open>process()\<close> and
  of puts into the input buffer on a new \<open>RateTransposer\<close>, and any sequence of calls of
  \<open>setParameters\<close> (automatic sequence and seek window), \<open>tempo\<close>, \<open>reset()\<close>,
  \<open>process()\<close> and of puts on a new \<open>TimeStretch\<close>, in which every \<open>setParameters\<close>
  passes an overlap greater than 0 ms.  Run on the worklet's inlined classes and on the
  library classes, from the same buffers, the two runs end alike: both do not return, or both
  raise the same error, or both return the same input buffer, the same output buffer and the
  same object state (for \<open>TimeStretch\<close>, the same values in every field the worklet class
  has).  As this holds for every sequence, it holds after every \<open>process()\<close> call of one.
\<close>

theorem worklet_classes_agree_with_library:
  assumes "list_all positive_overlap calls"
  shows "w_rt_calls (RateTransposer_new, inp, out) transposer_calls
           = rt_calls (RateTransposer_new, inp, out) transposer_calls
       \<and> w_ts_calls (WTimeStretch_new, inp, out) calls
           = map_option (map_sum id view3) (ts_calls (TimeStretch_new, inp, out) calls)"
proof -
  have "auto_params TimeStretch_new" by (simp add: auto_params_def TimeStretch_new_def)
  from ts_calls_view [OF this assms, of inp out] show ?thesis
    by (simp add: rt_calls_eq worklet_view_new)
qed

text \<open>The amended claim C10 at a sequence of calls that satisfies its hypothesis.\<close>

theorem worklet_classes_agree_with_library_witness:
  "list_all positive_overlap [SetParameters 44100 16, SetTempo 2, PutStretch [Val 1, Val 1],
                              ProcessStretch]
   \<and> w_rt_calls (RateTransposer_new, Fifo_new 4096, Fifo_new 4096)
         [SetRate 2, PutTransposer [Val 1, Val 1], ProcessTransposer]
       = rt_calls (RateTransposer_new, Fifo_new 4096, Fifo_new 4096)
           [SetRate 2, PutTransposer [Val 1, Val 1], ProcessTransposer]
   \<and> w_ts_calls (WTimeStretch_new, Fifo_new 4096, Fifo_new 4096)
         [SetParameters 44100 16, SetTempo 2, PutStretch [Val 1, Val 1], ProcessStretch]
       = map_option (map_sum id view3)
           (ts_calls (TimeStretch_new, Fifo_new 4096, Fifo_new 4096)
              [SetParameters 44100 16, SetTempo 2, PutStretch [Val 1, Val 1], ProcessStretch])"
proof -
  have h: "list_all positive_overlap
             [SetParameters 44100 16, SetTempo 2, PutStretch [Val 1, Val 1], ProcessStretch]"
    by simp
  from worklet_classes_agree_with_library [OF h] h show ?thesis by blast
qed

text \<open>
  Claim C10 as stated fails when \<open>setParameters\<close> is given an overlap of 0 ms: the library
  class then keeps its stored overlap of 16 ms, the worklet class computes the overlap length
  from the argument.  At 44100 Hz, after \<open>setParameters\<close> and one \<open>process()\<close> call, the
  library object has an overlap length of 704 frames and the worklet object one of 16.
\<close>

theorem overlapMs_zero_counterexample:
  "map_option (map_sum id (ts_overlapLength \<circ> fst))
     (ts_calls (TimeStretch_new, Fifo_new 4096, Fifo_new 4096)
        [SetParameters 44100 0, ProcessStretch])
     = Some (Inr 704)
   \<and> map_option (map_sum id (wts_overlapLength \<circ> fst))
       (w_ts_calls (WTimeStretch_new, Fifo_new 4096, Fifo_new 4096)
          [SetParameters 44100 0, ProcessStretch])
     = Some (Inr 16)"
proof -
  let ?s = "\<lparr>ts_sampleRate = 44100, ts_tempo = 1, ts_sequenceMs = 0, ts_seekWindowMs = 0,
            ts_overlapMs = 16, ts_sequenceLength = 4410, ts_seekLength = 955,
            ts_overlapLength = 704, ts_nominalSkip = 3706, ts_skipFract = 0,
            ts_midBuffer = Some (new_Float32Array 1408),
            ts_refMidBuffer = Some (new_Float32Array 1408), ts_sampleReq = 5365\<rparr>"
  let ?w = "\<lparr>wts_sampleRate = 44100, wts_tempo = 1, wts_sequenceLength = 4410,
            wts_seekLength = 955, wts_overlapLength = 16, wts_nominalSkip = 4394,
            wts_skipFract = 0, wts_midBuffer = Some (new_Float32Array 32),
            wts_refMidBuffer = Some (new_Float32Array 32), wts_sampleReq = 5365\<rparr>"
  have "TimeStretch_process ?s (Fifo_new 4096) (Fifo_new 4096)
          = Some (Inr (?s, Fifo_new 4096, Fifo_new 4096))"
    by (rule TimeStretch_process_idle [of _ "new_Float32Array 1408"])
      (simp_all add: new_Float32Array_def Fifo_new_def)
  then have l: "ts_calls (TimeStretch_new, Fifo_new 4096, Fifo_new 4096)
                  [SetParameters 44100 0, ProcessStretch]
                = Some (Inr (?s, Fifo_new 4096, Fifo_new 4096))"
    by (simp add: library_overlapMs_zero)
  have "WTimeStretch_process ?w (Fifo_new 4096) (Fifo_new 4096)
          = Some (Inr (?w, Fifo_new 4096, Fifo_new 4096))"
    by (rule WTimeStretch_process_idle [of _ "new_Float32Array 32"])
      (simp_all add: new_Float32Array_def Fifo_new_def)
  then have w: "w_ts_calls (WTimeStretch_new, Fifo_new 4096, Fifo_new 4096)
                  [SetParameters 44100 0, ProcessStretch]
                = Some (Inr (?w, Fifo_new 4096, Fifo_new 4096))"
    by (simp add: worklet_overlapMs_zero)
  show ?thesis unfolding l w by simp
qed
section \<open>The time stretcher at tempo 1\<close>

lemma putSamples_count:
  assumes "fifo_ok f" and "0 \<le> n"
  shows "\<exists>f'. putSamples f samples offset n = Inr f' \<and> fifo_ok f' \<and> position f' = 0
           \<and> frameCount f' = frameCount f + n"
proof -
  from ensureCapacity_result [of f "frameCount f + n"] assms(1) obtain f1 where
    e: "ensureCapacity f (frameCount f + n) = Inr f1" and fc: "frameCount f1 = frameCount f"
    and cap: "2 * (frameCount f + n) \<le> int (length (vector f1))"
    and ok1: "fifo_ok f1" and p1: "position f1 = 0"
    by auto
  let ?sub = "subarray samples (offset * 2) (offset * 2 + n * 2)"
  have ls: "int (length ?sub) \<le> n * 2"
    using length_subarray_bound [of "n * 2" samples "offset * 2"] assms(2) by simp
  have e1: "endIndex f1 = 2 * frameCount f" by (simp add: endIndex_def p1 fc)
  have f0: "0 \<le> frameCount f" using assms(1) by (simp add: fifo_ok_def)
  have fit: "endIndex f1 + int (length ?sub) \<le> int (length (vector f1))"
    using ls cap e1 by simp
  have nonneg: "0 \<le> endIndex f1" using e1 f0 by simp
  from set_arr_result [OF nonneg fit] obtain d where
    d: "set_arr (vector f1) ?sub (endIndex f1) = Inr d" and ld: "length d = length (vector f1)"
    by auto
  let ?f' = "f1\<lparr>vector := d, frameCount := frameCount f1 + n\<rparr>"
  have r: "putSamples f samples offset n = Inr ?f'"
    using e d by (simp add: putSamples_def Let_def)
  have ok: "fifo_ok ?f'"
    using cap ld p1 fc f0 assms(2) by (simp add: fifo_ok_def endIndex_def)
  show ?thesis using r ok p1 fc by auto
qed

lemma length_fold_precalc:
  "length (fold (precalc_frame ov m) is r) = length r"
  by (induction "is" arbitrary: r) (simp_all add: precalc_frame_def Let_def)

lemma length_fold_overlap:
  "length (fold (overlap_frame ov m input a b) is v) = length v"
  by (induction "is" arbitrary: v) (simp_all add: overlap_frame_def Let_def)

lemma precalcCorrReference_ok:
  assumes "ts_refMidBuffer s = Some r" and "ts_midBuffer s = Some m"
  shows "\<exists>r'. precalcCorrReference s = Inr (s\<lparr>ts_refMidBuffer := Some r'\<rparr>)
           \<and> length r' = length r"
  using assms
  by (auto simp add: precalcCorrReference_def length_fold_precalc
      intro: exI [of _ r])

lemma calculateCrossCorr_ok:
  "ts_refMidBuffer s = Some r \<Longrightarrow> \<exists>c. calculateCrossCorr s inp offset = Inr c"
  by (simp add: calculateCrossCorr_def)

lemma scan_entry_ok:
  assumes "ts_refMidBuffer s = Some r"
  shows "\<exists>y. scan_entry s inp corrOffset entry (Inr x) = Inr y"
proof -
  obtain bo bc where x: "x = (bo, bc)" by (cases x) auto
  from calculateCrossCorr_ok [OF assms, of inp "(corrOffset + entry) * 2"]
  obtain c where "calculateCrossCorr s inp ((corrOffset + entry) * 2) = Inr c" by blast
  then show ?thesis by (simp add: scan_entry_def x Let_def)
qed

lemma fold_scan_entry_ok:
  assumes "ts_refMidBuffer s = Some r"
  shows "\<exists>y. fold (scan_entry s inp corrOffset) row (Inr x) = Inr y"
proof (induction row arbitrary: x)
  case Nil
  show ?case by simp
next
  case (Cons e row)
  from scan_entry_ok [OF assms, of inp corrOffset e x]
  obtain y where "scan_entry s inp corrOffset e (Inr x) = Inr y" by blast
  then show ?case using Cons.IH [of y] by simp
qed

lemma scan_level_ok:
  assumes "ts_refMidBuffer s = Some r"
  shows "\<exists>y. scan_level s inp row (Inr x) = Inr y"
proof -
  obtain bo bc co where x: "x = (bo, bc, co)" by (rule prod_cases3)
  from fold_scan_entry_ok [OF assms, of inp co "takeWhile (\<lambda>x. x \<noteq> 0) row" "(bo, bc)"]
  obtain y where "fold (scan_entry s inp co) (takeWhile (\<lambda>x. x \<noteq> 0) row) (Inr (bo, bc)) = Inr y"
    by blast
  then show ?thesis by (cases y) (simp add: scan_level_def x)
qed

lemma fold_scan_level_ok:
  assumes "ts_refMidBuffer s = Some r"
  shows "\<exists>y. fold (scan_level s inp) rows (Inr x) = Inr y"
proof (induction rows arbitrary: x)
  case Nil
  show ?case by (rule exI [of _ x]) simp
next
  case (Cons row rows)
  from scan_level_ok [OF assms, of inp row x]
  obtain y where "scan_level s inp row (Inr x) = Inr y" by blast
  then show ?case using Cons.IH [of y] by simp
qed

lemma seekBestOverlapPosition_ok:
  assumes "ts_refMidBuffer s = Some r" and "ts_midBuffer s = Some m"
  shows "\<exists>r' offset. seekBestOverlapPosition s inp = Inr (s\<lparr>ts_refMidBuffer := Some r'\<rparr>, offset)
           \<and> length r' = length r"
proof -
  from precalcCorrReference_ok [OF assms] obtain r' where
    p: "precalcCorrReference s = Inr (s\<lparr>ts_refMidBuffer := Some r'\<rparr>)"
    and l: "length r' = length r"
    by blast
  have "ts_refMidBuffer (s\<lparr>ts_refMidBuffer := Some r'\<rparr>) = Some r'" by simp
  from fold_scan_level_ok [OF this, of inp SCAN_OFFSETS "(0, Val Number_MIN_VALUE, 0)"]
  obtain y where
    "fold (scan_level (s\<lparr>ts_refMidBuffer := Some r'\<rparr>) inp) SCAN_OFFSETS
       (Inr (0, Val Number_MIN_VALUE, 0)) = Inr y"
    by blast
  then have "\<exists>offset. seekBestOverlapPositionQuick (s\<lparr>ts_refMidBuffer := Some r'\<rparr>) inp
               = Inr offset"
    by (cases y) (simp add: seekBestOverlapPositionQuick_def)
  then show ?thesis using p l by (auto simp add: seekBestOverlapPosition_def)
qed

lemma overlap_ok:
  assumes "ts_midBuffer s = Some m"
  shows "\<exists>v. overlap s inp out offset = Inr (out\<lparr>vector := v\<rparr>) \<and> length v = length (vector out)"
proof (cases "ts_overlapLength s \<le> 0")
  case True
  then have "overlap s inp out offset = Inr (out\<lparr>vector := vector out\<rparr>)"
    by (simp add: overlap_def)
  then show ?thesis by blast
next
  case False
  let ?v = "fold (overlap_frame (ts_overlapLength s) m (vector inp)
                    (startIndex inp + offset * 2) (endIndex out))
              (map int [0..<nat (ts_overlapLength s)]) (vector out)"
  have "overlap s inp out offset = Inr (out\<lparr>vector := ?v\<rparr>)"
    using False assms by (simp add: overlap_def)
  moreover have "length ?v = length (vector out)" by (rule length_fold_overlap)
  ultimately show ?thesis by blast
qed

lemma process_step_tempo_one:
  assumes inv: "steady_tempo_one s" and mid: "ts_midBuffer s = Some m"
    and okI: "fifo_ok inp" and okO: "fifo_ok out"
  shows "\<exists>s' out'.
           TimeStretch_process_step s inp out
             = Inr (s', receive inp (ts_sequenceLength s - ts_overlapLength s), out')
         \<and> steady_tempo_one s' \<and> ts_midBuffer s' \<noteq> None
         \<and> ts_sequenceLength s' = ts_sequenceLength s
         \<and> ts_overlapLength s' = ts_overlapLength s
         \<and> ts_sampleReq s' = ts_sampleReq s
         \<and> fifo_ok out'
         \<and> frameCount out' = frameCount out + chunk_frames s"
proof -
  let ?ov = "ts_overlapLength s" and ?seq = "ts_sequenceLength s"
  from inv obtain r where ref: "ts_refMidBuffer s = Some r"
    by (auto simp add: steady_tempo_one_def split: option.splits)
  have lm: "int (length m) = 2 * ?ov" using inv mid by (simp add: steady_tempo_one_def)
  have ov: "0 < ?ov" using inv by (simp_all add: steady_tempo_one_def)
  from seekBestOverlapPosition_ok [OF ref mid, of inp] obtain r' offset where
    sk: "seekBestOverlapPosition s inp = Inr (s\<lparr>ts_refMidBuffer := Some r'\<rparr>, offset)"
    by blast
  let ?s1 = "s\<lparr>ts_refMidBuffer := Some r'\<rparr>"
  from ensureCapacity_result [of out "frameCount out + ?ov"] okO obtain out1 where
    e: "ensureCapacity out (frameCount out + ?ov) = Inr out1"
    and fc1: "frameCount out1 = frameCount out"
    and cap: "2 * (frameCount out + ?ov) \<le> int (length (vector out1))"
    and ok1: "fifo_ok out1" and p1: "position out1 = 0"
    by auto
  have mid1: "ts_midBuffer ?s1 = Some m" using mid by simp
  from overlap_ok [OF mid1, of inp out1 offset] obtain v where
    o: "overlap ?s1 inp out1 offset = Inr (out1\<lparr>vector := v\<rparr>)"
    and lv: "length v = length (vector out1)"
    by blast
  let ?out3 = "put (out1\<lparr>vector := v\<rparr>) ?ov"
  have f0: "0 \<le> frameCount out" using okO by (simp add: fifo_ok_def)
  have ok3: "fifo_ok ?out3"
    using cap lv p1 fc1 f0 ov by (simp add: fifo_ok_def put_def endIndex_def)
  have fc3: "frameCount ?out3 = frameCount out + ?ov" by (simp add: put_def fc1)
  have "\<exists>out4. (if ?seq - 2 * ?ov > 0
                 then putBuffer ?out3 inp (offset + ?ov) (?seq - 2 * ?ov) else Inr ?out3)
                = Inr out4
             \<and> fifo_ok out4 \<and> frameCount out4 = frameCount out + chunk_frames s"
  proof (cases "?seq - 2 * ?ov > 0")
    case True
    then have n: "0 \<le> ?seq - 2 * ?ov" by simp
    from putSamples_count [OF ok3 n, of "vector inp" "position inp + (offset + ?ov)"]
    show ?thesis using True fc3 by (auto simp add: putBuffer_def chunk_frames_def)
  next
    case False
    then show ?thesis using ok3 fc3 by (simp add: chunk_frames_def)
  qed
  then obtain out4 where
    m4: "(if ?seq - 2 * ?ov > 0
          then putBuffer ?out3 inp (offset + ?ov) (?seq - 2 * ?ov) else Inr ?out3) = Inr out4"
    and ok4: "fifo_ok out4" and fc4: "frameCount out4 = frameCount out + chunk_frames s"
    by blast
  let ?midStart = "startIndex inp + (offset + ?seq - ?ov) * 2"
  let ?sub = "subarray (vector inp) ?midStart (?midStart + ?ov * 2)"
  have "int (length ?sub) \<le> ?ov * 2"
    using length_subarray_bound [of "?ov * 2" "vector inp" ?midStart] ov by simp
  then have fit: "0 + int (length ?sub) \<le> int (length m)" using lm by simp
  from set_arr_result [OF _ fit] obtain m' where
    sa: "set_arr m ?sub 0 = Inr m'" and lm': "length m' = length m"
    by auto
  have skip: "\<lfloor>ts_skipFract s + ts_nominalSkip s\<rfloor> = ?seq - ?ov"
    and frac: "ts_skipFract s + ts_nominalSkip s - real_of_int (?seq - ?ov) = 0"
    using inv by (simp_all add: steady_tempo_one_def)
  let ?s' = "?s1\<lparr>ts_midBuffer := Some m', ts_skipFract := 0\<rparr>"
  have step: "TimeStretch_process_step s inp out = Inr (?s', receive inp (?seq - ?ov), out4)"
  proof (cases "?seq - 2 * ?ov > 0")
    case True
    then show ?thesis
      unfolding TimeStretch_process_step_def
      using sk e o m4 sa skip frac mid
      by (simp add: Let_def seekWindowLength_def)
  next
    case False
    then show ?thesis
      unfolding TimeStretch_process_step_def
      using sk e o m4 sa skip frac mid
      by (simp add: Let_def seekWindowLength_def)
  qed
  have inv': "steady_tempo_one ?s'"
    using inv lm lm' by (simp add: steady_tempo_one_def)
  show ?thesis
    using step inv' ok4 fc4 by (intro exI [of _ ?s'] exI [of _ out4]) simp
qed

lemma process_loop_tempo_one:
  assumes "steady_tempo_one s" and "ts_midBuffer s = Some m"
    and "fifo_ok inp" and "fifo_ok out"
  shows "\<exists>j s' inp' out'.
           TimeStretch_process_loop s inp out = Some (Inr (s', inp', out'))
         \<and> steady_tempo_one s' \<and> ts_midBuffer s' \<noteq> None
         \<and> ts_sequenceLength s' = ts_sequenceLength s
         \<and> ts_overlapLength s' = ts_overlapLength s
         \<and> ts_sampleReq s' = ts_sampleReq s
         \<and> fifo_ok inp' \<and> fifo_ok out' \<and> 0 \<le> j
         \<and> frameCount inp' = frameCount inp - j * (ts_sequenceLength s - ts_overlapLength s)
         \<and> frameCount out' = frameCount out + j * chunk_frames s
         \<and> frameCount inp' < ts_sampleReq s
         \<and> (0 < j \<longrightarrow>
               ts_sampleReq s \<le> frameCount inp' + (ts_sequenceLength s - ts_overlapLength s))"
  using assms
proof (induction "nat (frameCount inp)" arbitrary: s m inp out rule: less_induct)
  case less
  show ?case
  proof (cases "ts_sampleReq s \<le> frameCount inp")
    case False
    then have "TimeStretch_process_loop s inp out = Some (Inr (s, inp, out))"
      by (subst TimeStretch_process_loop.simps) simp
    then show ?thesis
      using less.prems False by (intro exI [of _ 0] exI [of _ s] exI [of _ inp] exI [of _ out]) simp
  next
    case True
    let ?k = "ts_sequenceLength s - ts_overlapLength s"
    from process_step_tempo_one [OF less.prems] obtain s1 out1 where
      st: "TimeStretch_process_step s inp out = Inr (s1, receive inp ?k, out1)"
      and inv1: "steady_tempo_one s1" and mid1: "ts_midBuffer s1 \<noteq> None"
      and sq1: "ts_sequenceLength s1 = ts_sequenceLength s"
      and ov1: "ts_overlapLength s1 = ts_overlapLength s"
      and rq1: "ts_sampleReq s1 = ts_sampleReq s"
      and ok1: "fifo_ok out1" and fc1: "frameCount out1 = frameCount out + chunk_frames s"
      by blast
    from mid1 obtain m1 where m1: "ts_midBuffer s1 = Some m1" by auto
    have k: "0 < ?k" and kle: "?k \<le> frameCount inp"
      using less.prems(1) True by (simp_all add: steady_tempo_one_def)
    have fcr: "frameCount (receive inp ?k) = frameCount inp - ?k"
      using k kle by (simp add: receive_frameCount)
    have meas: "nat (frameCount (receive inp ?k)) < nat (frameCount inp)"
      using fcr k kle by simp
    have ch1: "chunk_frames s1 = chunk_frames s" by (simp add: chunk_frames_def sq1 ov1)
    from less.hyps [OF meas inv1 m1 receive_ok [OF less.prems(3)] ok1]
    obtain j s' inp' out' where
      lp: "TimeStretch_process_loop s1 (receive inp ?k) out1 = Some (Inr (s', inp', out'))"
      and r: "steady_tempo_one s'" "ts_midBuffer s' \<noteq> None"
        "ts_sequenceLength s' = ts_sequenceLength s1" "ts_overlapLength s' = ts_overlapLength s1"
        "ts_sampleReq s' = ts_sampleReq s1" "fifo_ok inp'" "fifo_ok out'"
      and j: "0 \<le> j"
      and ci: "frameCount inp' = frameCount (receive inp ?k)
                 - j * (ts_sequenceLength s1 - ts_overlapLength s1)"
      and co: "frameCount out' = frameCount out1 + j * chunk_frames s1"
      and lt: "frameCount inp' < ts_sampleReq s1"
      and lb: "0 < j \<longrightarrow> ts_sampleReq s1
                 \<le> frameCount inp' + (ts_sequenceLength s1 - ts_overlapLength s1)"
      by blast
    have run: "TimeStretch_process_loop s inp out = Some (Inr (s', inp', out'))"
      using True st lp by (subst TimeStretch_process_loop.simps) simp
    have ci': "frameCount inp' = frameCount inp - (j + 1) * ?k"
      using ci fcr sq1 ov1 by (simp add: algebra_simps)
    have co': "frameCount out' = frameCount out + (j + 1) * chunk_frames s"
      using co fc1 ch1 by (simp add: algebra_simps)
    have lb': "ts_sampleReq s \<le> frameCount inp' + ?k"
    proof (cases "0 < j")
      case True
      then show ?thesis using lb rq1 sq1 ov1 by simp
    next
      case False
      then have "j = 0" using j by simp
      then show ?thesis using ci' \<open>ts_sampleReq s \<le> frameCount inp\<close> by simp
    qed
    show ?thesis
      using run r sq1 ov1 rq1 j ci' co' lt lb'
      by (intro exI [of _ "j + 1"] exI [of _ s'] exI [of _ inp'] exI [of _ out']) simp
  qed
qed

lemma receiveSamples_seed:
  assumes "fifo_ok inp" and "0 < ov" and "ov \<le> frameCount inp"
  shows "\<exists>m. receiveSamples inp (new_Float32Array (ov * 2)) ov = Inr (m, receive inp ov)
           \<and> int (length m) = 2 * ov"
proof -
  let ?sub = "subarray (vector inp) (startIndex inp) (startIndex inp + ov * 2)"
  have "int (length ?sub) \<le> ov * 2"
    using length_subarray_bound [of "ov * 2" "vector inp" "startIndex inp"] assms(2) by simp
  then have fit: "0 + int (length ?sub) \<le> int (length (new_Float32Array (ov * 2)))"
    using assms(2) by (simp add: new_Float32Array_def)
  from set_arr_result [OF _ fit] obtain m where
    "set_arr (new_Float32Array (ov * 2)) ?sub 0 = Inr m"
    "length m = length (new_Float32Array (ov * 2))"
    by auto
  then show ?thesis
    using assms(2) by (simp add: receiveSamples_def Let_def new_Float32Array_def)
qed

lemma process_tempo_one:
  assumes inv: "steady_tempo_one s" and okI: "fifo_ok inp" and okO: "fifo_ok out"
  shows "\<exists>j s' inp' out'.
           TimeStretch_process s inp out = Some (Inr (s', inp', out'))
         \<and> steady_tempo_one s'
         \<and> ts_sequenceLength s' = ts_sequenceLength s
         \<and> ts_overlapLength s' = ts_overlapLength s
         \<and> ts_sampleReq s' = ts_sampleReq s
         \<and> fifo_ok inp' \<and> fifo_ok out' \<and> 0 \<le> j
         \<and> frameCount inp' + seed_frames s'
             = frameCount inp + seed_frames s - j * (ts_sequenceLength s - ts_overlapLength s)
         \<and> frameCount out' = frameCount out + j * chunk_frames s
         \<and> (ts_midBuffer s' \<noteq> None \<longrightarrow> frameCount inp' < ts_sampleReq s)
         \<and> (ts_midBuffer s \<noteq> None \<longrightarrow> ts_midBuffer s' \<noteq> None)
         \<and> (0 < j \<longrightarrow>
               ts_sampleReq s \<le> frameCount inp' + (ts_sequenceLength s - ts_overlapLength s))"
proof (cases "ts_midBuffer s")
  case (Some m)
  then have "int (length m) = 2 * ts_overlapLength s" and "0 < ts_overlapLength s"
    using inv by (simp_all add: steady_tempo_one_def)
  then have ne: "length m \<noteq> 0" by auto
  have pr: "TimeStretch_process s inp out = TimeStretch_process_loop s inp out"
    using Some ne by (simp add: TimeStretch_process_def)
  from process_loop_tempo_one [OF inv Some okI okO]
  obtain j s' inp' out' where
    r: "TimeStretch_process_loop s inp out = Some (Inr (s', inp', out'))"
      "steady_tempo_one s'" "ts_midBuffer s' \<noteq> None"
      "ts_sequenceLength s' = ts_sequenceLength s" "ts_overlapLength s' = ts_overlapLength s"
      "ts_sampleReq s' = ts_sampleReq s" "fifo_ok inp'" "fifo_ok out'" "0 \<le> j"
      "frameCount inp' = frameCount inp - j * (ts_sequenceLength s - ts_overlapLength s)"
      "frameCount out' = frameCount out + j * chunk_frames s"
      "frameCount inp' < ts_sampleReq s"
      "0 < j \<longrightarrow>
         ts_sampleReq s \<le> frameCount inp' + (ts_sequenceLength s - ts_overlapLength s)"
    by blast
  have sd: "seed_frames s' = seed_frames s"
    using r(3,5) Some by (auto simp add: seed_frames_def)
  show ?thesis
    using pr r sd
    by (intro exI [of _ j] exI [of _ s'] exI [of _ inp'] exI [of _ out']) simp
next
  case None
  let ?ov = "ts_overlapLength s"
  have ov: "0 < ?ov" using inv by (simp add: steady_tempo_one_def)
  show ?thesis
  proof (cases "frameCount inp < ?ov")
    case True
    then have "TimeStretch_process s inp out = Some (Inr (s, inp, out))"
      using None by (simp add: TimeStretch_process_def)
    then show ?thesis
      using inv okI okO None
      by (intro exI [of _ 0] exI [of _ s] exI [of _ inp] exI [of _ out]) simp
  next
    case False
    then have le: "?ov \<le> frameCount inp" by simp
    from receiveSamples_seed [OF okI ov le] obtain m where
      rs: "receiveSamples inp (new_Float32Array (?ov * 2)) ?ov = Inr (m, receive inp ?ov)"
      and lm: "int (length m) = 2 * ?ov"
      by blast
    let ?s1 = "s\<lparr>ts_midBuffer := Some m\<rparr>"
    have pr: "TimeStretch_process s inp out
                = TimeStretch_process_loop ?s1 (receive inp ?ov) out"
      using None False rs by (simp add: TimeStretch_process_def)
    have inv1: "steady_tempo_one ?s1" using inv lm by (simp add: steady_tempo_one_def)
    have m1: "ts_midBuffer ?s1 = Some m" by simp
    have fcr: "frameCount (receive inp ?ov) = frameCount inp - ?ov"
      using ov le by (simp add: receive_frameCount)
    from process_loop_tempo_one [OF inv1 m1 receive_ok [OF okI] okO]
    obtain j s' inp' out' where
      r: "TimeStretch_process_loop ?s1 (receive inp ?ov) out = Some (Inr (s', inp', out'))"
        "steady_tempo_one s'" "ts_midBuffer s' \<noteq> None"
        "ts_sequenceLength s' = ts_sequenceLength ?s1" "ts_overlapLength s' = ts_overlapLength ?s1"
        "ts_sampleReq s' = ts_sampleReq ?s1" "fifo_ok inp'" "fifo_ok out'" "0 \<le> j"
        "frameCount inp' = frameCount (receive inp ?ov)
           - j * (ts_sequenceLength ?s1 - ts_overlapLength ?s1)"
        "frameCount out' = frameCount out + j * chunk_frames ?s1"
        "frameCount inp' < ts_sampleReq ?s1"
        "0 < j \<longrightarrow>
           ts_sampleReq ?s1 \<le> frameCount inp' + (ts_sequenceLength ?s1 - ts_overlapLength ?s1)"
      by blast
    have sd: "seed_frames s' = ?ov" "seed_frames s = 0"
      using r(3,5) None by (auto simp add: seed_frames_def)
    have ch: "chunk_frames ?s1 = chunk_frames s" by (simp add: chunk_frames_def)
    show ?thesis
      using pr r sd ch fcr
      by (intro exI [of _ j] exI [of _ s'] exI [of _ inp'] exI [of _ out']) simp
  qed
qed

lemma TimeStretch_set_tempo_lengths:
  "ts_sequenceLength (TimeStretch_set_tempo s v)
     = ts_sequenceLength (calculateEffectiveParams (s\<lparr>ts_tempo := v\<rparr>))"
  "ts_seekLength (TimeStretch_set_tempo s v)
     = ts_seekLength (calculateEffectiveParams (s\<lparr>ts_tempo := v\<rparr>))"
  "ts_nominalSkip (TimeStretch_set_tempo s v)
     = v * real_of_int (ts_sequenceLength (calculateEffectiveParams (s\<lparr>ts_tempo := v\<rparr>))
                          - ts_overlapLength s)"
  "ts_sampleReq (TimeStretch_set_tempo s v)
     = max (\<lfloor>v * real_of_int (ts_sequenceLength (calculateEffectiveParams (s\<lparr>ts_tempo := v\<rparr>))
                                 - ts_overlapLength s) + 0.5\<rfloor> + ts_overlapLength s)
           (ts_sequenceLength (calculateEffectiveParams (s\<lparr>ts_tempo := v\<rparr>)))
       + ts_seekLength (calculateEffectiveParams (s\<lparr>ts_tempo := v\<rparr>))"
  by (simp_all add: TimeStretch_set_tempo_def Let_def seekWindowLength_def
      calculateEffectiveParams_fields)

lemma auto_lengths_tempo_one:
  assumes "ts_sequenceMs s = 0" and "ts_seekWindowMs s = 0"
  shows "ts_sequenceLength (calculateEffectiveParams (s\<lparr>ts_tempo := 1\<rparr>))
           = \<lfloor>ts_sampleRate s / 10\<rfloor>"
    and "ts_seekLength (calculateEffectiveParams (s\<lparr>ts_tempo := 1\<rparr>))
           = \<lfloor>ts_sampleRate s * 13 / 600\<rfloor>"
  using assms by (simp_all add: calculateEffectiveParams_def Let_def mult.commute)

lemma floor_int_plus_half: "\<lfloor>real_of_int k + 0.5\<rfloor> = k"
  by linarith

lemma tempo_one_start_Inr:
  assumes "tempo_one_start sr ms = Inr s0"
  shows "\<exists>s1. TimeStretch_setParameters TimeStretch_new sr 0 0 ms = Inr s1
              \<and> s0 = TimeStretch_set_tempo s1 1"
  using assms unfolding tempo_one_start_def thenE_eq_Inr sum.inject by blast

lemma tempo_one_start_returns:
  assumes "2 * \<lfloor>(if sr > 0 then sr else 44100) * (if ms > 0 then ms else 16) / 1000\<rfloor>
             \<le> Float32Array_MAX_LENGTH"
  shows "\<exists>s0. tempo_one_start sr ms = Inr s0"
proof -
  have "2 * \<lfloor>(if sr > 0 then sr else ts_sampleRate TimeStretch_new)
                 * (if ms > 0 then ms else ts_overlapMs TimeStretch_new) / 1000\<rfloor>
          \<le> Float32Array_MAX_LENGTH"
    using assms by (simp only: TimeStretch_new_def TimeStretch.select_convs)
  from TimeStretch_setParameters_returns [OF this, of 0 0] obtain s1 where
    "TimeStretch_setParameters TimeStretch_new sr 0 0 ms = Inr s1"
    by blast
  then show ?thesis by (simp add: tempo_one_start_def)
qed

lemma tempo_one_start_lengths:
  assumes "tempo_one_start sr ms = Inr s0"
  shows "ts_overlapLength s0
     = max 16 \<lfloor>(if sr > 0 then sr else 44100) * (if ms > 0 then ms else 16) / 1000\<rfloor> div 8 * 8"
    and "ts_sequenceLength s0 = \<lfloor>(if sr > 0 then sr else 44100) / 10\<rfloor>"
    and "ts_seekLength s0 = \<lfloor>(if sr > 0 then sr else 44100) * 13 / 600\<rfloor>"
proof -
  from tempo_one_start_Inr [OF assms] obtain s1 where
    r: "TimeStretch_setParameters TimeStretch_new sr 0 0 ms = Inr s1"
    and s0: "s0 = TimeStretch_set_tempo s1 1"
    by blast
  note f = TimeStretch_setParameters_fields [OF r]
  show "ts_overlapLength s0
     = max 16 \<lfloor>(if sr > 0 then sr else 44100) * (if ms > 0 then ms else 16) / 1000\<rfloor> div 8 * 8"
    unfolding s0 TimeStretch_set_tempo_fields f(6) by (simp add: TimeStretch_new_def)
  show "ts_sequenceLength s0 = \<lfloor>(if sr > 0 then sr else 44100) / 10\<rfloor>"
    unfolding s0 TimeStretch_set_tempo_lengths auto_lengths_tempo_one [OF f(3) f(4)] f(1)
    by (simp add: TimeStretch_new_def)
  show "ts_seekLength s0 = \<lfloor>(if sr > 0 then sr else 44100) * 13 / 600\<rfloor>"
    unfolding s0 TimeStretch_set_tempo_lengths auto_lengths_tempo_one [OF f(3) f(4)] f(1)
    by (simp add: TimeStretch_new_def)
qed

lemma tempo_one_start_skip:
  assumes "tempo_one_start sr ms = Inr s0"
  shows "ts_nominalSkip s0 = real_of_int (ts_sequenceLength s0 - ts_overlapLength s0)"
    and "ts_skipFract s0 = 0"
    and "ts_sampleReq s0 = ts_sequenceLength s0 + ts_seekLength s0"
proof -
  from tempo_one_start_Inr [OF assms] obtain s1 where
    s0: "s0 = TimeStretch_set_tempo s1 1"
    by blast
  show "ts_nominalSkip s0 = real_of_int (ts_sequenceLength s0 - ts_overlapLength s0)"
    and "ts_skipFract s0 = 0"
    and "ts_sampleReq s0 = ts_sequenceLength s0 + ts_seekLength s0"
    unfolding s0 TimeStretch_set_tempo_lengths TimeStretch_set_tempo_fields
      mult_1 floor_int_plus_half
    by simp_all
qed

lemma tempo_one_start_buffers:
  assumes "tempo_one_start sr ms = Inr s0"
  shows "ts_midBuffer s0 = Some (new_Float32Array (ts_overlapLength s0 * 2))"
    and "ts_refMidBuffer s0 = Some (new_Float32Array (ts_overlapLength s0 * 2))"
proof -
  from tempo_one_start_Inr [OF assms] obtain s1 where
    r: "TimeStretch_setParameters TimeStretch_new sr 0 0 ms = Inr s1"
    and s0: "s0 = TimeStretch_set_tempo s1 1"
    by blast
  show "ts_midBuffer s0 = Some (new_Float32Array (ts_overlapLength s0 * 2))"
    unfolding s0 TimeStretch_set_tempo_fields
    by (rule TimeStretch_setParameters_fields(7) [OF r])
  show "ts_refMidBuffer s0 = Some (new_Float32Array (ts_overlapLength s0 * 2))"
    unfolding s0 TimeStretch_set_tempo_fields
    by (rule TimeStretch_setParameters_fields(8) [OF r])
qed

lemma tempo_one_start_overlap_ge:
  assumes "tempo_one_start sr ms = Inr s0"
  shows "16 \<le> ts_overlapLength s0"
  unfolding tempo_one_start_lengths(1) [OF assms] by (rule round_down_8_ge) simp

lemma tempo_one_start_steady:
  assumes st: "tempo_one_start sr ms = Inr s0"
    and lt: "ts_overlapLength s0 < ts_sequenceLength s0"
  shows "steady_tempo_one s0"
proof -
  have ov: "16 \<le> ts_overlapLength s0" by (rule tempo_one_start_overlap_ge [OF st])
  have "0 \<le> (if sr > 0 then sr else 44100) * 13 / 600" by simp
  then have seek: "0 \<le> ts_seekLength s0"
    unfolding tempo_one_start_lengths(3) [OF st] by (simp only: zero_le_floor)
  have len: "int (length (new_Float32Array (ts_overlapLength s0 * 2))) = 2 * ts_overlapLength s0"
    using ov by (simp add: new_Float32Array_def)
  show ?thesis
    unfolding steady_tempo_one_def
    using ov seek lt len
    by (simp add: tempo_one_start_skip [OF st] tempo_one_start_buffers [OF st])
qed

lemma fifo_ok_new: "fifo_ok (Fifo_new c)"
  by (simp add: fifo_ok_def Fifo_new_def endIndex_def)

lemma clear_new: "clear (Fifo_new c) = Inr (Fifo_new c)"
  by (simp add: clear_def receive_def rewind_def Fifo_new_def)

lemma chunk_frames_steady:
  "2 * ts_overlapLength s \<le> ts_sequenceLength s
     \<Longrightarrow> chunk_frames s = ts_sequenceLength s - ts_overlapLength s"
  by (simp add: chunk_frames_def)

lemma ts_run_one_block:
  assumes inv: "steady_tempo_one s" and okI: "fifo_ok inp" and okO: "fifo_ok out"
  shows "\<exists>j s' inp' out'.
           ts_run s inp out [block] = Some (Inr (s', inp', out'))
         \<and> steady_tempo_one s'
         \<and> ts_overlapLength s' = ts_overlapLength s \<and> 0 \<le> j
         \<and> frameCount inp' + seed_frames s'
             = frameCount inp + int (length block) div 2 + seed_frames s
               - j * (ts_sequenceLength s - ts_overlapLength s)
         \<and> frameCount out' = frameCount out + j * chunk_frames s
         \<and> (ts_midBuffer s' \<noteq> None \<longrightarrow> frameCount inp' < ts_sampleReq s)
         \<and> (ts_midBuffer s \<noteq> None \<longrightarrow> ts_midBuffer s' \<noteq> None)
         \<and> (0 < j \<longrightarrow>
               ts_sampleReq s \<le> frameCount inp' + (ts_sequenceLength s - ts_overlapLength s))"
proof -
  have n: "0 \<le> int (length block) div 2" by simp
  from putSamples_count [OF okI n, of block 0] obtain inp1 where
    p: "putSamples inp block 0 (int (length block) div 2) = Inr inp1"
    and ok1: "fifo_ok inp1"
    and fc1: "frameCount inp1 = frameCount inp + int (length block) div 2"
    by blast
  from process_tempo_one [OF inv ok1 okO]
  obtain j s' inp' out' where
    pr: "TimeStretch_process s inp1 out = Some (Inr (s', inp', out'))"
    and inv': "steady_tempo_one s'"
    and ov': "ts_overlapLength s' = ts_overlapLength s"
    and j: "0 \<le> j"
    and ci: "frameCount inp' + seed_frames s'
               = frameCount inp1 + seed_frames s
                 - j * (ts_sequenceLength s - ts_overlapLength s)"
    and co: "frameCount out' = frameCount out + j * chunk_frames s"
    and lt: "ts_midBuffer s' \<noteq> None \<longrightarrow> frameCount inp' < ts_sampleReq s"
    and md: "ts_midBuffer s \<noteq> None \<longrightarrow> ts_midBuffer s' \<noteq> None"
    and lb: "0 < j \<longrightarrow> ts_sampleReq s
               \<le> frameCount inp' + (ts_sequenceLength s - ts_overlapLength s)"
    by blast
  have r: "ts_run s inp out [block] = Some (Inr (s', inp', out'))"
    using p pr by simp
  show ?thesis
    using r inv' ov' j ci co lt md lb unfolding fc1
    by (intro exI [of _ j] exI [of _ s'] exI [of _ inp'] exI [of _ out']) blast
qed

lemma ts_run_tempo_one:
  "steady_tempo_one s \<Longrightarrow> fifo_ok inp \<Longrightarrow> fifo_ok out
     \<Longrightarrow> \<exists>j s' inp' out'.
           ts_run s inp out blocks = Some (Inr (s', inp', out'))
         \<and> steady_tempo_one s'
         \<and> ts_sequenceLength s' = ts_sequenceLength s
         \<and> ts_overlapLength s' = ts_overlapLength s
         \<and> frameCount inp' + seed_frames s'
             = frameCount inp + frames_put blocks + seed_frames s
               - j * (ts_sequenceLength s - ts_overlapLength s)
         \<and> frameCount out' = frameCount out + j * chunk_frames s
         \<and> (ts_midBuffer s \<noteq> None \<longrightarrow> ts_midBuffer s' \<noteq> None)"
proof (induction blocks arbitrary: s inp out)
  case Nil
  show ?case
    using Nil.prems(1)
    by (intro exI [of _ 0] exI [of _ s] exI [of _ inp] exI [of _ out])
      (simp add: frames_put_def)
next
  case (Cons block blocks)
  let ?n = "int (length block) div 2"
  have n: "0 \<le> ?n" by simp
  from putSamples_count [OF Cons.prems(2) n, of block 0] obtain inp1 where
    p: "putSamples inp block 0 ?n = Inr inp1" and ok1: "fifo_ok inp1"
    and fc1: "frameCount inp1 = frameCount inp + ?n"
    by blast
  from process_tempo_one [OF Cons.prems(1) ok1 Cons.prems(3)]
  obtain j1 s1 inp2 out2 where
    pr: "TimeStretch_process s inp1 out = Some (Inr (s1, inp2, out2))"
    and inv1: "steady_tempo_one s1"
    and sq1: "ts_sequenceLength s1 = ts_sequenceLength s"
    and ov1: "ts_overlapLength s1 = ts_overlapLength s"
    and ok2: "fifo_ok inp2" "fifo_ok out2"
    and ci1: "frameCount inp2 + seed_frames s1
                = frameCount inp1 + seed_frames s
                  - j1 * (ts_sequenceLength s - ts_overlapLength s)"
    and co1: "frameCount out2 = frameCount out + j1 * chunk_frames s"
    and md1: "ts_midBuffer s \<noteq> None \<longrightarrow> ts_midBuffer s1 \<noteq> None"
    by blast
  from Cons.IH [OF inv1 ok2] obtain j2 s' inp' out' where
    run: "ts_run s1 inp2 out2 blocks = Some (Inr (s', inp', out'))"
    and inv2: "steady_tempo_one s'"
    and sq2: "ts_sequenceLength s' = ts_sequenceLength s1"
    and ov2: "ts_overlapLength s' = ts_overlapLength s1"
    and ci2: "frameCount inp' + seed_frames s'
                = frameCount inp2 + frames_put blocks + seed_frames s1
                  - j2 * (ts_sequenceLength s1 - ts_overlapLength s1)"
    and co2: "frameCount out' = frameCount out2 + j2 * chunk_frames s1"
    and md2: "ts_midBuffer s1 \<noteq> None \<longrightarrow> ts_midBuffer s' \<noteq> None"
    by blast
  have ch: "chunk_frames s1 = chunk_frames s" by (simp add: chunk_frames_def sq1 ov1)
  have r: "ts_run s inp out (block # blocks) = Some (Inr (s', inp', out'))"
    using p pr run by simp
  have fp: "frames_put (block # blocks) = ?n + frames_put blocks"
    by (simp add: frames_put_def)
  have ci: "frameCount inp' + seed_frames s'
              = frameCount inp + frames_put (block # blocks) + seed_frames s
                - (j1 + j2) * (ts_sequenceLength s - ts_overlapLength s)"
    using ci1 ci2 fc1 sq1 ov1 fp by (simp add: algebra_simps)
  have co: "frameCount out' = frameCount out + (j1 + j2) * chunk_frames s"
    using co1 co2 ch by (simp add: algebra_simps)
  show ?case
    using r inv2 sq1 sq2 ov1 ov2 ci co md1 md2
    by (intro exI [of _ "j1 + j2"] exI [of _ s'] exI [of _ inp'] exI [of _ out']) simp
qed

text \<open>
  Claim C5, amended.  Let \<open>setParameters\<close>, called on a new \<open>TimeStretch\<close> with automatic
  sequence and seek window, return, let the stretcher then be set to tempo 1, and let its
  sequence length be at least twice its overlap length (as it is at 44100 Hz with the default
  overlap of 16 ms).  Then, for every sequence of input blocks, each put into the input buffer
  and followed by \<open>process()\<close>, every call returns, the number of frames in the output
  buffer equals the number of frames taken from the input buffer, and the skip fraction is 0
  at the end of the run, so that it adds no drift.  When \<open>reset()\<close> is called before the run,
  the frames taken exceed the frames produced by the frames held in the mid buffer: by 0 until
  the mid buffer is seeded and by exactly one overlap length from then on; the skip fraction
  is 0 at the end of that run too.
\<close>

theorem tempo_one_is_length_neutral:
  assumes "tempo_one_start sampleRate overlapMs = Inr start"
    and "2 * ts_overlapLength start \<le> ts_sequenceLength start"
  shows "(\<exists>s' inp' out'.
            ts_run start (Fifo_new 4096) (Fifo_new 4096) blocks = Some (Inr (s', inp', out'))
          \<and> frameCount out' = frames_put blocks - frameCount inp'
          \<and> ts_skipFract s' = 0)
       \<and> (\<exists>z inp0 out0 s' inp' out'.
            TimeStretch_reset start (Fifo_new 4096) (Fifo_new 4096) = Inr (z, inp0, out0)
          \<and> ts_run z inp0 out0 blocks = Some (Inr (s', inp', out'))
          \<and> frames_put blocks - frameCount inp' - frameCount out' = seed_frames s'
          \<and> (seed_frames s' = 0 \<or> seed_frames s' = ts_overlapLength start)
          \<and> ts_skipFract s' = 0)"
proof -
  note st = assms(1)
  have ov: "16 \<le> ts_overlapLength start" by (rule tempo_one_start_overlap_ge [OF st])
  then have lt: "ts_overlapLength start < ts_sequenceLength start" using assms(2) by simp
  have inv: "steady_tempo_one start" by (rule tempo_one_start_steady [OF st lt])
  have ch: "chunk_frames start = ts_sequenceLength start - ts_overlapLength start"
    by (rule chunk_frames_steady [OF assms(2)])
  have sd: "seed_frames start = ts_overlapLength start"
    by (simp add: seed_frames_def tempo_one_start_buffers [OF st])
  have first: "\<exists>s' inp' out'.
      ts_run start (Fifo_new 4096) (Fifo_new 4096) blocks = Some (Inr (s', inp', out'))
    \<and> frameCount out' = frames_put blocks - frameCount inp'
    \<and> ts_skipFract s' = 0"
  proof -
    from ts_run_tempo_one [OF inv fifo_ok_new fifo_ok_new, of 4096 4096 blocks]
    obtain j s' inp' out' where
      r: "ts_run start (Fifo_new 4096) (Fifo_new 4096) blocks = Some (Inr (s', inp', out'))"
      and inv': "steady_tempo_one s'"
      and ov': "ts_overlapLength s' = ts_overlapLength start"
      and ci: "frameCount inp' + seed_frames s'
                 = frameCount (Fifo_new 4096) + frames_put blocks + seed_frames start
                   - j * (ts_sequenceLength start - ts_overlapLength start)"
      and co: "frameCount out' = frameCount (Fifo_new 4096) + j * chunk_frames start"
      and md: "ts_midBuffer start \<noteq> None \<longrightarrow> ts_midBuffer s' \<noteq> None"
      by blast
    have "ts_midBuffer s' \<noteq> None" using md by (simp add: tempo_one_start_buffers [OF st])
    then have "seed_frames s' = seed_frames start"
      using ov' sd by (auto simp add: seed_frames_def)
    then have "frameCount out' = frames_put blocks - frameCount inp'"
      using ci co ch by (simp add: Fifo_new_def)
    moreover have "ts_skipFract s' = 0" using inv' by (simp add: steady_tempo_one_def)
    ultimately show ?thesis using r by blast
  qed
  let ?z = "start\<lparr>ts_midBuffer := None, ts_skipFract := 0\<rparr>"
  have reset: "TimeStretch_reset start (Fifo_new 4096) (Fifo_new 4096)
                 = Inr (?z, Fifo_new 4096, Fifo_new 4096)"
    by (simp add: TimeStretch_reset_def clear_new)
  have inv0: "steady_tempo_one ?z" using inv by (simp add: steady_tempo_one_def)
  have ch0: "chunk_frames ?z = ts_sequenceLength start - ts_overlapLength start"
    using assms(2) by (simp add: chunk_frames_def)
  have sd0: "seed_frames ?z = 0" by (simp add: seed_frames_def)
  from ts_run_tempo_one [OF inv0 fifo_ok_new fifo_ok_new, of 4096 4096 blocks]
  obtain j s' inp' out' where
    r: "ts_run ?z (Fifo_new 4096) (Fifo_new 4096) blocks = Some (Inr (s', inp', out'))"
    and inv': "steady_tempo_one s'"
    and ov': "ts_overlapLength s' = ts_overlapLength ?z"
    and ci: "frameCount inp' + seed_frames s'
               = frameCount (Fifo_new 4096) + frames_put blocks + seed_frames ?z
                 - j * (ts_sequenceLength ?z - ts_overlapLength ?z)"
    and co: "frameCount out' = frameCount (Fifo_new 4096) + j * chunk_frames ?z"
    by blast
  have d: "frames_put blocks - frameCount inp' - frameCount out' = seed_frames s'"
    using ci co ch0 sd0 by (simp add: Fifo_new_def)
  have c: "seed_frames s' = 0 \<or> seed_frames s' = ts_overlapLength start"
    using ov' by (simp add: seed_frames_def split: option.splits)
  have k: "ts_skipFract s' = 0" using inv' by (simp add: steady_tempo_one_def)
  have second: "\<exists>z inp0 out0 s' inp' out'.
      TimeStretch_reset start (Fifo_new 4096) (Fifo_new 4096) = Inr (z, inp0, out0)
    \<and> ts_run z inp0 out0 blocks = Some (Inr (s', inp', out'))
    \<and> frames_put blocks - frameCount inp' - frameCount out' = seed_frames s'
    \<and> (seed_frames s' = 0 \<or> seed_frames s' = ts_overlapLength start)
    \<and> ts_skipFract s' = 0"
    using reset r d c k by blast
  show ?thesis using first second by (rule conjI)
qed

text \<open>The amended claim C5 at 44100 Hz with the default overlap of 16 ms (an overlap length
  of 704 frames in a sequence of 4410, a skip of 3706 and 5365 frames required) and one block
  of 5365 frames: \<open>process()\<close> runs one iteration, which takes 3706 frames from the input
  buffer, where 1659 stay, and appends 3706 frames to the output buffer.\<close>

theorem tempo_one_is_length_neutral_witness:
  "\<exists>start s' inp' out'.
       tempo_one_start 44100 16 = Inr start
     \<and> 2 * ts_overlapLength start \<le> ts_sequenceLength start
     \<and> ts_run start (Fifo_new 4096) (Fifo_new 4096) [replicate 10730 (Val 0)]
         = Some (Inr (s', inp', out'))
     \<and> frames_put [replicate 10730 (Val 0)] = 5365
     \<and> frameCount inp' = 1659
     \<and> frameCount out' = 3706
     \<and> frameCount out' = frames_put [replicate 10730 (Val 0)] - frameCount inp'
     \<and> ts_skipFract s' = 0"
proof -
  let ?b = "replicate 10730 (Val 0)"
  from tempo_one_start_returns [of 44100 16] obtain start where
    st: "tempo_one_start 44100 16 = Inr start"
    by (auto simp add: Float32Array_MAX_LENGTH_def)
  have ov: "ts_overlapLength start = 704" and sq: "ts_sequenceLength start = 4410"
    and sk: "ts_seekLength start = 955"
    by (simp_all add: tempo_one_start_lengths [OF st])
  have rq: "ts_sampleReq start = 5365" by (simp add: tempo_one_start_skip [OF st] sq sk)
  have h: "2 * ts_overlapLength start \<le> ts_sequenceLength start" by (simp add: ov sq)
  have inv: "steady_tempo_one start" by (rule tempo_one_start_steady [OF st]) (simp add: ov sq)
  have ch: "chunk_frames start = 3706" by (simp add: chunk_frames_def ov sq)
  have sd: "seed_frames start = 704"
    by (simp add: seed_frames_def tempo_one_start_buffers [OF st] ov)
  have fp: "frames_put [?b] = 5365" by (simp add: frames_put_def)
  from tempo_one_is_length_neutral [OF st h, of "[?b]"] obtain s' inp' out' where
    r: "ts_run start (Fifo_new 4096) (Fifo_new 4096) [?b] = Some (Inr (s', inp', out'))"
    and eq: "frameCount out' = frames_put [?b] - frameCount inp'"
    and fr: "ts_skipFract s' = 0"
    by blast
  from ts_run_one_block [OF inv fifo_ok_new fifo_ok_new, of 4096 4096 ?b]
  obtain j t inp2 out2 where
    r2: "ts_run start (Fifo_new 4096) (Fifo_new 4096) [?b] = Some (Inr (t, inp2, out2))"
    and ov': "ts_overlapLength t = ts_overlapLength start"
    and j: "0 \<le> j"
    and ci: "frameCount inp2 + seed_frames t
               = frameCount (Fifo_new 4096) + int (length ?b) div 2 + seed_frames start
                 - j * (ts_sequenceLength start - ts_overlapLength start)"
    and lt: "ts_midBuffer t \<noteq> None \<longrightarrow> frameCount inp2 < ts_sampleReq start"
    and md: "ts_midBuffer start \<noteq> None \<longrightarrow> ts_midBuffer t \<noteq> None"
    and lb: "0 < j \<longrightarrow> ts_sampleReq start
               \<le> frameCount inp2 + (ts_sequenceLength start - ts_overlapLength start)"
    by blast
  have same: "t = s'" "inp2 = inp'" "out2 = out'" using r r2 by simp_all
  have m': "ts_midBuffer t \<noteq> None" using md by (simp add: tempo_one_start_buffers [OF st])
  then have sd': "seed_frames t = 704" using ov' ov by (auto simp add: seed_frames_def)
  have ci': "frameCount inp2 = 5365 - j * 3706" using ci sd sd' ov sq by (simp add: Fifo_new_def)
  have up: "frameCount inp2 < 5365" using lt m' rq by simp
  have j0: "0 < j" using up ci' by linarith
  then have "5365 \<le> frameCount inp2 + 3706" using lb rq ov sq by simp
  then have "j < 2" using ci' by linarith
  then have j1: "j = 1" using j0 by simp
  have fi: "frameCount inp' = 1659" using ci' j1 same by simp
  have fo: "frameCount out' = 3706" using eq fp fi by simp
  show ?thesis
    using st h r fp fi fo eq fr by blast
qed

text \<open>
  Claim C5 as stated fails when the overlap is longer than half the sequence.  At 44100 Hz with
  an overlap of 60 ms the overlap length is 2640 frames, the sequence 4410 and the skip 1770:
  each iteration of \<open>process()\<close> appends 2640 frames to the output and takes 1770 from the
  input.  One block of 10675 frames runs four iterations: 3595 frames stay in the input
  buffer, so 7080 were taken, and 10560 are produced; the difference of 3480 frames exceeds
  one overlap window and grows with every further iteration.
\<close>

theorem wide_overlap_drifts_counterexample:
  "map_sum id ts_overlapLength (tempo_one_start 44100 60) = Inr 2640
   \<and> frames_put [replicate 21350 (Val 0)] = 10675
   \<and> map_option (map_sum id (frameCount \<circ> fst \<circ> snd))
        (thenP (Some (tempo_one_start 44100 60)) (\<lambda>start.
           ts_run start (Fifo_new 4096) (Fifo_new 4096) [replicate 21350 (Val 0)]))
      = Some (Inr 3595)
   \<and> map_option (map_sum id (frameCount \<circ> snd \<circ> snd))
        (thenP (Some (tempo_one_start 44100 60)) (\<lambda>start.
           ts_run start (Fifo_new 4096) (Fifo_new 4096) [replicate 21350 (Val 0)]))
      = Some (Inr 10560)"
proof -
  let ?b = "replicate 21350 (Val 0)"
  from tempo_one_start_returns [of 44100 60] obtain start where
    st: "tempo_one_start 44100 60 = Inr start"
    by (auto simp add: Float32Array_MAX_LENGTH_def)
  have ov: "ts_overlapLength start = 2640" and sq: "ts_sequenceLength start = 4410"
    and sk: "ts_seekLength start = 955"
    by (simp_all add: tempo_one_start_lengths [OF st])
  have rq: "ts_sampleReq start = 5365" by (simp add: tempo_one_start_skip [OF st] sq sk)
  have inv: "steady_tempo_one start" by (rule tempo_one_start_steady [OF st]) (simp add: ov sq)
  have ch: "chunk_frames start = 2640" by (simp add: chunk_frames_def ov sq)
  have sd: "seed_frames start = 2640"
    by (simp add: seed_frames_def tempo_one_start_buffers [OF st] ov)
  from ts_run_one_block [OF inv fifo_ok_new fifo_ok_new, of 4096 4096 ?b]
  obtain j s' inp' out' where
    r: "ts_run start (Fifo_new 4096) (Fifo_new 4096) [?b] = Some (Inr (s', inp', out'))"
    and ov': "ts_overlapLength s' = ts_overlapLength start"
    and j: "0 \<le> j"
    and ci: "frameCount inp' + seed_frames s'
               = frameCount (Fifo_new 4096) + int (length ?b) div 2 + seed_frames start
                 - j * (ts_sequenceLength start - ts_overlapLength start)"
    and co: "frameCount out' = frameCount (Fifo_new 4096) + j * chunk_frames start"
    and lt: "ts_midBuffer s' \<noteq> None \<longrightarrow> frameCount inp' < ts_sampleReq start"
    and md: "ts_midBuffer start \<noteq> None \<longrightarrow> ts_midBuffer s' \<noteq> None"
    and lb: "0 < j \<longrightarrow> ts_sampleReq start
               \<le> frameCount inp' + (ts_sequenceLength start - ts_overlapLength start)"
    by blast
  have m': "ts_midBuffer s' \<noteq> None" using md by (simp add: tempo_one_start_buffers [OF st])
  then have sd': "seed_frames s' = 2640" using ov' ov by (auto simp add: seed_frames_def)
  have ci': "frameCount inp' = 10675 - j * 1770"
    using ci sd sd' ov sq by (simp add: Fifo_new_def)
  have up: "frameCount inp' < 5365" using lt m' rq by simp
  have j3: "3 < j" using up ci' by linarith
  then have "5365 \<le> frameCount inp' + 1770" using lb rq ov sq by simp
  then have "j < 5" using ci' by linarith
  then have j4: "j = 4" using j3 by simp
  have "frameCount inp' = 3595" using ci' j4 by simp
  moreover have "frameCount out' = 10560" using co ch j4 by (simp add: Fifo_new_def)
  moreover have "frames_put [?b] = 10675" by (simp add: frames_put_def)
  ultimately show ?thesis using ov r st by simp
qed
section \<open>A block for which the engine has too little output\<close>

lemma rp_push_block_fields:
  "rp_stretcher (snd (rp_push_block W p x input n ps fs)) = rp_stretcher p"
  "rp_bypassed (snd (rp_push_block W p x input n ps fs)) = rp_bypassed p"
  "rp_fadeCounter (snd (rp_push_block W p x input n ps fs)) = rp_fadeCounter p"
  "rp_ready (snd (rp_push_block W p x input n ps fs)) = rp_ready p"
  "rp_channels (snd (rp_push_block W p x input n ps fs)) = rp_channels p"
  by (simp_all add: rp_push_block_def Let_def split_def)

lemma rp_update_bypass_running:
  "rp_bypassed (rp_update_bypass p False) = False"
  by (simp add: rp_update_bypass_def)

lemma rubberband_underrun:
  assumes run: "\<not> rp_shouldBypass pitchScale enabledParam"
    and ready: "rp_wasm p = Some x" "rp_ready p" "rp_stretcher p \<noteq> 0"
    and io: "input \<noteq> []" "output \<noteq> []"
    and len: "\<forall>c \<in> set input. length c = n" "\<forall>c \<in> set output. length c = n"
    and under: "rubberband_available W
                  (fst (rp_push_block W (rp_update_bypass p False) x input (int n)
                          pitchScale formantScale))
                  (rp_stretcher p) < int n"
  shows "RubberbandProcessor_process W p input output pitchScale formantScale enabledParam
           = Inr ((snd (rp_push_block W (rp_update_bypass p False) x input (int n)
                          pitchScale formantScale))
                    \<lparr>rp_wasm := Some (fst (rp_push_block W (rp_update_bypass p False) x input
                                              (int n) pitchScale formantScale))\<rparr>,
                  map (source_channel input) [0..<length output])"
proof -
  have pt: "passthrough input output = Inr (map (source_channel input) [0..<length output])"
    by (rule passthrough_same_lengths) (rule source_channel_lengths [OF io(1) len])
  have n: "length (input ! 0) = n" using io(1) len(1) by (cases input) simp_all
  show ?thesis
    using run ready io under
    by (simp add: RubberbandProcessor_process_def Let_def rp_update_bypass_fields
        rp_update_bypass_running rp_push_block_fields pt n split_def)
qed

lemma sp_run_append:
  "sp_run st (xs @ ys) semitone cents enabledParam
     = thenP (sp_run st xs semitone cents enabledParam)
         (\<lambda>st'. sp_run st' ys semitone cents enabledParam)"
proof (induction xs arbitrary: st)
  case Nil
  show ?case by simp
next
  case (Cons x xs)
  show ?case
    by (cases "SoundTouchProcessor_process (fst st) x
                 (map (\<lambda>channel. replicate (length channel) (Val 0)) x)
                 semitone cents enabledParam")
      (auto simp add: Cons.IH thenP_def split: sum.splits)
qed

lemma sp_push_one_frame:
  assumes "fifo_ok (sp_engine_input e)"
    and "frameCount (sp_engine_input e) + 1 < 4096"
  shows "\<exists>inp. sp_push e left right 1
               = Some (Inr (e\<lparr>se_buffers := (se_buffers e)(EngineInput := inp)\<rparr>))
             \<and> fifo_ok inp \<and> frameCount inp = frameCount (sp_engine_input e) + 1"
proof -
  from putSamples_count [OF assms(1), of 1 "sp_interleave left right 1" 0] obtain inp where
    p: "putSamples (sp_engine_input e) (sp_interleave left right 1) 0 1 = Inr inp"
    and ok: "fifo_ok inp"
    and fc: "frameCount inp = frameCount (sp_engine_input e) + 1"
    by auto
  have "sp_push e left right 1
          = Some (Inr (e\<lparr>se_buffers := (se_buffers e)(EngineInput := inp)\<rparr>))"
    using p fc assms(2)
    by (simp add: sp_push_def Let_def sp_engine_input_def ST_MIN_FRAMES_FOR_PROCESSING_def)
  then show ?thesis using ok fc by blast
qed

lemma starved_feed:
  assumes "starved q" and "frameCount (sp_engine_input (sp_soundTouch q)) + 1 < 4096"
  shows "\<exists>e. sp_feed q [Val 1] [Val 1] 1
               = Some (Inr (q\<lparr>sp_soundTouch := e, sp_outputBuffer := replicate 256 (Val 0)\<rparr>))
             \<and> fifo_ok (sp_engine_input e)
             \<and> frameCount (sp_engine_input e) = frameCount (sp_engine_input (sp_soundTouch q)) + 1
             \<and> frameCount (sp_engine_output e) = 0"
proof -
  let ?e = "sp_soundTouch q"
  have ok: "fifo_ok (sp_engine_input ?e)" and out0: "frameCount (sp_engine_output ?e) = 0"
    and lob: "length (sp_outputBuffer q) = 256"
    using assms(1) by (simp_all add: starved_def)
  from sp_push_one_frame [OF ok assms(2), of "[Val 1]" "[Val 1]"] obtain inp where
    push: "sp_push ?e [Val 1] [Val 1] 1
             = Some (Inr (?e\<lparr>se_buffers := (se_buffers ?e)(EngineInput := inp)\<rparr>))"
    and oki: "fifo_ok inp" and fci: "frameCount inp = frameCount (sp_engine_input ?e) + 1"
    by blast
  let ?e1 = "?e\<lparr>se_buffers := (se_buffers ?e)(EngineInput := inp)\<rparr>"
  have o1: "frameCount (sp_engine_output ?e1) = 0"
    using out0 by (simp add: sp_engine_output_def)
  have ex: "sp_extract q ?e1 1
              = Inr (q\<lparr>sp_soundTouch := ?e1, sp_outputBuffer := replicate 256 (Val 0)\<rparr>)"
    using o1 lob by (simp add: sp_extract_def Let_def)
  have "sp_feed q [Val 1] [Val 1] 1
          = Some (Inr (q\<lparr>sp_soundTouch := ?e1, sp_outputBuffer := replicate 256 (Val 0)\<rparr>))"
    using push ex by (simp add: sp_feed_def)
  moreover have "fifo_ok (sp_engine_input ?e1)" using oki by (simp add: sp_engine_input_def)
  moreover have "frameCount (sp_engine_input ?e1) = frameCount (sp_engine_input ?e) + 1"
    using fci by (simp add: sp_engine_input_def)
  ultimately show ?thesis using o1 by blast
qed

lemma starved_step:
  assumes "starved q" and "frameCount (sp_engine_input (sp_soundTouch q)) + 1 < 4096"
  shows "\<exists>q' out.
           SoundTouchProcessor_process q [[Val 1]] [[Val 0]] 12 0 1 = Some (Inr (q', out))
         \<and> starved q'
         \<and> frameCount (sp_engine_input (sp_soundTouch q'))
             = frameCount (sp_engine_input (sp_soundTouch q)) + 1
         \<and> (if sp_skipBufferCounter q > 0
             then sp_skipBufferCounter q' = sp_skipBufferCounter q - 1
                \<and> sp_skipBuffer q' = sp_skipBuffer q \<and> sp_fadeCounter q' = sp_fadeCounter q
                \<and> out = [[Val 1]]
             else sp_skipBufferCounter q' = sp_skipBufferCounter q \<and> \<not> sp_skipBuffer q'
                \<and> (if sp_skipBuffer q then sp_fadeCounter q' = 63
                    else if sp_fadeCounter q > 0 then sp_fadeCounter q' = sp_fadeCounter q - 1
                    else sp_fadeCounter q' = sp_fadeCounter q \<and> out = [[Val 0]]))"
proof -
  have nb: "\<not> sp_bypassed q" and pp: "sp_previousPitch q = 2"
    using assms(1) by (simp_all add: starved_def)
  have up: "sp_update_pitch q 12 0 1 = q" using pp by (simp add: sp_update_pitch_def Let_def)
  have sb: "\<not> sp_shouldBypass 12 0 1" by (simp add: sp_shouldBypass_def Let_def)
  have ub: "sp_update_bypass q False = Inr q" using nb by (simp add: sp_update_bypass_def)
  from starved_feed [OF assms] obtain e where
    feed: "sp_feed q [Val 1] [Val 1] 1
             = Some (Inr (q\<lparr>sp_soundTouch := e, sp_outputBuffer := replicate 256 (Val 0)\<rparr>))"
    and e: "fifo_ok (sp_engine_input e)"
      "frameCount (sp_engine_input e) = frameCount (sp_engine_input (sp_soundTouch q)) + 1"
      "frameCount (sp_engine_output e) = 0"
    by blast
  let ?q3 = "q\<lparr>sp_soundTouch := e, sp_outputBuffer := replicate 256 (Val 0)\<rparr>"
  have pr: "SoundTouchProcessor_process q [[Val 1]] [[Val 0]] 12 0 1
              = Some (sp_emit ?q3 [Val 1] [Val 1] 1 [[Val 0]])"
    using up sb ub nb feed by (simp add: SoundTouchProcessor_process_def Let_def)
  have st: "starved (q'\<lparr>sp_soundTouch := e, sp_outputBuffer := replicate 256 (Val 0)\<rparr>)"
    if "\<not> sp_bypassed q'" and "sp_previousPitch q' = 2" for q'
    using that e by (simp add: starved_def)
  show ?thesis
  proof (cases "sp_skipBufferCounter q > 0")
    case True
    have "sp_emit ?q3 [Val 1] [Val 1] 1 [[Val 0]]
            = Inr (?q3\<lparr>sp_skipBufferCounter := sp_skipBufferCounter q - 1\<rparr>, [[Val 1]])"
      using True by (simp add: sp_emit_def sp_passthrough_def set_arr_def)
    then show ?thesis
      using pr True e nb pp
      by (intro exI [of _ "?q3\<lparr>sp_skipBufferCounter := sp_skipBufferCounter q - 1\<rparr>"]
          exI [of _ "[[Val 1]]"]) (simp add: starved_def)
  next
    case False
    show ?thesis
    proof (cases "sp_skipBuffer q")
      case True
      have "\<exists>out. sp_emit ?q3 [Val 1] [Val 1] 1 [[Val 0]]
              = Inr (?q3\<lparr>sp_fadeCounter := 63, sp_skipBuffer := False\<rparr>, out)"
        using False True by (simp add: sp_emit_def Let_def ST_FADE_FRAMES_def)
      then obtain out where
        "sp_emit ?q3 [Val 1] [Val 1] 1 [[Val 0]]
           = Inr (?q3\<lparr>sp_fadeCounter := 63, sp_skipBuffer := False\<rparr>, out)"
        by blast
      then show ?thesis
        using pr False True e nb pp
        by (intro exI [of _ "?q3\<lparr>sp_fadeCounter := 63, sp_skipBuffer := False\<rparr>"]
            exI [of _ out]) (simp add: starved_def)
    next
      case nsb: False
      show ?thesis
      proof (cases "sp_fadeCounter q > 0")
        case True
        have "\<exists>out. sp_emit ?q3 [Val 1] [Val 1] 1 [[Val 0]]
                = Inr (?q3\<lparr>sp_fadeCounter := sp_fadeCounter q - 1\<rparr>, out)"
          using False nsb True by (simp add: sp_emit_def Let_def)
        then obtain out where
          "sp_emit ?q3 [Val 1] [Val 1] 1 [[Val 0]]
             = Inr (?q3\<lparr>sp_fadeCounter := sp_fadeCounter q - 1\<rparr>, out)"
          by blast
        then show ?thesis
          using pr False nsb True e nb pp
          by (intro exI [of _ "?q3\<lparr>sp_fadeCounter := sp_fadeCounter q - 1\<rparr>"]
              exI [of _ out]) (simp add: starved_def)
      next
        case nf: False
        have "sp_emit ?q3 [Val 1] [Val 1] 1 [[Val 0]] = Inr (?q3, [[Val 0]])"
          using False nsb nf
          by (simp add: sp_emit_def Let_def sp_emit_wet_def wr_def rd_replicate)
        then show ?thesis
          using pr False nsb nf e nb pp
          by (intro exI [of _ ?q3] exI [of _ "[[Val 0]]"]) (simp add: starved_def)
      qed
    qed
  qed
qed

lemma starved_skip_phase:
  "starved q \<Longrightarrow> sp_skipBufferCounter q = int c
     \<Longrightarrow> frameCount (sp_engine_input (sp_soundTouch q)) + int c < 4096
     \<Longrightarrow> \<exists>q' out'.
           sp_run (q, out) (replicate c [[Val 1]]) 12 0 1 = Some (Inr (q', out'))
         \<and> starved q' \<and> sp_skipBufferCounter q' = 0
         \<and> sp_skipBuffer q' = sp_skipBuffer q \<and> sp_fadeCounter q' = sp_fadeCounter q
         \<and> frameCount (sp_engine_input (sp_soundTouch q'))
             = frameCount (sp_engine_input (sp_soundTouch q)) + int c"
proof (induction c arbitrary: q out)
  case 0
  then show ?case by simp
next
  case (Suc c)
  have room: "frameCount (sp_engine_input (sp_soundTouch q)) + 1 < 4096"
    using Suc.prems(3) by simp
  from starved_step [OF Suc.prems(1) room] Suc.prems(2) obtain q1 out1 where
    pr: "SoundTouchProcessor_process q [[Val 1]] [[Val 0]] 12 0 1 = Some (Inr (q1, out1))"
    and st: "starved q1"
    and fc: "frameCount (sp_engine_input (sp_soundTouch q1))
               = frameCount (sp_engine_input (sp_soundTouch q)) + 1"
    and c1: "sp_skipBufferCounter q1 = int c"
    and keep: "sp_skipBuffer q1 = sp_skipBuffer q" "sp_fadeCounter q1 = sp_fadeCounter q"
    by auto
  have room1: "frameCount (sp_engine_input (sp_soundTouch q1)) + int c < 4096"
    using Suc.prems(3) fc by simp
  from Suc.IH [OF st c1 room1, of out1] obtain q' out' where
    "sp_run (q1, out1) (replicate c [[Val 1]]) 12 0 1 = Some (Inr (q', out'))"
    "starved q'" "sp_skipBufferCounter q' = 0"
    "sp_skipBuffer q' = sp_skipBuffer q1" "sp_fadeCounter q' = sp_fadeCounter q1"
    "frameCount (sp_engine_input (sp_soundTouch q'))
       = frameCount (sp_engine_input (sp_soundTouch q1)) + int c"
    by blast
  then show ?case
    using pr keep fc by (intro exI [of _ q'] exI [of _ out']) simp
qed

lemma starved_fade_phase:
  "starved q \<Longrightarrow> sp_skipBufferCounter q = 0 \<Longrightarrow> \<not> sp_skipBuffer q
     \<Longrightarrow> sp_fadeCounter q = int f
     \<Longrightarrow> frameCount (sp_engine_input (sp_soundTouch q)) + int f < 4096
     \<Longrightarrow> \<exists>q' out'.
           sp_run (q, out) (replicate f [[Val 1]]) 12 0 1 = Some (Inr (q', out'))
         \<and> starved q' \<and> sp_skipBufferCounter q' = 0 \<and> \<not> sp_skipBuffer q'
         \<and> sp_fadeCounter q' = 0
         \<and> frameCount (sp_engine_input (sp_soundTouch q'))
             = frameCount (sp_engine_input (sp_soundTouch q)) + int f"
proof (induction f arbitrary: q out)
  case 0
  then show ?case by simp
next
  case (Suc f)
  have room: "frameCount (sp_engine_input (sp_soundTouch q)) + 1 < 4096"
    using Suc.prems(5) by simp
  from starved_step [OF Suc.prems(1) room] Suc.prems(2,3,4) obtain q1 out1 where
    pr: "SoundTouchProcessor_process q [[Val 1]] [[Val 0]] 12 0 1 = Some (Inr (q1, out1))"
    and st: "starved q1"
    and fc: "frameCount (sp_engine_input (sp_soundTouch q1))
               = frameCount (sp_engine_input (sp_soundTouch q)) + 1"
    and c1: "sp_skipBufferCounter q1 = 0" "\<not> sp_skipBuffer q1" "sp_fadeCounter q1 = int f"
    by auto
  have room1: "frameCount (sp_engine_input (sp_soundTouch q1)) + int f < 4096"
    using Suc.prems(5) fc by simp
  from Suc.IH [OF st c1 room1, of out1] obtain q' out' where
    "sp_run (q1, out1) (replicate f [[Val 1]]) 12 0 1 = Some (Inr (q', out'))"
    "starved q'" "sp_skipBufferCounter q' = 0" "\<not> sp_skipBuffer q'" "sp_fadeCounter q' = 0"
    "frameCount (sp_engine_input (sp_soundTouch q'))
       = frameCount (sp_engine_input (sp_soundTouch q1)) + int f"
    by blast
  then show ?case
    using pr fc by (intro exI [of _ q'] exI [of _ out']) simp
qed

lemma se_buffers_set_pitchSemitones:
  "se_buffers (SoundTouchEngine_set_pitchSemitones e v) = se_buffers e"
  by (simp add: SoundTouchEngine_set_pitchSemitones_def SoundTouchEngine_set_pitch_def
      w_calculateEffectiveRateAndTempo_fields)

lemma SoundTouchProcessor_new_Inr:
  assumes "SoundTouchProcessor_new sr = Inr p"
  shows "\<exists>e. SoundTouchEngine_new sr = Inr e
           \<and> p = \<lparr>sp_soundTouch = e, sp_outputBuffer = new_Float32Array (ST_BLOCK_SIZE * 2),
                   sp_bypassed = True, sp_fadeCounter = 0, sp_previousPitch = 1,
                   sp_skipBuffer = False, sp_skipBufferCounter = 0\<rparr>"
  using assms unfolding SoundTouchProcessor_new_def thenE_eq_Inr sum.inject by blast

lemma SoundTouchProcessor_new_returns:
  "\<exists>p. SoundTouchProcessor_new 44100 = Inr p"
proof -
  from SoundTouchEngine_new_returns [of 44100] obtain e where
    "SoundTouchEngine_new 44100 = Inr e"
    by (auto simp add: Float32Array_MAX_LENGTH_def)
  then show ?thesis by (simp add: SoundTouchProcessor_new_def)
qed

lemma first_block_starts_skip_period:
  assumes "SoundTouchProcessor_new sr = Inr p"
  shows "\<exists>q1. SoundTouchProcessor_process p [[Val 1]] [[Val 0]] 12 0 1
           = Some (Inr (q1, [[Val 1]]))
       \<and> starved q1 \<and> sp_skipBufferCounter q1 = 31 \<and> sp_skipBuffer q1
       \<and> sp_fadeCounter q1 = 0
       \<and> frameCount (sp_engine_input (sp_soundTouch q1)) = 1"
proof -
  from SoundTouchProcessor_new_Inr [OF assms] obtain e0 where
    en: "SoundTouchEngine_new sr = Inr e0"
    and pd: "p = \<lparr>sp_soundTouch = e0, sp_outputBuffer = new_Float32Array (ST_BLOCK_SIZE * 2),
                  sp_bypassed = True, sp_fadeCounter = 0, sp_previousPitch = 1,
                  sp_skipBuffer = False, sp_skipBufferCounter = 0\<rparr>"
    by blast
  let ?e = "SoundTouchEngine_set_pitchSemitones e0 12"
  let ?q = "p\<lparr>sp_skipBuffer := True, sp_skipBufferCounter := 32, sp_bypassed := False,
               sp_soundTouch := ?e, sp_previousPitch := 2\<rparr>"
  have sb: "\<not> sp_shouldBypass 12 0 1" by (simp add: sp_shouldBypass_def Let_def)
  have up: "sp_update_pitch p 12 0 1
              = p\<lparr>sp_skipBuffer := True, sp_skipBufferCounter := 32,
                   sp_soundTouch := ?e, sp_previousPitch := 2\<rparr>"
    using sb by (simp add: sp_update_pitch_def Let_def pd)
  have ub: "sp_update_bypass (sp_update_pitch p 12 0 1) False = Inr ?q"
    unfolding up by (simp add: sp_update_bypass_def pd)
  have bufs: "se_buffers ?e = (\<lambda>r. Fifo_new 4096)"
    by (simp add: se_buffers_set_pitchSemitones SoundTouchEngine_new_fields(5) [OF en])
  have stq: "starved ?q"
    by (simp add: starved_def pd new_Float32Array_def ST_BLOCK_SIZE_def
        sp_engine_input_def sp_engine_output_def bufs fifo_ok_def endIndex_def Fifo_new_def)
  have room: "frameCount (sp_engine_input (sp_soundTouch ?q)) + 1 < 4096"
    by (simp add: sp_engine_input_def bufs Fifo_new_def)
  from starved_feed [OF stq room] obtain e where
    feed: "sp_feed ?q [Val 1] [Val 1] 1
             = Some (Inr (?q\<lparr>sp_soundTouch := e, sp_outputBuffer := replicate 256 (Val 0)\<rparr>))"
    and e: "fifo_ok (sp_engine_input e)"
      "frameCount (sp_engine_input e) = frameCount (sp_engine_input (sp_soundTouch ?q)) + 1"
      "frameCount (sp_engine_output e) = 0"
    by blast
  let ?q3 = "?q\<lparr>sp_soundTouch := e, sp_outputBuffer := replicate 256 (Val 0)\<rparr>"
  have emit: "sp_emit ?q3 [Val 1] [Val 1] 1 [[Val 0]]
                = Inr (?q3\<lparr>sp_skipBufferCounter := 31\<rparr>, [[Val 1]])"
    by (simp add: sp_emit_def sp_passthrough_def set_arr_def)
  have pr: "SoundTouchProcessor_process p [[Val 1]] [[Val 0]] 12 0 1
              = Some (Inr (?q3\<lparr>sp_skipBufferCounter := 31\<rparr>, [[Val 1]]))"
    using sb ub feed emit by (simp add: SoundTouchProcessor_process_def Let_def)
  have fc: "frameCount (sp_engine_input e) = 1"
    using e(2) by (simp add: sp_engine_input_def bufs Fifo_new_def)
  have f0: "sp_fadeCounter p = 0" by (simp add: pd)
  show ?thesis
    using pr e fc f0
    by (intro exI [of _ "?q3\<lparr>sp_skipBufferCounter := 31\<rparr>"]) (simp add: starved_def)
qed

text \<open>The processor of the external stretcher, running at pitch scale 2 on a stretcher that
  has no output available, returns the input block (1) as its output.\<close>

lemma rubberband_underrun_block:
  "map_sum id snd
     (RubberbandProcessor_process
        \<lparr>rubberband_set_pitch_scale = (\<lambda>x h v. x),
         rubberband_set_formant_scale = (\<lambda>x h v. x),
         rubberband_process = (\<lambda>x h n. x), rubberband_available = (\<lambda>x h. 0),
         rubberband_retrieve = (\<lambda>x h n. x), heap_set_input = (\<lambda>x ch a. x),
         heap_get_output = (\<lambda>x ch n. [])\<rparr>
        \<lparr>rp_wasm = Some (), rp_stretcher = 1, rp_channels = 1, rp_ready = True,
         rp_bypassed = False, rp_previousPitchScale = 2, rp_previousFormantScale = 1,
         rp_fadeCounter = 0\<rparr>
        [[Val 1]] [[Val 0]] 2 1 1)
     = Inr [[Val 1]]"
proof -
  let ?W = "\<lparr>rubberband_set_pitch_scale = (\<lambda>x h v. x), rubberband_set_formant_scale = (\<lambda>x h v. x),
      rubberband_process = (\<lambda>x h n. x), rubberband_available = (\<lambda>x h. 0),
      rubberband_retrieve = (\<lambda>x h n. x), heap_set_input = (\<lambda>x ch a. x),
      heap_get_output = (\<lambda>x ch n. [])\<rparr> :: unit RubberbandWasm"
  let ?p = "\<lparr>rp_wasm = Some (), rp_stretcher = 1, rp_channels = 1, rp_ready = True,
      rp_bypassed = False, rp_previousPitchScale = 2, rp_previousFormantScale = 1,
      rp_fadeCounter = 0\<rparr>"
  let ?b = "[[Val 1 :: sample]]"
  have r1: "\<not> rp_shouldBypass 2 1" by (simp add: rp_shouldBypass_def)
  have r9: "rubberband_available ?W
              (fst (rp_push_block ?W (rp_update_bypass ?p False) () ?b (int 1) 2 1))
              (rp_stretcher ?p) < int 1"
    by simp
  from rubberband_underrun [of 2 1 ?p "()" ?b "[[Val 0]]" 1 ?W 1, OF r1 _ _ _ _ _ _ _ r9]
  have "RubberbandProcessor_process ?W ?p ?b [[Val 0]] 2 1 1
          = Inr ((snd (rp_push_block ?W (rp_update_bypass ?p False) () ?b (int 1) 2 1))
                   \<lparr>rp_wasm := Some (fst (rp_push_block ?W (rp_update_bypass ?p False) () ?b
                                             (int 1) 2 1))\<rparr>,
                 map (source_channel ?b) [0..<length [[Val 0 :: sample]]])"
    by simp
  then show ?thesis by (simp add: source_channel_def)
qed

text \<open>
  Claim C1 (a block for which the engine has too little processed output is passed through,
  never silenced), evaluated on the SoundTouch worklet.  A new processor at 44100 Hz is run at
  12 semitones on 97 input blocks of one frame (1).  The first block starts the skip period,
  during which 32 blocks are passed through; the fade that follows takes 64 blocks; the
  engine, which processes once 4096 frames wait in its input, has produced nothing by then.
  The 97th block finds the processor running, outside the skip period and the fade, with
  fewer frames buffered than the block holds, and comes out as (0), not as the input (1).
  The processor of the external stretcher passes such a block through
  (\<open>rubberband_underrun\<close>).
\<close>

theorem worklet_underrun_emits_zero_block:
  "map_option (map_sum id snd)
     (thenP (Some (SoundTouchProcessor_new 44100)) (\<lambda>p.
        sp_run (p, []) (replicate 97 [[Val 1]]) 12 0 1))
     = Some (Inr [[Val 0]])"
proof -
  let ?b = "[[Val 1 :: sample]]"
  have split: "replicate 97 ?b
                 = ?b # (replicate 31 ?b @ (?b # (replicate 63 ?b @ [?b])))"
  proof -
    have "replicate (1 + (31 + (1 + (63 + 1)))) ?b
            = replicate 1 ?b @ replicate 31 ?b @ replicate 1 ?b @ replicate 63 ?b @ replicate 1 ?b"
      by (simp only: replicate_add)
    then show ?thesis by simp
  qed
  from SoundTouchProcessor_new_returns obtain p where
    new: "SoundTouchProcessor_new 44100 = Inr p"
    by blast
  from first_block_starts_skip_period [OF new] obtain q1 where
    b1: "SoundTouchProcessor_process p ?b [[Val 0]] 12 0 1 = Some (Inr (q1, ?b))"
    and s1: "starved q1" and c1: "sp_skipBufferCounter q1 = int 31" and k1: "sp_skipBuffer q1"
    and f1: "sp_fadeCounter q1 = 0"
    and n1: "frameCount (sp_engine_input (sp_soundTouch q1)) = 1"
    by auto
  have m1: "frameCount (sp_engine_input (sp_soundTouch q1)) + int 31 < 4096" using n1 by simp
  from starved_skip_phase [OF s1 c1 m1, of ?b] obtain q2 out2 where
    b2: "sp_run (q1, ?b) (replicate 31 ?b) 12 0 1 = Some (Inr (q2, out2))"
    and s2: "starved q2" and c2: "sp_skipBufferCounter q2 = 0" and k2: "sp_skipBuffer q2"
    and f2: "sp_fadeCounter q2 = 0"
    and n2: "frameCount (sp_engine_input (sp_soundTouch q2)) = 32"
    using k1 f1 n1 by auto
  have m2: "frameCount (sp_engine_input (sp_soundTouch q2)) + 1 < 4096" using n2 by simp
  from starved_step [OF s2 m2] c2 k2 obtain q3 out3 where
    b3: "SoundTouchProcessor_process q2 ?b [[Val 0]] 12 0 1 = Some (Inr (q3, out3))"
    and s3: "starved q3" and c3: "sp_skipBufferCounter q3 = 0" and k3: "\<not> sp_skipBuffer q3"
    and f3: "sp_fadeCounter q3 = int 63"
    and n3: "frameCount (sp_engine_input (sp_soundTouch q3)) = 33"
    using n2 by auto
  have m3: "frameCount (sp_engine_input (sp_soundTouch q3)) + int 63 < 4096" using n3 by simp
  from starved_fade_phase [OF s3 c3 k3 f3 m3, of out3] obtain q4 out4 where
    b4: "sp_run (q3, out3) (replicate 63 ?b) 12 0 1 = Some (Inr (q4, out4))"
    and s4: "starved q4" and c4: "sp_skipBufferCounter q4 = 0" and k4: "\<not> sp_skipBuffer q4"
    and f4: "sp_fadeCounter q4 = 0"
    and n4: "frameCount (sp_engine_input (sp_soundTouch q4)) = 96"
    using n3 by auto
  have m4: "frameCount (sp_engine_input (sp_soundTouch q4)) + 1 < 4096" using n4 by simp
  from starved_step [OF s4 m4] c4 k4 f4 obtain q5 where
    b5: "SoundTouchProcessor_process q4 ?b [[Val 0]] 12 0 1 = Some (Inr (q5, [[Val 0]]))"
    by auto
  have "sp_run (p, []) (replicate 97 ?b) 12 0 1 = Some (Inr (q5, [[Val 0]]))"
    unfolding split using b1 b2 b3 b4 b5 by (simp add: sp_run_append)
  then show ?thesis using new by simp
qed

end
